theory Spec2Isabelle
  imports Complex_Main "HOL-Library.AList" "HOL-Library.Sublist" "HOL-Library.Multiset"
begin

section \<open>Python strings\<close>

text \<open>
  A Python \<^verbatim>\<open>str\<close> is modelled by the byte sequence of its UTF-8 encoding, so a
  \<^typ>\<open>string\<close> here is what \<^verbatim>\<open>s.encode('utf-8')\<close> gives.  Substring tests, splitting
  at an ASCII character and percent-encoding agree with Python on that representation.
  White space and decimal digits are those of Unicode 14.0, recognised by their
  encodings.
\<close>

text \<open>
  The characters that \<^verbatim>\<open>str.isspace\<close> accepts: ten in ASCII, and beyond ASCII
  U+0085, U+00A0, U+1680, U+2000 to U+200A, U+2028, U+2029, U+202F, U+205F and U+3000.
\<close>

definition ascii_spaces :: "char list" where
  "ascii_spaces =
     [CHR 0x09, CHR 0x0A, CHR 0x0B, CHR 0x0C, CHR 0x0D,
      CHR 0x1C, CHR 0x1D, CHR 0x1E, CHR 0x1F, CHR 0x20]"

definition unicode_spaces :: "string list" where
  "unicode_spaces =
     [[CHR 0xC2, CHR 0x85], [CHR 0xC2, CHR 0xA0], [CHR 0xE1, CHR 0x9A, CHR 0x80],
      [CHR 0xE2, CHR 0x80, CHR 0x80], [CHR 0xE2, CHR 0x80, CHR 0x81],
      [CHR 0xE2, CHR 0x80, CHR 0x82], [CHR 0xE2, CHR 0x80, CHR 0x83],
      [CHR 0xE2, CHR 0x80, CHR 0x84], [CHR 0xE2, CHR 0x80, CHR 0x85],
      [CHR 0xE2, CHR 0x80, CHR 0x86], [CHR 0xE2, CHR 0x80, CHR 0x87],
      [CHR 0xE2, CHR 0x80, CHR 0x88], [CHR 0xE2, CHR 0x80, CHR 0x89],
      [CHR 0xE2, CHR 0x80, CHR 0x8A], [CHR 0xE2, CHR 0x80, CHR 0xA8],
      [CHR 0xE2, CHR 0x80, CHR 0xA9], [CHR 0xE2, CHR 0x80, CHR 0xAF],
      [CHR 0xE2, CHR 0x81, CHR 0x9F], [CHR 0xE3, CHR 0x80, CHR 0x80]]"

definition py_spaces :: "string list" where
  "py_spaces = map (\<lambda>c. [c]) ascii_spaces @ unicode_spaces"

text \<open>
  Dropping from the front of a string every character of a table of encodings.  In a
  string that is the encoding of a text, the bytes of one of these characters at the very
  front or at the very end are that character.
\<close>

function strip_front :: "string list \<Rightarrow> string \<Rightarrow> string" where
  "strip_front table s =
     (case find (\<lambda>p. p \<noteq> [] \<and> prefix p s) table of
        None \<Rightarrow> s
      | Some p \<Rightarrow> strip_front table (drop (length p) s))"
  by pat_completeness auto

termination
proof (relation "measure (\<lambda>(table, s). length s)")
  show "wf (measure (\<lambda>(table, s). length s))" by simp
next
  fix table :: "string list" and s p :: string
  assume "find (\<lambda>p. p \<noteq> [] \<and> prefix p s) table = Some p"
  then have "p \<noteq> []" and "prefix p s" by (auto simp: find_Some_iff)
  then show "((table, drop (length p) s), (table, s)) \<in> measure (\<lambda>(table, s). length s)"
    by (cases p) (auto dest: prefix_length_le)
qed

declare strip_front.simps [simp del]

definition strip_both :: "string list \<Rightarrow> string \<Rightarrow> string" where
  "strip_both table s = rev (strip_front (map rev table) (rev (strip_front table s)))"

text \<open>\<^verbatim>\<open>s.strip()\<close>\<close>

definition py_strip :: "string \<Rightarrow> string" where
  "py_strip s = strip_both py_spaces s"

text \<open>\<^verbatim>\<open>s.replace(a, b)\<close> for one-character \<^verbatim>\<open>a\<close> and \<^verbatim>\<open>b\<close>\<close>

definition py_replace :: "char \<Rightarrow> char \<Rightarrow> string \<Rightarrow> string" where
  "py_replace a b s = map (\<lambda>c. if c = a then b else c) s"

text \<open>\<^verbatim>\<open>s.split(sep)\<close> for a one-character separator\<close>

fun py_split :: "char \<Rightarrow> string \<Rightarrow> string list" where
  "py_split sep [] = [[]]"
| "py_split sep (c # cs) =
     (if c = sep then [] # py_split sep cs
      else (case py_split sep cs of
              w # ws \<Rightarrow> (c # w) # ws
            | [] \<Rightarrow> [[c]]))"

text \<open>\<^verbatim>\<open>sep.join(xs)\<close>\<close>

fun py_join :: "string \<Rightarrow> string list \<Rightarrow> string" where
  "py_join sep [] = []"
| "py_join sep [x] = x"
| "py_join sep (x # y # ys) = x @ sep @ py_join sep (y # ys)"

text \<open>\<^verbatim>\<open>needle in s\<close> on two strings\<close>

fun py_in :: "string \<Rightarrow> string \<Rightarrow> bool" where
  "py_in needle [] = (needle = [])"
| "py_in needle (c # cs) = (prefix needle (c # cs) \<or> py_in needle cs)"

text \<open>
  Decimal digits.  Beyond ASCII the decimal digits of Unicode come in runs of ten, from
  zero to nine, whose encodings differ in the last byte only; the table has, for every
  run, the bytes before the last and the last byte of its zero.
\<close>

definition ascii_digit :: "char \<Rightarrow> bool" where
  "ascii_digit c = (c \<in> set ''0123456789'')"

definition digit_val :: "char \<Rightarrow> nat" where
  "digit_val c = of_char c - 48"

definition digit_char :: "nat \<Rightarrow> char" where
  "digit_char n = ''0123456789'' ! n"

definition decimal_zeros :: "(string \<times> nat) list" where
  "decimal_zeros =
     [([CHR 0xD9], 0xA0), ([CHR 0xDB], 0xB0), ([CHR 0xDF], 0x80), ([CHR 0xE0, CHR 0xA5], 0xA6),
      ([CHR 0xE0, CHR 0xA7], 0xA6), ([CHR 0xE0, CHR 0xA9], 0xA6), ([CHR 0xE0, CHR 0xAB], 0xA6),
      ([CHR 0xE0, CHR 0xAD], 0xA6), ([CHR 0xE0, CHR 0xAF], 0xA6), ([CHR 0xE0, CHR 0xB1], 0xA6),
      ([CHR 0xE0, CHR 0xB3], 0xA6), ([CHR 0xE0, CHR 0xB5], 0xA6), ([CHR 0xE0, CHR 0xB7], 0xA6),
      ([CHR 0xE0, CHR 0xB9], 0x90), ([CHR 0xE0, CHR 0xBB], 0x90), ([CHR 0xE0, CHR 0xBC], 0xA0),
      ([CHR 0xE1, CHR 0x81], 0x80), ([CHR 0xE1, CHR 0x82], 0x90), ([CHR 0xE1, CHR 0x9F], 0xA0),
      ([CHR 0xE1, CHR 0xA0], 0x90), ([CHR 0xE1, CHR 0xA5], 0x86), ([CHR 0xE1, CHR 0xA7], 0x90),
      ([CHR 0xE1, CHR 0xAA], 0x80), ([CHR 0xE1, CHR 0xAA], 0x90), ([CHR 0xE1, CHR 0xAD], 0x90),
      ([CHR 0xE1, CHR 0xAE], 0xB0), ([CHR 0xE1, CHR 0xB1], 0x80), ([CHR 0xE1, CHR 0xB1], 0x90),
      ([CHR 0xEA, CHR 0x98], 0xA0), ([CHR 0xEA, CHR 0xA3], 0x90), ([CHR 0xEA, CHR 0xA4], 0x80),
      ([CHR 0xEA, CHR 0xA7], 0x90), ([CHR 0xEA, CHR 0xA7], 0xB0), ([CHR 0xEA, CHR 0xA9], 0x90),
      ([CHR 0xEA, CHR 0xAF], 0xB0), ([CHR 0xEF, CHR 0xBC], 0x90),
      ([CHR 0xF0, CHR 0x90, CHR 0x92], 0xA0), ([CHR 0xF0, CHR 0x90, CHR 0xB4], 0xB0),
      ([CHR 0xF0, CHR 0x91, CHR 0x81], 0xA6), ([CHR 0xF0, CHR 0x91, CHR 0x83], 0xB0),
      ([CHR 0xF0, CHR 0x91, CHR 0x84], 0xB6), ([CHR 0xF0, CHR 0x91, CHR 0x87], 0x90),
      ([CHR 0xF0, CHR 0x91, CHR 0x8B], 0xB0), ([CHR 0xF0, CHR 0x91, CHR 0x91], 0x90),
      ([CHR 0xF0, CHR 0x91, CHR 0x93], 0x90), ([CHR 0xF0, CHR 0x91, CHR 0x99], 0x90),
      ([CHR 0xF0, CHR 0x91, CHR 0x9B], 0x80), ([CHR 0xF0, CHR 0x91, CHR 0x9C], 0xB0),
      ([CHR 0xF0, CHR 0x91, CHR 0xA3], 0xA0), ([CHR 0xF0, CHR 0x91, CHR 0xA5], 0x90),
      ([CHR 0xF0, CHR 0x91, CHR 0xB1], 0x90), ([CHR 0xF0, CHR 0x91, CHR 0xB5], 0x90),
      ([CHR 0xF0, CHR 0x91, CHR 0xB6], 0xA0), ([CHR 0xF0, CHR 0x96, CHR 0xA9], 0xA0),
      ([CHR 0xF0, CHR 0x96, CHR 0xAB], 0x80), ([CHR 0xF0, CHR 0x96, CHR 0xAD], 0x90),
      ([CHR 0xF0, CHR 0x9D, CHR 0x9F], 0x8E), ([CHR 0xF0, CHR 0x9D, CHR 0x9F], 0x98),
      ([CHR 0xF0, CHR 0x9D, CHR 0x9F], 0xA2), ([CHR 0xF0, CHR 0x9D, CHR 0x9F], 0xAC),
      ([CHR 0xF0, CHR 0x9D, CHR 0x9F], 0xB6), ([CHR 0xF0, CHR 0x9E, CHR 0x85], 0x80),
      ([CHR 0xF0, CHR 0x9E, CHR 0x8B], 0xB0), ([CHR 0xF0, CHR 0x9E, CHR 0xA5], 0x90),
      ([CHR 0xF0, CHR 0x9F, CHR 0xAF], 0xB0)]"

text \<open>The decimal digit at the front of a string: its value and the rest of the string.\<close>

definition read_digit :: "string \<Rightarrow> (nat \<times> string) option" where
  "read_digit s =
     (case s of
        [] \<Rightarrow> None
      | c # cs \<Rightarrow>
          if ascii_digit c then Some (digit_val c, cs)
          else if (of_char c :: nat) < 128 then None
          else (case find (\<lambda>(p, z). prefix p s \<and> length p < length s \<and>
                                   z \<le> of_char (s ! length p) \<and>
                                   of_char (s ! length p) < z + 10) decimal_zeros of
                  None \<Rightarrow> None
                | Some (p, z) \<Rightarrow>
                    Some (of_char (s ! length p) - z, drop (Suc (length p)) s)))"

text \<open>
  The digits of \<^verbatim>\<open>int(s)\<close>: decimal digits, where single underscores may stand
  between two digits.  The flag says whether the previous character was a digit.
\<close>

function int_digits :: "string \<Rightarrow> bool \<Rightarrow> nat \<Rightarrow> nat option" where
  "int_digits s prev acc =
     (case read_digit s of
        Some (v, rest) \<Rightarrow> int_digits rest True (acc * 10 + v)
      | None \<Rightarrow>
          (case s of
             [] \<Rightarrow> if prev then Some acc else None
           | c # cs \<Rightarrow>
               if c = CHR ''_'' \<and> prev \<and> read_digit cs \<noteq> None then int_digits cs False acc
               else None))"
  by pat_completeness auto

termination
proof (relation "measure (\<lambda>(s, prev, acc). length s)")
  show "wf (measure (\<lambda>(s, prev, acc). length s))" by simp
next
  fix s :: string and prev :: bool and acc v :: nat and x :: "nat \<times> string" and rest :: string
  assume "read_digit s = Some x" and "(v, rest) = x"
  then have "length rest < length s"
    by (auto simp: read_digit_def split: list.splits if_splits option.splits)
  then show "((rest, True, acc * 10 + v), (s, prev, acc)) \<in> measure (\<lambda>(s, prev, acc). length s)"
    by simp
next
  fix s :: string and prev :: bool and acc :: nat and c :: char and cs :: string
  assume "s = c # cs"
  then show "((cs, False, acc), (s, prev, acc)) \<in> measure (\<lambda>(s, prev, acc). length s)"
    by simp
qed

declare int_digits.simps [simp del]

text \<open>
  \<^verbatim>\<open>int(s)\<close>: surrounding white space is dropped, one sign is allowed; \<open>None\<close> is
  the \<^verbatim>\<open>ValueError\<close>.  The white space of \<^verbatim>\<open>int\<close> is that of C in ASCII, without
  the four separator characters that \<^verbatim>\<open>strip\<close> also drops, and that of Unicode
  beyond ASCII.  The interpreter's configurable limit on the number of digits is not
  modelled.
\<close>

definition c_spaces :: "char list" where
  "c_spaces = [CHR 0x09, CHR 0x0A, CHR 0x0B, CHR 0x0C, CHR 0x0D, CHR 0x20]"

definition int_spaces :: "string list" where
  "int_spaces = map (\<lambda>c. [c]) c_spaces @ unicode_spaces"

definition py_int :: "string \<Rightarrow> int option" where
  "py_int s =
     (case strip_both int_spaces s of
        [] \<Rightarrow> None
      | c # cs \<Rightarrow>
          if c = CHR ''-'' then map_option (\<lambda>n. - int n) (int_digits cs False 0)
          else if c = CHR ''+'' then map_option int (int_digits cs False 0)
          else map_option int (int_digits (c # cs) False 0))"

text \<open>\<^verbatim>\<open>str(n)\<close> for a natural number\<close>

fun show_nat :: "nat \<Rightarrow> string" where
  "show_nat n =
     (if n < 10 then [digit_char n] else show_nat (n div 10) @ [digit_char (n mod 10)])"

declare show_nat.simps [simp del]

definition show_int :: "int \<Rightarrow> string" where
  "show_int i = (if i < 0 then CHR ''-'' # show_nat (nat (- i)) else show_nat (nat i))"

definition zfill :: "nat \<Rightarrow> string \<Rightarrow> string" where
  "zfill w s = replicate (w - length s) CHR ''0'' @ s"

text \<open>The format specification \<^verbatim>\<open>{i:0wd}\<close>: zero padding after the sign.\<close>

definition fmt_0d :: "nat \<Rightarrow> int \<Rightarrow> string" where
  "fmt_0d w i =
     (if i < 0 then CHR ''-'' # zfill (w - 1) (show_nat (nat (- i)))
      else zfill w (show_nat (nat i)))"

definition hex_char :: "nat \<Rightarrow> char" where
  "hex_char n = ''0123456789ABCDEF'' ! n"

definition always_safe :: string where
  "always_safe =
     ''ABCDEFGHIJKLMNOPQRSTUVWXYZabcdefghijklmnopqrstuvwxyz0123456789_.-~''"

definition quote_char :: "string \<Rightarrow> char \<Rightarrow> string" where
  "quote_char safe c =
     (if c \<in> set always_safe \<or> c \<in> set safe then [c]
      else [CHR ''%'', hex_char (of_char c div 16), hex_char (of_char c mod 16)])"

text \<open>\<^verbatim>\<open>urllib.parse.quote(s, safe=safe)\<close>\<close>

definition py_quote :: "string \<Rightarrow> string \<Rightarrow> string" where
  "py_quote safe s = concat (map (quote_char safe) s)"


section \<open>Exceptions\<close>

text \<open>
  An exception is a value: its class and its message.  Code that may raise returns
  \<open>Inl\<close> of the exception or \<open>Inr\<close> of its result.
\<close>

datatype exn =
    TypeError string
  | KeyError string
  | ValueError string
  | AttributeError string
  | UnboundLocalError string
  | OtherError string

text \<open>\<^verbatim>\<open>str(e)\<close>; for a \<^verbatim>\<open>KeyError\<close> it is the key in quotes.\<close>

fun exn_str :: "exn \<Rightarrow> string" where
  "exn_str (TypeError m) = m"
| "exn_str (KeyError k) = [CHR 0x27] @ k @ [CHR 0x27]"
| "exn_str (ValueError m) = m"
| "exn_str (AttributeError m) = m"
| "exn_str (UnboundLocalError m) = m"
| "exn_str (OtherError m) = m"


section \<open>The structured summary\<close>

text \<open>
  A schedule entry is a \<^verbatim>\<open>dict\<close> from strings to strings, kept as an association
  list without repeated keys in insertion order.  The summary is the \<^verbatim>\<open>dict\<close>
  parsed from the summarizer's JSON; a field is \<open>None\<close> when its key is absent.
\<close>

type_synonym pydict = "(string \<times> string) list"

definition dict_get :: "pydict \<Rightarrow> string \<Rightarrow> string \<Rightarrow> string" where
  "dict_get d k dflt = (case map_of d k of None \<Rightarrow> dflt | Some v \<Rightarrow> v)"

record summary_data =
  sd_title :: "string option"
  sd_summary :: "string option"
  sd_schedule :: "pydict list option"
  sd_target :: "string option"
  sd_application_method :: "string option"
  sd_important_notes :: "string option"
  sd_other_keys :: bool


section \<open>tools/calendar\_tool.py\<close>

text \<open>
  The title used when the item has none (it reads "no title"), the label put before a
  location ("[place] "), and the address that every link begins with.
\<close>

definition no_title :: string where
  "no_title = [CHR 0xEC, CHR 0xA0, CHR 0x9C, CHR 0xEB, CHR 0xAA, CHR 0xA9] @ '' '' @
              [CHR 0xEC, CHR 0x97, CHR 0x86, CHR 0xEC, CHR 0x9D, CHR 0x8C]"

definition place_label :: string where
  "place_label = ''['' @ [CHR 0xEC, CHR 0x9E, CHR 0xA5, CHR 0xEC, CHR 0x86, CHR 0x8C] @ ''] ''"

definition gcal_base :: string where
  "gcal_base = ''https://calendar.google.com/calendar/render?''"

text \<open>The inner function \<^verbatim>\<open>enc\<close>; its argument is never \<^verbatim>\<open>None\<close> here.\<close>

definition enc :: "bool \<Rightarrow> string \<Rightarrow> string" where
  "enc keep_slash v = py_quote (if keep_slash then ''/T:-_.'' else ''-_.~'') v"

text \<open>
  The \<^verbatim>\<open>try\<close> block that converts the date; \<open>None\<close> stands for both
  \<^verbatim>\<open>continue\<close> statements (wrong number of parts, or an exception in \<^verbatim>\<open>int\<close>).
\<close>

definition gcal_dates :: "string \<Rightarrow> string option" where
  "gcal_dates date_str =
     (case py_split CHR ''-'' (py_replace CHR ''.'' CHR ''-'' date_str) of
        [ys, ms, ds] \<Rightarrow>
          (case (py_int ys, py_int ms, py_int ds) of
             (Some year, Some month, Some day) \<Rightarrow>
               Some (fmt_0d 4 year @ fmt_0d 2 month @ fmt_0d 2 day @ ''/'' @
                     fmt_0d 4 year @ fmt_0d 2 month @ fmt_0d 2 (day + 1))
           | _ \<Rightarrow> None)
      | _ \<Rightarrow> None)"

definition gcal_details :: "string \<Rightarrow> string \<Rightarrow> string" where
  "gcal_details location summary =
     (let lines0 = (if location \<noteq> [] then [place_label @ location] else []);
          lines1 = (if summary \<noteq> []
                    then (if lines0 \<noteq> [] then lines0 @ [[]] else lines0) @ [summary]
                    else lines0)
      in py_join [CHR 0x0A] lines1)"

definition gcal_query :: "string \<Rightarrow> string \<Rightarrow> string \<Rightarrow> (string \<times> string) list" where
  "gcal_query event_title dates details =
     [(''action'', ''TEMPLATE''),
      (''text'', enc False event_title),
      (''dates'', enc True dates),
      (''details'', enc False details),
      (''ctz'', enc False ''Asia/Seoul'')]"

definition gcal_qs :: "(string \<times> string) list \<Rightarrow> string" where
  "gcal_qs query = py_join ''&'' (map (\<lambda>(k, v). k @ ''='' @ v) (filter (\<lambda>(k, v). v \<noteq> []) query))"

text \<open>
  The link for one schedule entry, from the title and the summary of the item and the
  stripped description, date and location of the entry; \<open>None\<close> when the entry is
  skipped.
\<close>

definition gcal_link :: "string \<Rightarrow> string \<Rightarrow> string \<Rightarrow> string \<Rightarrow> string \<Rightarrow> string option" where
  "gcal_link title summary description date_str location =
     (if date_str = [] then None
      else (case gcal_dates date_str of
              None \<Rightarrow> None
            | Some dates \<Rightarrow>
                let event_title = (if description \<noteq> [] then title @ '' - '' @ description
                                   else title);
                    details = gcal_details location summary
                in Some (gcal_base @ gcal_qs (gcal_query event_title dates details))))"

text \<open>One pass of the loop body: \<open>None\<close> when the entry is skipped.\<close>

definition gcal_entry :: "string \<Rightarrow> string \<Rightarrow> pydict \<Rightarrow> pydict option" where
  "gcal_entry title summary schedule_item =
     (let description = py_strip (dict_get schedule_item ''description'' []);
          date_str = py_strip (dict_get schedule_item ''date'' []);
          location = py_strip (dict_get schedule_item ''location'' [])
      in (case gcal_link title summary description date_str location of
            None \<Rightarrow> None
          | Some gcal_url \<Rightarrow> Some (AList.update ''url'' gcal_url schedule_item)))"

fun gcal_loop :: "string \<Rightarrow> string \<Rightarrow> pydict list \<Rightarrow> pydict list" where
  "gcal_loop title summary [] = []"
| "gcal_loop title summary (schedule_item # rest) =
     (case gcal_entry title summary schedule_item of
        None \<Rightarrow> gcal_loop title summary rest
      | Some result_item \<Rightarrow> result_item # gcal_loop title summary rest)"

text \<open>\<^verbatim>\<open>x or dflt\<close> on an optional string: an absent, \<^verbatim>\<open>None\<close> or empty value gives the default.\<close>

definition or_else :: "string option \<Rightarrow> string \<Rightarrow> string" where
  "or_else x dflt = (case x of None \<Rightarrow> dflt | Some s \<Rightarrow> if s = [] then dflt else s)"

definition build_gcal_urls :: "'a summary_data_scheme \<Rightarrow> pydict list" where
  "build_gcal_urls item =
     (case sd_schedule item of
        None \<Rightarrow> []
      | Some schedule \<Rightarrow>
          if schedule = [] then []
          else gcal_loop (py_strip (or_else (sd_title item) no_title))
                         (py_strip (or_else (sd_summary item) []))
                         schedule)"


section \<open>ai/SuggestionEngine.py\<close>

subsection \<open>Keywords\<close>

text \<open>scholarship\<close>

definition kw_scholarship :: string where
  "kw_scholarship =
     [CHR 0xEC, CHR 0x9E, CHR 0xA5, CHR 0xED, CHR 0x95, CHR 0x99]"

text \<open>employment\<close>

definition kw_job :: string where
  "kw_job =
     [CHR 0xEC, CHR 0xB7, CHR 0xA8, CHR 0xEC, CHR 0x97, CHR 0x85]"

text \<open>recruitment\<close>

definition kw_hiring :: string where
  "kw_hiring =
     [CHR 0xEC, CHR 0xB1, CHR 0x84, CHR 0xEC, CHR 0x9A, CHR 0xA9]"

text \<open>exchange student\<close>

definition kw_exchange :: string where
  "kw_exchange =
     [CHR 0xEA, CHR 0xB5, CHR 0x90, CHR 0xED, CHR 0x99, CHR 0x98, CHR 0xED, CHR 0x95, CHR 0x99,
     CHR 0xEC, CHR 0x83, CHR 0x9D]"

text \<open>overseas\<close>

definition kw_abroad :: string where
  "kw_abroad =
     [CHR 0xED, CHR 0x95, CHR 0xB4, CHR 0xEC, CHR 0x99, CHR 0xB8]"

text \<open>deadline\<close>

definition kw_deadline :: string where
  "kw_deadline =
     [CHR 0xEB, CHR 0xA7, CHR 0x88, CHR 0xEA, CHR 0xB0, CHR 0x90]"

text \<open>online\<close>

definition kw_online :: string where
  "kw_online =
     [CHR 0xEC, CHR 0x98, CHR 0xA8, CHR 0xEB, CHR 0x9D, CHR 0xBC, CHR 0xEC, CHR 0x9D, CHR 0xB8]"

text \<open>visit\<close>

definition kw_visit :: string where
  "kw_visit =
     [CHR 0xEB, CHR 0xB0, CHR 0xA9, CHR 0xEB, CHR 0xAC, CHR 0xB8]"

text \<open>e-mail\<close>

definition kw_email :: string where
  "kw_email =
     [CHR 0xEC, CHR 0x9D, CHR 0xB4, CHR 0xEB, CHR 0xA9, CHR 0x94, CHR 0xEC, CHR 0x9D, CHR 0xBC]"

text \<open>school year\<close>

definition kw_grade :: string where
  "kw_grade =
     [CHR 0xED, CHR 0x95, CHR 0x99, CHR 0xEB, CHR 0x85, CHR 0x84]"

text \<open>department\<close>

definition kw_department :: string where
  "kw_department =
     [CHR 0xED, CHR 0x95, CHR 0x99, CHR 0xEA, CHR 0xB3, CHR 0xBC]"

text \<open>capacity\<close>

definition kw_capacity :: string where
  "kw_capacity =
     [CHR 0xEC, CHR 0xA0, CHR 0x95, CHR 0xEC, CHR 0x9B, CHR 0x90]"

text \<open>documents\<close>

definition kw_documents :: string where
  "kw_documents =
     [CHR 0xEC, CHR 0x84, CHR 0x9C, CHR 0xEB, CHR 0xA5, CHR 0x98]"

text \<open>interview\<close>

definition kw_interview :: string where
  "kw_interview =
     [CHR 0xEB, CHR 0xA9, CHR 0xB4, CHR 0xEC, CHR 0xA0, CHR 0x91]"

text \<open>education\<close>

definition kw_education :: string where
  "kw_education =
     [CHR 0xEA, CHR 0xB5, CHR 0x90, CHR 0xEC, CHR 0x9C, CHR 0xA1]"

text \<open>lecture\<close>

definition kw_lecture :: string where
  "kw_lecture =
     [CHR 0xEA, CHR 0xB0, CHR 0x95, CHR 0xEC, CHR 0x9D, CHR 0x98]"

text \<open>event\<close>

definition kw_event :: string where
  "kw_event =
     [CHR 0xED, CHR 0x96, CHR 0x89, CHR 0xEC, CHR 0x82, CHR 0xAC]"

subsection \<open>Messages of generate\_parsing\_suggestions\<close>

text \<open>scholarship notice: check the eligibility\<close>

definition msg_scholarship_notice :: string where
  "msg_scholarship_notice =
     [CHR 0xF0, CHR 0x9F, CHR 0x92, CHR 0xB0] @ '' '' @ [CHR 0xEC, CHR 0x9E, CHR 0xA5, CHR 0xED,
     CHR 0x95, CHR 0x99, CHR 0xEA, CHR 0xB8, CHR 0x88] @ '' '' @ [CHR 0xEA, CHR 0xB3, CHR 0xB5,
     CHR 0xEC, CHR 0xA7, CHR 0x80, CHR 0xEC, CHR 0x9E, CHR 0x85, CHR 0xEB, CHR 0x8B, CHR 0x88,
     CHR 0xEB, CHR 0x8B, CHR 0xA4] @ ''. '' @ [CHR 0xEC, CHR 0x9E, CHR 0x90, CHR 0xEA, CHR 0xB2,
     CHR 0xA9, CHR 0xEC, CHR 0x9A, CHR 0x94, CHR 0xEA, CHR 0xB1, CHR 0xB4, CHR 0xEC, CHR 0x9D,
     CHR 0x84] @ '' '' @ [CHR 0xEA, CHR 0xBC, CHR 0xBC, CHR 0xEA, CHR 0xBC, CHR 0xBC, CHR 0xED,
     CHR 0x9E, CHR 0x88] @ '' '' @ [CHR 0xED, CHR 0x99, CHR 0x95, CHR 0xEC, CHR 0x9D, CHR 0xB8,
     CHR 0xED, CHR 0x95, CHR 0xB4, CHR 0xEB, CHR 0xB3, CHR 0xB4, CHR 0xEC, CHR 0x84, CHR 0xB8,
     CHR 0xEC, CHR 0x9A, CHR 0x94]"

text \<open>employment notice: check eligibility and deadline\<close>

definition msg_job_notice :: string where
  "msg_job_notice =
     [CHR 0xF0, CHR 0x9F, CHR 0x92, CHR 0xBC] @ '' '' @ [CHR 0xEC, CHR 0xB7, CHR 0xA8, CHR 0xEC,
     CHR 0x97, CHR 0x85] @ ''/'' @ [CHR 0xEC, CHR 0xB1, CHR 0x84, CHR 0xEC, CHR 0x9A, CHR 0xA9] @
     '' '' @ [CHR 0xEA, CHR 0xB4, CHR 0x80, CHR 0xEB, CHR 0xA0, CHR 0xA8] @ '' '' @ [CHR 0xEA,
     CHR 0xB3, CHR 0xB5, CHR 0xEC, CHR 0xA7, CHR 0x80, CHR 0xEC, CHR 0x9E, CHR 0x85, CHR 0xEB,
     CHR 0x8B, CHR 0x88, CHR 0xEB, CHR 0x8B, CHR 0xA4] @ ''. '' @ [CHR 0xEC, CHR 0xA7, CHR 0x80,
     CHR 0xEC, CHR 0x9B, CHR 0x90] @ '' '' @ [CHR 0xEC, CHR 0x9E, CHR 0x90, CHR 0xEA, CHR 0xB2,
     CHR 0xA9, CHR 0xEA, CHR 0xB3, CHR 0xBC] @ '' '' @ [CHR 0xEB, CHR 0xA7, CHR 0x88, CHR 0xEA,
     CHR 0xB0, CHR 0x90, CHR 0xEC, CHR 0x9D, CHR 0xBC, CHR 0xEC, CHR 0x9D, CHR 0x84] @ '' '' @
     [CHR 0xED, CHR 0x99, CHR 0x95, CHR 0xEC, CHR 0x9D, CHR 0xB8, CHR 0xED, CHR 0x95, CHR 0xB4,
     CHR 0xEB, CHR 0xB3, CHR 0xB4, CHR 0xEC, CHR 0x84, CHR 0xB8, CHR 0xEC, CHR 0x9A, CHR 0x94]"

text \<open>international exchange notice: check the language score\<close>

definition msg_exchange_notice :: string where
  "msg_exchange_notice =
     [CHR 0xE2, CHR 0x9C, CHR 0x88, CHR 0xEF, CHR 0xB8, CHR 0x8F] @ '' '' @ [CHR 0xEA, CHR 0xB5,
     CHR 0xAD, CHR 0xEC, CHR 0xA0, CHR 0x9C, CHR 0xEA, CHR 0xB5, CHR 0x90, CHR 0xEB, CHR 0xA5,
     CHR 0x98] @ '' '' @ [CHR 0xEA, CHR 0xB4, CHR 0x80, CHR 0xEB, CHR 0xA0, CHR 0xA8] @ '' '' @
     [CHR 0xEA, CHR 0xB3, CHR 0xB5, CHR 0xEC, CHR 0xA7, CHR 0x80, CHR 0xEC, CHR 0x9E, CHR 0x85,
     CHR 0xEB, CHR 0x8B, CHR 0x88, CHR 0xEB, CHR 0x8B, CHR 0xA4] @ ''. '' @ [CHR 0xEC, CHR 0x96,
     CHR 0xB4, CHR 0xED, CHR 0x95, CHR 0x99, CHR 0xEC, CHR 0xA0, CHR 0x90, CHR 0xEC, CHR 0x88,
     CHR 0x98] @ '' '' @ [CHR 0xEC, CHR 0x9A, CHR 0x94, CHR 0xEA, CHR 0xB1, CHR 0xB4, CHR 0xEC,
     CHR 0x9D, CHR 0x84] @ '' '' @ [CHR 0xEB, CHR 0xAF, CHR 0xB8, CHR 0xEB, CHR 0xA6, CHR 0xAC] @
     '' '' @ [CHR 0xED, CHR 0x99, CHR 0x95, CHR 0xEC, CHR 0x9D, CHR 0xB8, CHR 0xED, CHR 0x95, CHR 0xB4,
     CHR 0xEB, CHR 0xB3, CHR 0xB4, CHR 0xEC, CHR 0x84, CHR 0xB8, CHR 0xEC, CHR 0x9A, CHR 0x94]"

text \<open>no schedule information: ask the office for the deadline\<close>

definition msg_no_schedule :: string where
  "msg_no_schedule =
     [CHR 0xE2, CHR 0x8F, CHR 0xB0] @ '' '' @ [CHR 0xEC, CHR 0x9D, CHR 0xBC, CHR 0xEC, CHR 0xA0,
     CHR 0x95] @ '' '' @ [CHR 0xEC, CHR 0xA0, CHR 0x95, CHR 0xEB, CHR 0xB3, CHR 0xB4, CHR 0xEA,
     CHR 0xB0, CHR 0x80] @ '' '' @ [CHR 0xEC, CHR 0x97, CHR 0x86, CHR 0xEC, CHR 0x8A, CHR 0xB5,
     CHR 0xEB, CHR 0x8B, CHR 0x88, CHR 0xEB, CHR 0x8B, CHR 0xA4] @ ''. '' @ [CHR 0xEA, CHR 0xB4,
     CHR 0x80, CHR 0xEB, CHR 0xA0, CHR 0xA8] @ '' '' @ [CHR 0xEB, CHR 0xB6, CHR 0x80, CHR 0xEC,
     CHR 0x84, CHR 0x9C, CHR 0xEC, CHR 0x97, CHR 0x90] @ '' '' @ [CHR 0xEB, CHR 0xAC, CHR 0xB8,
     CHR 0xEC, CHR 0x9D, CHR 0x98, CHR 0xED, CHR 0x95, CHR 0x98, CHR 0xEC, CHR 0x97, CHR 0xAC] @
     '' '' @ [CHR 0xEB, CHR 0xA7, CHR 0x88, CHR 0xEA, CHR 0xB0, CHR 0x90, CHR 0xEC, CHR 0x9D, CHR 0xBC,
     CHR 0xEC, CHR 0x9D, CHR 0x84] @ '' '' @ [CHR 0xED, CHR 0x99, CHR 0x95, CHR 0xEC, CHR 0x9D,
     CHR 0xB8, CHR 0xED, CHR 0x95, CHR 0xB4, CHR 0xEB, CHR 0xB3, CHR 0xB4, CHR 0xEC, CHR 0x84,
     CHR 0xB8, CHR 0xEC, CHR 0x9A, CHR 0x94]"

text \<open>online application\<close>

definition msg_online :: string where
  "msg_online =
     [CHR 0xF0, CHR 0x9F, CHR 0x8C, CHR 0x90] @ '' '' @ [CHR 0xEC, CHR 0x98, CHR 0xA8, CHR 0xEB,
     CHR 0x9D, CHR 0xBC, CHR 0xEC, CHR 0x9D, CHR 0xB8] @ '' '' @ [CHR 0xEC, CHR 0x8B, CHR 0xA0,
     CHR 0xEC, CHR 0xB2, CHR 0xAD] @ '' - '' @ [CHR 0xEB, CHR 0xB8, CHR 0x8C, CHR 0xEB, CHR 0x9D,
     CHR 0xBC, CHR 0xEC, CHR 0x9A, CHR 0xB0, CHR 0xEC, CHR 0xA0, CHR 0x80] @ '' '' @ [CHR 0xED,
     CHR 0x98, CHR 0xB8, CHR 0xED, CHR 0x99, CHR 0x98, CHR 0xEC, CHR 0x84, CHR 0xB1, CHR 0xEA,
     CHR 0xB3, CHR 0xBC] @ '' '' @ [CHR 0xEC, CHR 0x9D, CHR 0xB8, CHR 0xED, CHR 0x84, CHR 0xB0,
     CHR 0xEB, CHR 0x84, CHR 0xB7] @ '' '' @ [CHR 0xEC, CHR 0x97, CHR 0xB0, CHR 0xEA, CHR 0xB2,
     CHR 0xB0, CHR 0xEC, CHR 0x9D, CHR 0x84] @ '' '' @ [CHR 0xED, CHR 0x99, CHR 0x95, CHR 0xEC,
     CHR 0x9D, CHR 0xB8, CHR 0xED, CHR 0x95, CHR 0xB4, CHR 0xEC, CHR 0xA3, CHR 0xBC, CHR 0xEC,
     CHR 0x84, CHR 0xB8, CHR 0xEC, CHR 0x9A, CHR 0x94]"

text \<open>submission in person\<close>

definition msg_visit :: string where
  "msg_visit =
     [CHR 0xF0, CHR 0x9F, CHR 0x9A, CHR 0xAA] @ '' '' @ [CHR 0xEC, CHR 0xA7, CHR 0x81, CHR 0xEC,
     CHR 0xA0, CHR 0x91] @ '' '' @ [CHR 0xEB, CHR 0xB0, CHR 0xA9, CHR 0xEB, CHR 0xAC, CHR 0xB8] @
     '' '' @ [CHR 0xEC, CHR 0xA0, CHR 0x9C, CHR 0xEC, CHR 0xB6, CHR 0x9C] @ '' - '' @ [CHR 0xEC,
     CHR 0x9A, CHR 0xB4, CHR 0xEC, CHR 0x98, CHR 0x81, CHR 0xEC, CHR 0x8B, CHR 0x9C, CHR 0xEA,
     CHR 0xB0, CHR 0x84, CHR 0xEA, CHR 0xB3, CHR 0xBC] @ '' '' @ [CHR 0xED, CHR 0x95, CHR 0x84,
     CHR 0xEC, CHR 0x9A, CHR 0x94] @ '' '' @ [CHR 0xEC, CHR 0x84, CHR 0x9C, CHR 0xEB, CHR 0xA5,
     CHR 0x98, CHR 0xEB, CHR 0xA5, CHR 0xBC] @ '' '' @ [CHR 0xEB, CHR 0xAF, CHR 0xB8, CHR 0xEB,
     CHR 0xA6, CHR 0xAC] @ '' '' @ [CHR 0xEC, CHR 0xA4, CHR 0x80, CHR 0xEB, CHR 0xB9, CHR 0x84,
     CHR 0xED, CHR 0x95, CHR 0xB4, CHR 0xEC, CHR 0xA3, CHR 0xBC, CHR 0xEC, CHR 0x84, CHR 0xB8,
     CHR 0xEC, CHR 0x9A, CHR 0x94]"

text \<open>submission by e-mail\<close>

definition msg_email :: string where
  "msg_email =
     [CHR 0xF0, CHR 0x9F, CHR 0x93, CHR 0xA7] @ '' '' @ [CHR 0xEC, CHR 0x9D, CHR 0xB4, CHR 0xEB,
     CHR 0xA9, CHR 0x94, CHR 0xEC, CHR 0x9D, CHR 0xBC] @ '' '' @ [CHR 0xEC, CHR 0xA0, CHR 0x9C,
     CHR 0xEC, CHR 0xB6, CHR 0x9C] @ '' - '' @ [CHR 0xED, CHR 0x8C, CHR 0x8C, CHR 0xEC, CHR 0x9D,
     CHR 0xBC] @ '' '' @ [CHR 0xEC, CHR 0x9A, CHR 0xA9, CHR 0xEB, CHR 0x9F, CHR 0x89] @ '' '' @
     [CHR 0xEC, CHR 0xA0, CHR 0x9C, CHR 0xED, CHR 0x95, CHR 0x9C, CHR 0xEA, CHR 0xB3, CHR 0xBC] @
     '' '' @ [CHR 0xEC, CHR 0xB2, CHR 0xA8, CHR 0xEB, CHR 0xB6, CHR 0x80, CHR 0xED, CHR 0x8C, CHR 0x8C,
     CHR 0xEC, CHR 0x9D, CHR 0xBC] @ '' '' @ [CHR 0xED, CHR 0x98, CHR 0x95, CHR 0xEC, CHR 0x8B,
     CHR 0x9D, CHR 0xEC, CHR 0x9D, CHR 0x84] @ '' '' @ [CHR 0xED, CHR 0x99, CHR 0x95, CHR 0xEC,
     CHR 0x9D, CHR 0xB8, CHR 0xED, CHR 0x95, CHR 0xB4, CHR 0xEC, CHR 0xA3, CHR 0xBC, CHR 0xEC,
     CHR 0x84, CHR 0xB8, CHR 0xEC, CHR 0x9A, CHR 0x94]"

text \<open>restricted by school year\<close>

definition msg_grade :: string where
  "msg_grade =
     [CHR 0xF0, CHR 0x9F, CHR 0x8E, CHR 0x93] @ '' '' @ [CHR 0xED, CHR 0x95, CHR 0x99, CHR 0xEB,
     CHR 0x85, CHR 0x84] @ '' '' @ [CHR 0xEC, CHR 0xA0, CHR 0x9C, CHR 0xED, CHR 0x95, CHR 0x9C,
     CHR 0xEC, CHR 0x9D, CHR 0xB4] @ '' '' @ [CHR 0xEC, CHR 0x9E, CHR 0x88, CHR 0xEC, CHR 0x8A,
     CHR 0xB5, CHR 0xEB, CHR 0x8B, CHR 0x88, CHR 0xEB, CHR 0x8B, CHR 0xA4] @ ''. '' @ [CHR 0xEB,
     CHR 0xB3, CHR 0xB8, CHR 0xEC, CHR 0x9D, CHR 0xB8, CHR 0xEC, CHR 0x9D, CHR 0x98] @ '' '' @
     [CHR 0xED, CHR 0x95, CHR 0xB4, CHR 0xEB, CHR 0x8B, CHR 0xB9] @ '' '' @ [CHR 0xEC, CHR 0x97,
     CHR 0xAC, CHR 0xEB, CHR 0xB6, CHR 0x80, CHR 0xEB, CHR 0xA5, CHR 0xBC] @ '' '' @ [CHR 0xED,
     CHR 0x99, CHR 0x95, CHR 0xEC, CHR 0x9D, CHR 0xB8, CHR 0xED, CHR 0x95, CHR 0xB4, CHR 0xEC,
     CHR 0xA3, CHR 0xBC, CHR 0xEC, CHR 0x84, CHR 0xB8, CHR 0xEC, CHR 0x9A, CHR 0x94]"

text \<open>restricted to departments\<close>

definition msg_department :: string where
  "msg_department =
     [CHR 0xF0, CHR 0x9F, CHR 0x93, CHR 0x9A] @ '' '' @ [CHR 0xED, CHR 0x8A, CHR 0xB9, CHR 0xEC,
     CHR 0xA0, CHR 0x95] @ '' '' @ [CHR 0xED, CHR 0x95, CHR 0x99, CHR 0xEA, CHR 0xB3, CHR 0xBC] @
     '' '' @ [CHR 0xEB, CHR 0x8C, CHR 0x80, CHR 0xEC, CHR 0x83, CHR 0x81, CHR 0xEC, CHR 0x9E, CHR 0x85,
     CHR 0xEB, CHR 0x8B, CHR 0x88, CHR 0xEB, CHR 0x8B, CHR 0xA4] @ ''. '' @ [CHR 0xEB, CHR 0xB3,
     CHR 0xB8, CHR 0xEC, CHR 0x9D, CHR 0xB8] @ '' '' @ [CHR 0xED, CHR 0x95, CHR 0x99, CHR 0xEA,
     CHR 0xB3, CHR 0xBC, CHR 0xEC, CHR 0x9D, CHR 0x98] @ '' '' @ [CHR 0xED, CHR 0x95, CHR 0xB4,
     CHR 0xEB, CHR 0x8B, CHR 0xB9] @ '' '' @ [CHR 0xEC, CHR 0x97, CHR 0xAC, CHR 0xEB, CHR 0xB6,
     CHR 0x80, CHR 0xEB, CHR 0xA5, CHR 0xBC] @ '' '' @ [CHR 0xED, CHR 0x99, CHR 0x95, CHR 0xEC,
     CHR 0x9D, CHR 0xB8, CHR 0xED, CHR 0x95, CHR 0xB4, CHR 0xEC, CHR 0xA3, CHR 0xBC, CHR 0xEC,
     CHR 0x84, CHR 0xB8, CHR 0xEC, CHR 0x9A, CHR 0x94]"

text \<open>limited capacity\<close>

definition msg_capacity :: string where
  "msg_capacity =
     [CHR 0xF0, CHR 0x9F, CHR 0x91, CHR 0xA5] @ '' '' @ [CHR 0xEB, CHR 0xAA, CHR 0xA8, CHR 0xEC,
     CHR 0xA7, CHR 0x91] @ '' '' @ [CHR 0xEC, CHR 0xA0, CHR 0x95, CHR 0xEC, CHR 0x9B, CHR 0x90,
     CHR 0xEC, CHR 0x9D, CHR 0xB4] @ '' '' @ [CHR 0xEC, CHR 0x9E, CHR 0x88, CHR 0xEC, CHR 0x8A,
     CHR 0xB5, CHR 0xEB, CHR 0x8B, CHR 0x88, CHR 0xEB, CHR 0x8B, CHR 0xA4] @ ''. '' @ [CHR 0xEC,
     CHR 0xA1, CHR 0xB0, CHR 0xEA, CHR 0xB8, CHR 0xB0] @ '' '' @ [CHR 0xEC, CHR 0x8B, CHR 0xA0,
     CHR 0xEC, CHR 0xB2, CHR 0xAD, CHR 0xEC, CHR 0x9D, CHR 0x84] @ '' '' @ [CHR 0xEA, CHR 0xB6,
     CHR 0x8C, CHR 0xEC, CHR 0x9E, CHR 0xA5, CHR 0xED, CHR 0x95, CHR 0xA9, CHR 0xEB, CHR 0x8B,
     CHR 0x88, CHR 0xEB, CHR 0x8B, CHR 0xA4]"

text \<open>documents required\<close>

definition msg_documents :: string where
  "msg_documents =
     [CHR 0xF0, CHR 0x9F, CHR 0x93, CHR 0x8B] @ '' '' @ [CHR 0xED, CHR 0x95, CHR 0x84, CHR 0xEC,
     CHR 0x9A, CHR 0x94] @ '' '' @ [CHR 0xEC, CHR 0x84, CHR 0x9C, CHR 0xEB, CHR 0xA5, CHR 0x98,
     CHR 0xEA, CHR 0xB0, CHR 0x80] @ '' '' @ [CHR 0xEC, CHR 0x9E, CHR 0x88, CHR 0xEC, CHR 0x8A,
     CHR 0xB5, CHR 0xEB, CHR 0x8B, CHR 0x88, CHR 0xEB, CHR 0x8B, CHR 0xA4] @ ''. '' @ [CHR 0xEB,
     CHR 0xAF, CHR 0xB8, CHR 0xEB, CHR 0xA6, CHR 0xAC] @ '' '' @ [CHR 0xEC, CHR 0xA4, CHR 0x80,
     CHR 0xEB, CHR 0xB9, CHR 0x84, CHR 0xED, CHR 0x95, CHR 0xB4, CHR 0xEB, CHR 0x91, CHR 0x90,
     CHR 0xEC, CHR 0x8B, CHR 0x9C, CHR 0xEB, CHR 0xA9, CHR 0xB4] @ '' '' @ [CHR 0xEC, CHR 0xA2,
     CHR 0x8B, CHR 0xEC, CHR 0x8A, CHR 0xB5, CHR 0xEB, CHR 0x8B, CHR 0x88, CHR 0xEB, CHR 0x8B,
     CHR 0xA4]"

text \<open>there may be an interview\<close>

definition msg_interview :: string where
  "msg_interview =
     [CHR 0xF0, CHR 0x9F, CHR 0x97, CHR 0xA3, CHR 0xEF, CHR 0xB8, CHR 0x8F] @ '' '' @ [CHR 0xEB,
     CHR 0xA9, CHR 0xB4, CHR 0xEC, CHR 0xA0, CHR 0x91, CHR 0xEC, CHR 0x9D, CHR 0xB4] @ '' '' @
     [CHR 0xEC, CHR 0x9E, CHR 0x88, CHR 0xEC, CHR 0x9D, CHR 0x84] @ '' '' @ [CHR 0xEC, CHR 0x88,
     CHR 0x98] @ '' '' @ [CHR 0xEC, CHR 0x9E, CHR 0x88, CHR 0xEC, CHR 0x8A, CHR 0xB5, CHR 0xEB,
     CHR 0x8B, CHR 0x88, CHR 0xEB, CHR 0x8B, CHR 0xA4] @ ''. '' @ [CHR 0xEA, CHR 0xB4, CHR 0x80,
     CHR 0xEB, CHR 0xA0, CHR 0xA8] @ '' '' @ [CHR 0xEC, CHR 0x9E, CHR 0x90, CHR 0xEB, CHR 0xA3,
     CHR 0x8C, CHR 0xEB, CHR 0xA5, CHR 0xBC] @ '' '' @ [CHR 0xEB, CHR 0xAF, CHR 0xB8, CHR 0xEB,
     CHR 0xA6, CHR 0xAC] @ '' '' @ [CHR 0xEC, CHR 0xA4, CHR 0x80, CHR 0xEB, CHR 0xB9, CHR 0x84,
     CHR 0xED, CHR 0x95, CHR 0xB4, CHR 0xEB, CHR 0xB3, CHR 0xB4, CHR 0xEC, CHR 0x84, CHR 0xB8,
     CHR 0xEC, CHR 0x9A, CHR 0x94]"

text \<open>handler: check the details yourself\<close>

definition msg_check_details :: string where
  "msg_check_details =
     [CHR 0xE2, CHR 0x9D, CHR 0x93] @ '' '' @ [CHR 0xEC, CHR 0x83, CHR 0x81, CHR 0xEC, CHR 0x84,
     CHR 0xB8] @ '' '' @ [CHR 0xEB, CHR 0x82, CHR 0xB4, CHR 0xEC, CHR 0x9A, CHR 0xA9, CHR 0xEC,
     CHR 0x9D, CHR 0x84] @ '' '' @ [CHR 0xEC, CHR 0xA7, CHR 0x81, CHR 0xEC, CHR 0xA0, CHR 0x91] @
     '' '' @ [CHR 0xED, CHR 0x99, CHR 0x95, CHR 0xEC, CHR 0x9D, CHR 0xB8, CHR 0xED, CHR 0x95, CHR 0xB4,
     CHR 0xEC, CHR 0xA3, CHR 0xBC, CHR 0xEC, CHR 0x84, CHR 0xB8, CHR 0xEC, CHR 0x9A, CHR 0x94]"

subsection \<open>Messages of generate\_error\_suggestions\<close>

text \<open>check the API key\<close>

definition msg_api_key :: string where
  "msg_api_key =
     [CHR 0xF0, CHR 0x9F, CHR 0x94, CHR 0x91] @ '' API '' @ [CHR 0xED, CHR 0x82, CHR 0xA4, CHR 0xEB,
     CHR 0xA5, CHR 0xBC] @ '' '' @ [CHR 0xED, CHR 0x99, CHR 0x95, CHR 0xEC, CHR 0x9D, CHR 0xB8,
     CHR 0xED, CHR 0x95, CHR 0xB4, CHR 0xEC, CHR 0xA3, CHR 0xBC, CHR 0xEC, CHR 0x84, CHR 0xB8,
     CHR 0xEC, CHR 0x9A, CHR 0x94]"

text \<open>check the environment variable\<close>

definition msg_api_env :: string where
  "msg_api_env =
     [CHR 0xF0, CHR 0x9F, CHR 0x94, CHR 0xA7] @ '' '' @ [CHR 0xED, CHR 0x99, CHR 0x98, CHR 0xEA,
     CHR 0xB2, CHR 0xBD, CHR 0xEB, CHR 0xB3, CHR 0x80, CHR 0xEC, CHR 0x88, CHR 0x98] @
     '' GOOGLE_API_KEY '' @ [CHR 0xEC, CHR 0x84, CHR 0xA4, CHR 0xEC, CHR 0xA0, CHR 0x95, CHR 0xEC,
     CHR 0x9D, CHR 0x84] @ '' '' @ [CHR 0xED, CHR 0x99, CHR 0x95, CHR 0xEC, CHR 0x9D, CHR 0xB8,
     CHR 0xED, CHR 0x95, CHR 0xB4, CHR 0xEC, CHR 0xA3, CHR 0xBC, CHR 0xEC, CHR 0x84, CHR 0xB8,
     CHR 0xEC, CHR 0x9A, CHR 0x94]"

text \<open>check the API quota\<close>

definition msg_api_quota :: string where
  "msg_api_quota =
     [CHR 0xF0, CHR 0x9F, CHR 0x93, CHR 0xB1] @ '' API '' @ [CHR 0xEC, CHR 0x82, CHR 0xAC, CHR 0xEC,
     CHR 0x9A, CHR 0xA9, CHR 0xEB, CHR 0x9F, CHR 0x89] @ '' '' @ [CHR 0xED, CHR 0x95, CHR 0x9C,
     CHR 0xEB, CHR 0x8F, CHR 0x84, CHR 0xEB, CHR 0xA5, CHR 0xBC] @ '' '' @ [CHR 0xED, CHR 0x99,
     CHR 0x95, CHR 0xEC, CHR 0x9D, CHR 0xB8, CHR 0xED, CHR 0x95, CHR 0xB4, CHR 0xEC, CHR 0xA3,
     CHR 0xBC, CHR 0xEC, CHR 0x84, CHR 0xB8, CHR 0xEC, CHR 0x9A, CHR 0x94]"

text \<open>check the internet connection\<close>

definition msg_net_connection :: string where
  "msg_net_connection =
     [CHR 0xF0, CHR 0x9F, CHR 0x8C, CHR 0x90] @ '' '' @ [CHR 0xEC, CHR 0x9D, CHR 0xB8, CHR 0xED,
     CHR 0x84, CHR 0xB0, CHR 0xEB, CHR 0x84, CHR 0xB7] @ '' '' @ [CHR 0xEC, CHR 0x97, CHR 0xB0,
     CHR 0xEA, CHR 0xB2, CHR 0xB0, CHR 0xEC, CHR 0x9D, CHR 0x84] @ '' '' @ [CHR 0xED, CHR 0x99,
     CHR 0x95, CHR 0xEC, CHR 0x9D, CHR 0xB8, CHR 0xED, CHR 0x95, CHR 0xB4, CHR 0xEC, CHR 0xA3,
     CHR 0xBC, CHR 0xEC, CHR 0x84, CHR 0xB8, CHR 0xEC, CHR 0x9A, CHR 0x94]"

text \<open>try again later\<close>

definition msg_retry_later :: string where
  "msg_retry_later =
     [CHR 0xF0, CHR 0x9F, CHR 0x94, CHR 0x84] @ '' '' @ [CHR 0xEC, CHR 0x9E, CHR 0xA0, CHR 0xEC,
     CHR 0x8B, CHR 0x9C] @ '' '' @ [CHR 0xED, CHR 0x9B, CHR 0x84] @ '' '' @ [CHR 0xEB, CHR 0x8B,
     CHR 0xA4, CHR 0xEC, CHR 0x8B, CHR 0x9C] @ '' '' @ [CHR 0xEC, CHR 0x8B, CHR 0x9C, CHR 0xEB,
     CHR 0x8F, CHR 0x84, CHR 0xED, CHR 0x95, CHR 0xB4, CHR 0xEC, CHR 0xA3, CHR 0xBC, CHR 0xEC,
     CHR 0x84, CHR 0xB8, CHR 0xEC, CHR 0x9A, CHR 0x94]"

text \<open>check the firewall\<close>

definition msg_net_firewall :: string where
  "msg_net_firewall =
     [CHR 0xF0, CHR 0x9F, CHR 0x9B, CHR 0xA1, CHR 0xEF, CHR 0xB8, CHR 0x8F] @ '' '' @ [CHR 0xEB,
     CHR 0xB0, CHR 0xA9, CHR 0xED, CHR 0x99, CHR 0x94, CHR 0xEB, CHR 0xB2, CHR 0xBD] @ '' '' @
     [CHR 0xEC, CHR 0x84, CHR 0xA4, CHR 0xEC, CHR 0xA0, CHR 0x95, CHR 0xEC, CHR 0x9D, CHR 0x84] @
     '' '' @ [CHR 0xED, CHR 0x99, CHR 0x95, CHR 0xEC, CHR 0x9D, CHR 0xB8, CHR 0xED, CHR 0x95, CHR 0xB4,
     CHR 0xEC, CHR 0xA3, CHR 0xBC, CHR 0xEC, CHR 0x84, CHR 0xB8, CHR 0xEC, CHR 0x9A, CHR 0x94]"

text \<open>check the input format\<close>

definition msg_input_format :: string where
  "msg_input_format =
     [CHR 0xF0, CHR 0x9F, CHR 0x93, CHR 0x9D] @ '' '' @ [CHR 0xEC, CHR 0x9E, CHR 0x85, CHR 0xEB,
     CHR 0xA0, CHR 0xA5] @ '' '' @ [CHR 0xEB, CHR 0x8D, CHR 0xB0, CHR 0xEC, CHR 0x9D, CHR 0xB4,
     CHR 0xED, CHR 0x84, CHR 0xB0] @ '' '' @ [CHR 0xED, CHR 0x98, CHR 0x95, CHR 0xEC, CHR 0x8B,
     CHR 0x9D, CHR 0xEC, CHR 0x9D, CHR 0x84] @ '' '' @ [CHR 0xED, CHR 0x99, CHR 0x95, CHR 0xEC,
     CHR 0x9D, CHR 0xB8, CHR 0xED, CHR 0x95, CHR 0xB4, CHR 0xEC, CHR 0xA3, CHR 0xBC, CHR 0xEC,
     CHR 0x84, CHR 0xB8, CHR 0xEC, CHR 0x9A, CHR 0x94]"

text \<open>try again\<close>

definition msg_retry :: string where
  "msg_retry =
     [CHR 0xF0, CHR 0x9F, CHR 0x94, CHR 0x84] @ '' '' @ [CHR 0xEB, CHR 0x8B, CHR 0xA4, CHR 0xEC,
     CHR 0x8B, CHR 0x9C] @ '' '' @ [CHR 0xEC, CHR 0x8B, CHR 0x9C, CHR 0xEB, CHR 0x8F, CHR 0x84,
     CHR 0xED, CHR 0x95, CHR 0xB4, CHR 0xEC, CHR 0xA3, CHR 0xBC, CHR 0xEC, CHR 0x84, CHR 0xB8,
     CHR 0xEC, CHR 0x9A, CHR 0x94]"

text \<open>contact technical support\<close>

definition msg_tech_support :: string where
  "msg_tech_support =
     [CHR 0xF0, CHR 0x9F, CHR 0x93, CHR 0x9E] @ '' '' @ [CHR 0xEA, CHR 0xB8, CHR 0xB0, CHR 0xEC,
     CHR 0x88, CHR 0xA0, CHR 0xEC, CHR 0xA7, CHR 0x80, CHR 0xEC, CHR 0x9B, CHR 0x90, CHR 0xED,
     CHR 0x8C, CHR 0x80, CHR 0xEC, CHR 0x97, CHR 0x90] @ '' '' @ [CHR 0xEB, CHR 0xAC, CHR 0xB8,
     CHR 0xEC, CHR 0x9D, CHR 0x98, CHR 0xED, CHR 0x95, CHR 0xB4, CHR 0xEC, CHR 0xA3, CHR 0xBC,
     CHR 0xEC, CHR 0x84, CHR 0xB8, CHR 0xEC, CHR 0x9A, CHR 0x94]"

text \<open>check the required fields\<close>

definition msg_required_fields :: string where
  "msg_required_fields =
     [CHR 0xE2, CHR 0x9C, CHR 0x85] @ '' '' @ [CHR 0xED, CHR 0x95, CHR 0x84, CHR 0xEC, CHR 0x88,
     CHR 0x98] @ '' '' @ [CHR 0xED, CHR 0x95, CHR 0x84, CHR 0xEB, CHR 0x93, CHR 0x9C, CHR 0xEA,
     CHR 0xB0, CHR 0x80] @ '' '' @ [CHR 0xEB, CHR 0xAA, CHR 0xA8, CHR 0xEB, CHR 0x91, CHR 0x90] @
     '' '' @ [CHR 0xEC, CHR 0x9E, CHR 0x85, CHR 0xEB, CHR 0xA0, CHR 0xA5, CHR 0xEB, CHR 0x90, CHR 0x98,
     CHR 0xEC, CHR 0x97, CHR 0x88, CHR 0xEB, CHR 0x8A, CHR 0x94, CHR 0xEC, CHR 0xA7, CHR 0x80] @
     '' '' @ [CHR 0xED, CHR 0x99, CHR 0x95, CHR 0xEC, CHR 0x9D, CHR 0xB8, CHR 0xED, CHR 0x95, CHR 0xB4,
     CHR 0xEC, CHR 0xA3, CHR 0xBC, CHR 0xEC, CHR 0x84, CHR 0xB8, CHR 0xEC, CHR 0x9A, CHR 0x94]"

text \<open>check length and format\<close>

definition msg_length_format :: string where
  "msg_length_format =
     [CHR 0xF0, CHR 0x9F, CHR 0x93, CHR 0x8F] @ '' '' @ [CHR 0xEC, CHR 0x9E, CHR 0x85, CHR 0xEB,
     CHR 0xA0, CHR 0xA5] @ '' '' @ [CHR 0xEB, CHR 0x8D, CHR 0xB0, CHR 0xEC, CHR 0x9D, CHR 0xB4,
     CHR 0xED, CHR 0x84, CHR 0xB0, CHR 0xEC, CHR 0x9D, CHR 0x98] @ '' '' @ [CHR 0xEA, CHR 0xB8,
     CHR 0xB8, CHR 0xEC, CHR 0x9D, CHR 0xB4, CHR 0xEC, CHR 0x99, CHR 0x80] @ '' '' @ [CHR 0xED,
     CHR 0x98, CHR 0x95, CHR 0xEC, CHR 0x8B, CHR 0x9D, CHR 0xEC, CHR 0x9D, CHR 0x84] @ '' '' @
     [CHR 0xED, CHR 0x99, CHR 0x95, CHR 0xEC, CHR 0x9D, CHR 0xB8, CHR 0xED, CHR 0x95, CHR 0xB4,
     CHR 0xEC, CHR 0xA3, CHR 0xBC, CHR 0xEC, CHR 0x84, CHR 0xB8, CHR 0xEC, CHR 0x9A, CHR 0x94]"

text \<open>review the input\<close>

definition msg_review_input :: string where
  "msg_review_input =
     [CHR 0xF0, CHR 0x9F, CHR 0x94, CHR 0x8D] @ '' '' @ [CHR 0xEC, CHR 0x9E, CHR 0x85, CHR 0xEB,
     CHR 0xA0, CHR 0xA5, CHR 0xEA, CHR 0xB0, CHR 0x92, CHR 0xEC, CHR 0x9D, CHR 0x84] @ '' '' @
     [CHR 0xEB, CHR 0x8B, CHR 0xA4, CHR 0xEC, CHR 0x8B, CHR 0x9C] @ '' '' @ [CHR 0xEA, CHR 0xB2,
     CHR 0x80, CHR 0xED, CHR 0x86, CHR 0xA0, CHR 0xED, CHR 0x95, CHR 0xB4, CHR 0xEC, CHR 0xA3,
     CHR 0xBC, CHR 0xEC, CHR 0x84, CHR 0xB8, CHR 0xEC, CHR 0x9A, CHR 0x94]"

text \<open>contact the administrator\<close>

definition msg_contact_admin :: string where
  "msg_contact_admin =
     [CHR 0xF0, CHR 0x9F, CHR 0x93, CHR 0x9E] @ '' '' @ [CHR 0xEA, CHR 0xB4, CHR 0x80, CHR 0xEB,
     CHR 0xA6, CHR 0xAC, CHR 0xEC, CHR 0x9E, CHR 0x90, CHR 0xEC, CHR 0x97, CHR 0x90, CHR 0xEA,
     CHR 0xB2, CHR 0x8C] @ '' '' @ [CHR 0xEB, CHR 0xAC, CHR 0xB8, CHR 0xEC, CHR 0x9D, CHR 0x98,
     CHR 0xED, CHR 0x95, CHR 0xB4, CHR 0xEC, CHR 0xA3, CHR 0xBC, CHR 0xEC, CHR 0x84, CHR 0xB8,
     CHR 0xEC, CHR 0x9A, CHR 0x94]"

text \<open>keep a record of the error\<close>

definition msg_record_error :: string where
  "msg_record_error =
     [CHR 0xF0, CHR 0x9F, CHR 0x93, CHR 0x9D] @ '' '' @ [CHR 0xEC, CHR 0x98, CHR 0xA4, CHR 0xEB,
     CHR 0xA5, CHR 0x98] @ '' '' @ [CHR 0xEC, CHR 0x83, CHR 0x81, CHR 0xED, CHR 0x99, CHR 0xA9,
     CHR 0xEC, CHR 0x9D, CHR 0x84] @ '' '' @ [CHR 0xEA, CHR 0xB8, CHR 0xB0, CHR 0xEB, CHR 0xA1,
     CHR 0x9D, CHR 0xED, CHR 0x95, CHR 0xB4, CHR 0xEB, CHR 0x91, CHR 0x90, CHR 0xEC, CHR 0x8B,
     CHR 0x9C, CHR 0xEB, CHR 0xA9, CHR 0xB4] @ '' '' @ [CHR 0xEB, CHR 0x8F, CHR 0x84, CHR 0xEC,
     CHR 0x9B, CHR 0x80, CHR 0xEC, CHR 0x9D, CHR 0xB4] @ '' '' @ [CHR 0xEB, CHR 0x90, CHR 0xA9,
     CHR 0xEB, CHR 0x8B, CHR 0x88, CHR 0xEB, CHR 0x8B, CHR 0xA4]"

subsection \<open>Messages of generate\_general\_suggestions\<close>

text \<open>look at other scholarships\<close>

definition msg_other_scholarships :: string where
  "msg_other_scholarships =
     [CHR 0xF0, CHR 0x9F, CHR 0x92, CHR 0xA1] @ '' '' @ [CHR 0xEB, CHR 0x8B, CHR 0xA4, CHR 0xEB,
     CHR 0xA5, CHR 0xB8] @ '' '' @ [CHR 0xEC, CHR 0x9E, CHR 0xA5, CHR 0xED, CHR 0x95, CHR 0x99,
     CHR 0xEA, CHR 0xB8, CHR 0x88, CHR 0xEB, CHR 0x8F, CHR 0x84] @ '' '' @ [CHR 0xED, CHR 0x95,
     CHR 0xA8, CHR 0xEA, CHR 0xBB, CHR 0x98] @ '' '' @ [CHR 0xEA, CHR 0xB2, CHR 0x80, CHR 0xED,
     CHR 0x86, CHR 0xA0, CHR 0xED, CHR 0x95, CHR 0xB4, CHR 0xEB, CHR 0xB3, CHR 0xB4, CHR 0xEC,
     CHR 0x84, CHR 0xB8, CHR 0xEC, CHR 0x9A, CHR 0x94]"

text \<open>prepare the application documents\<close>

definition msg_prepare_documents :: string where
  "msg_prepare_documents =
     [CHR 0xF0, CHR 0x9F, CHR 0x93, CHR 0x8B] @ '' '' @ [CHR 0xEC, CHR 0xA7, CHR 0x80, CHR 0xEC,
     CHR 0x9B, CHR 0x90] @ '' '' @ [CHR 0xEC, CHR 0x84, CHR 0x9C, CHR 0xEB, CHR 0xA5, CHR 0x98,
     CHR 0xEB, CHR 0xA5, CHR 0xBC] @ '' '' @ [CHR 0xEB, CHR 0xAF, CHR 0xB8, CHR 0xEB, CHR 0xA6,
     CHR 0xAC] @ '' '' @ [CHR 0xEC, CHR 0xA4, CHR 0x80, CHR 0xEB, CHR 0xB9, CHR 0x84, CHR 0xED,
     CHR 0x95, CHR 0xB4, CHR 0xEB, CHR 0x91, CHR 0x90, CHR 0xEC, CHR 0x84, CHR 0xB8, CHR 0xEC,
     CHR 0x9A, CHR 0x94]"

text \<open>apply well before the deadline\<close>

definition msg_apply_early :: string where
  "msg_apply_early =
     [CHR 0xE2, CHR 0x8F, CHR 0xB0] @ '' '' @ [CHR 0xEB, CHR 0xA7, CHR 0x88, CHR 0xEA, CHR 0xB0,
     CHR 0x90, CHR 0xEC, CHR 0x9D, CHR 0xBC] @ '' '' @ [CHR 0xEC, CHR 0xA0, CHR 0x84, CHR 0xEC,
     CHR 0x97, CHR 0x90] @ '' '' @ [CHR 0xEC, CHR 0x97, CHR 0xAC, CHR 0xEC, CHR 0x9C, CHR 0xA0,
     CHR 0xEC, CHR 0x9E, CHR 0x88, CHR 0xEA, CHR 0xB2, CHR 0x8C] @ '' '' @ [CHR 0xEC, CHR 0x8B,
     CHR 0xA0, CHR 0xEC, CHR 0xB2, CHR 0xAD, CHR 0xED, CHR 0x95, CHR 0x98, CHR 0xEC, CHR 0x84,
     CHR 0xB8, CHR 0xEC, CHR 0x9A, CHR 0x94]"

text \<open>prepare a resume\<close>

definition msg_resume :: string where
  "msg_resume =
     [CHR 0xF0, CHR 0x9F, CHR 0x93, CHR 0x84] @ '' '' @ [CHR 0xEC, CHR 0x9D, CHR 0xB4, CHR 0xEB,
     CHR 0xA0, CHR 0xA5, CHR 0xEC, CHR 0x84, CHR 0x9C, CHR 0xEC, CHR 0x99, CHR 0x80] @ '' '' @
     [CHR 0xEC, CHR 0x9E, CHR 0x90, CHR 0xEA, CHR 0xB8, CHR 0xB0, CHR 0xEC, CHR 0x86, CHR 0x8C,
     CHR 0xEA, CHR 0xB0, CHR 0x9C, CHR 0xEC, CHR 0x84, CHR 0x9C, CHR 0xEB, CHR 0xA5, CHR 0xBC] @
     '' '' @ [CHR 0xEB, CHR 0xAF, CHR 0xB8, CHR 0xEB, CHR 0xA6, CHR 0xAC] @ '' '' @ [CHR 0xEC,
     CHR 0xA4, CHR 0x80, CHR 0xEB, CHR 0xB9, CHR 0x84, CHR 0xED, CHR 0x95, CHR 0x98, CHR 0xEC,
     CHR 0x84, CHR 0xB8, CHR 0xEC, CHR 0x9A, CHR 0x94]"

text \<open>research the company\<close>

definition msg_company :: string where
  "msg_company =
     [CHR 0xF0, CHR 0x9F, CHR 0x94, CHR 0x8D] @ '' '' @ [CHR 0xED, CHR 0x9A, CHR 0x8C, CHR 0xEC,
     CHR 0x82, CHR 0xAC] @ '' '' @ [CHR 0xEC, CHR 0xA0, CHR 0x95, CHR 0xEB, CHR 0xB3, CHR 0xB4,
     CHR 0xEB, CHR 0xA5, CHR 0xBC] @ '' '' @ [CHR 0xEB, CHR 0xAF, CHR 0xB8, CHR 0xEB, CHR 0xA6,
     CHR 0xAC] @ '' '' @ [CHR 0xEC, CHR 0xA1, CHR 0xB0, CHR 0xEC, CHR 0x82, CHR 0xAC, CHR 0xED,
     CHR 0x95, CHR 0xB4, CHR 0xEB, CHR 0xB3, CHR 0xB4, CHR 0xEC, CHR 0x84, CHR 0xB8, CHR 0xEC,
     CHR 0x9A, CHR 0x94]"

text \<open>collect certificates and experience\<close>

definition msg_certificates :: string where
  "msg_certificates =
     [CHR 0xF0, CHR 0x9F, CHR 0x92, CHR 0xBC] @ '' '' @ [CHR 0xEA, CHR 0xB4, CHR 0x80, CHR 0xEB,
     CHR 0xA0, CHR 0xA8] @ '' '' @ [CHR 0xEC, CHR 0x9E, CHR 0x90, CHR 0xEA, CHR 0xB2, CHR 0xA9,
     CHR 0xEC, CHR 0xA6, CHR 0x9D, CHR 0xEC, CHR 0x9D, CHR 0xB4, CHR 0xEB, CHR 0x82, CHR 0x98] @
     '' '' @ [CHR 0xEA, CHR 0xB2, CHR 0xBD, CHR 0xED, CHR 0x97, CHR 0x98, CHR 0xEC, CHR 0x9D,
     CHR 0x84] @ '' '' @ [CHR 0xEC, CHR 0xA0, CHR 0x95, CHR 0xEB, CHR 0xA6, CHR 0xAC, CHR 0xED,
     CHR 0x95, CHR 0xB4, CHR 0xEB, CHR 0xB3, CHR 0xB4, CHR 0xEC, CHR 0x84, CHR 0xB8, CHR 0xEC,
     CHR 0x9A, CHR 0x94]"

text \<open>check for study material\<close>

definition msg_study_material :: string where
  "msg_study_material =
     [CHR 0xF0, CHR 0x9F, CHR 0x93, CHR 0x9A] @ '' '' @ [CHR 0xEC, CHR 0x82, CHR 0xAC, CHR 0xEC,
     CHR 0xA0, CHR 0x84] @ '' '' @ [CHR 0xED, CHR 0x95, CHR 0x99, CHR 0xEC, CHR 0x8A, CHR 0xB5] @
     '' '' @ [CHR 0xEC, CHR 0x9E, CHR 0x90, CHR 0xEB, CHR 0xA3, CHR 0x8C, CHR 0xEA, CHR 0xB0,
     CHR 0x80] @ '' '' @ [CHR 0xEC, CHR 0x9E, CHR 0x88, CHR 0xEB, CHR 0x8A, CHR 0x94, CHR 0xEC,
     CHR 0xA7, CHR 0x80] @ '' '' @ [CHR 0xED, CHR 0x99, CHR 0x95, CHR 0xEC, CHR 0x9D, CHR 0xB8,
     CHR 0xED, CHR 0x95, CHR 0xB4, CHR 0xEB, CHR 0xB3, CHR 0xB4, CHR 0xEC, CHR 0x84, CHR 0xB8,
     CHR 0xEC, CHR 0x9A, CHR 0x94]"

text \<open>check the timetable\<close>

definition msg_timetable :: string where
  "msg_timetable =
     [CHR 0xF0, CHR 0x9F, CHR 0x95, CHR 0x90] @ '' '' @ [CHR 0xEC, CHR 0x88, CHR 0x98, CHR 0xEC,
     CHR 0x97, CHR 0x85] @ '' '' @ [CHR 0xEC, CHR 0x8B, CHR 0x9C, CHR 0xEA, CHR 0xB0, CHR 0x84,
     CHR 0xED, CHR 0x91, CHR 0x9C, CHR 0xEB, CHR 0xA5, CHR 0xBC] @ '' '' @ [CHR 0xEB, CHR 0xAF,
     CHR 0xB8, CHR 0xEB, CHR 0xA6, CHR 0xAC] @ '' '' @ [CHR 0xED, CHR 0x99, CHR 0x95, CHR 0xEC,
     CHR 0x9D, CHR 0xB8, CHR 0xED, CHR 0x95, CHR 0x98, CHR 0xEC, CHR 0x84, CHR 0xB8, CHR 0xEC,
     CHR 0x9A, CHR 0x94]"

text \<open>check what to bring\<close>

definition msg_supplies :: string where
  "msg_supplies =
     [CHR 0xF0, CHR 0x9F, CHR 0x93, CHR 0x9D] @ '' '' @ [CHR 0xED, CHR 0x95, CHR 0x84, CHR 0xEC,
     CHR 0x9A, CHR 0x94, CHR 0xED, CHR 0x95, CHR 0x9C] @ '' '' @ [CHR 0xEC, CHR 0xA4, CHR 0x80,
     CHR 0xEB, CHR 0xB9, CHR 0x84, CHR 0xEB, CHR 0xAC, CHR 0xBC, CHR 0xEC, CHR 0x9D, CHR 0xB4] @
     '' '' @ [CHR 0xEC, CHR 0x9E, CHR 0x88, CHR 0xEB, CHR 0x8A, CHR 0x94, CHR 0xEC, CHR 0xA7,
     CHR 0x80] @ '' '' @ [CHR 0xED, CHR 0x99, CHR 0x95, CHR 0xEC, CHR 0x9D, CHR 0xB8, CHR 0xED,
     CHR 0x95, CHR 0xB4, CHR 0xEB, CHR 0xB3, CHR 0xB4, CHR 0xEC, CHR 0x84, CHR 0xB8, CHR 0xEC,
     CHR 0x9A, CHR 0x94]"

text \<open>check how to register\<close>

definition msg_registration :: string where
  "msg_registration =
     [CHR 0xF0, CHR 0x9F, CHR 0x8E, CHR 0xAB] @ '' '' @ [CHR 0xEC, CHR 0xB0, CHR 0xB8, CHR 0xEA,
     CHR 0xB0, CHR 0x80] @ '' '' @ [CHR 0xEC, CHR 0x8B, CHR 0xA0, CHR 0xEC, CHR 0xB2, CHR 0xAD] @
     '' '' @ [CHR 0xEB, CHR 0xB0, CHR 0xA9, CHR 0xEB, CHR 0xB2, CHR 0x95, CHR 0xEC, CHR 0x9D,
     CHR 0x84] @ '' '' @ [CHR 0xEB, CHR 0xAF, CHR 0xB8, CHR 0xEB, CHR 0xA6, CHR 0xAC] @ '' '' @
     [CHR 0xED, CHR 0x99, CHR 0x95, CHR 0xEC, CHR 0x9D, CHR 0xB8, CHR 0xED, CHR 0x95, CHR 0x98,
     CHR 0xEC, CHR 0x84, CHR 0xB8, CHR 0xEC, CHR 0x9A, CHR 0x94]"

text \<open>check venue and transport\<close>

definition msg_venue :: string where
  "msg_venue =
     [CHR 0xF0, CHR 0x9F, CHR 0x93, CHR 0x8D] @ '' '' @ [CHR 0xED, CHR 0x96, CHR 0x89, CHR 0xEC,
     CHR 0x82, CHR 0xAC] @ '' '' @ [CHR 0xEC, CHR 0x9E, CHR 0xA5, CHR 0xEC, CHR 0x86, CHR 0x8C,
     CHR 0xEC, CHR 0x99, CHR 0x80] @ '' '' @ [CHR 0xEA, CHR 0xB5, CHR 0x90, CHR 0xED, CHR 0x86,
     CHR 0xB5, CHR 0xED, CHR 0x8E, CHR 0xB8, CHR 0xEC, CHR 0x9D, CHR 0x84] @ '' '' @ [CHR 0xED,
     CHR 0x99, CHR 0x95, CHR 0xEC, CHR 0x9D, CHR 0xB8, CHR 0xED, CHR 0x95, CHR 0xB4, CHR 0xEB,
     CHR 0xB3, CHR 0xB4, CHR 0xEC, CHR 0x84, CHR 0xB8, CHR 0xEC, CHR 0x9A, CHR 0x94]"

text \<open>check the dress code\<close>

definition msg_dress_code :: string where
  "msg_dress_code =
     [CHR 0xF0, CHR 0x9F, CHR 0x91, CHR 0x95] @ '' '' @ [CHR 0xEB, CHR 0x93, CHR 0x9C, CHR 0xEB,
     CHR 0xA0, CHR 0x88, CHR 0xEC, CHR 0x8A, CHR 0xA4, CHR 0xEC, CHR 0xBD, CHR 0x94, CHR 0xEB,
     CHR 0x93, CHR 0x9C, CHR 0xEA, CHR 0xB0, CHR 0x80] @ '' '' @ [CHR 0xEC, CHR 0x9E, CHR 0x88,
     CHR 0xEB, CHR 0x8A, CHR 0x94, CHR 0xEC, CHR 0xA7, CHR 0x80] @ '' '' @ [CHR 0xED, CHR 0x99,
     CHR 0x95, CHR 0xEC, CHR 0x9D, CHR 0xB8, CHR 0xED, CHR 0x95, CHR 0xB4, CHR 0xEB, CHR 0xB3,
     CHR 0xB4, CHR 0xEC, CHR 0x84, CHR 0xB8, CHR 0xEC, CHR 0x9A, CHR 0x94]"

text \<open>check the notices regularly\<close>

definition msg_check_notices :: string where
  "msg_check_notices =
     [CHR 0xF0, CHR 0x9F, CHR 0x93, CHR 0x96] @ '' '' @ [CHR 0xEA, CHR 0xB3, CHR 0xB5, CHR 0xEC,
     CHR 0xA7, CHR 0x80, CHR 0xEC, CHR 0x82, CHR 0xAC, CHR 0xED, CHR 0x95, CHR 0xAD, CHR 0xEC,
     CHR 0x9D, CHR 0x84] @ '' '' @ [CHR 0xEC, CHR 0xA3, CHR 0xBC, CHR 0xEA, CHR 0xB8, CHR 0xB0,
     CHR 0xEC, CHR 0xA0, CHR 0x81, CHR 0xEC, CHR 0x9C, CHR 0xBC, CHR 0xEB, CHR 0xA1, CHR 0x9C] @
     '' '' @ [CHR 0xED, CHR 0x99, CHR 0x95, CHR 0xEC, CHR 0x9D, CHR 0xB8, CHR 0xED, CHR 0x95, CHR 0x98,
     CHR 0xEC, CHR 0x84, CHR 0xB8, CHR 0xEC, CHR 0x9A, CHR 0x94]"

text \<open>ask the person in charge\<close>

definition msg_ask_contact :: string where
  "msg_ask_contact =
     [CHR 0xE2, CHR 0x9D, CHR 0x93] @ '' '' @ [CHR 0xEA, CHR 0xB6, CHR 0x81, CHR 0xEA, CHR 0xB8,
     CHR 0x88, CHR 0xED, CHR 0x95, CHR 0x9C] @ '' '' @ [CHR 0xEC, CHR 0xA0, CHR 0x90, CHR 0xEC,
     CHR 0x9D, CHR 0x80] @ '' '' @ [CHR 0xEB, CHR 0x8B, CHR 0xB4, CHR 0xEB, CHR 0x8B, CHR 0xB9,
     CHR 0xEC, CHR 0x9E, CHR 0x90, CHR 0xEC, CHR 0x97, CHR 0x90, CHR 0xEA, CHR 0xB2, CHR 0x8C] @
     '' '' @ [CHR 0xEB, CHR 0xAC, CHR 0xB8, CHR 0xEC, CHR 0x9D, CHR 0x98, CHR 0xED, CHR 0x95, CHR 0x98,
     CHR 0xEC, CHR 0x84, CHR 0xB8, CHR 0xEC, CHR 0x9A, CHR 0x94]"

text \<open>bookmark the site\<close>

definition msg_bookmark :: string where
  "msg_bookmark =
     [CHR 0xF0, CHR 0x9F, CHR 0x93, CHR 0xB1] @ '' '' @ [CHR 0xEA, CHR 0xB4, CHR 0x80, CHR 0xEB,
     CHR 0xA0, CHR 0xA8] @ '' '' @ [CHR 0xEC, CHR 0x95, CHR 0xB1, CHR 0xEC, CHR 0x9D, CHR 0xB4,
     CHR 0xEB, CHR 0x82, CHR 0x98] @ '' '' @ [CHR 0xEC, CHR 0x9B, CHR 0xB9, CHR 0xEC, CHR 0x82,
     CHR 0xAC, CHR 0xEC, CHR 0x9D, CHR 0xB4, CHR 0xED, CHR 0x8A, CHR 0xB8, CHR 0xEB, CHR 0xA5,
     CHR 0xBC] @ '' '' @ [CHR 0xEB, CHR 0xB6, CHR 0x81, CHR 0xEB, CHR 0xA7, CHR 0x88, CHR 0xED,
     CHR 0x81, CHR 0xAC, CHR 0xED, CHR 0x95, CHR 0xB4, CHR 0xEB, CHR 0x91, CHR 0x90, CHR 0xEC,
     CHR 0x84, CHR 0xB8, CHR 0xEC, CHR 0x9A, CHR 0x94]"

text \<open>handler: contact the office\<close>

definition msg_contact_office :: string where
  "msg_contact_office =
     [CHR 0xF0, CHR 0x9F, CHR 0x93, CHR 0x9E] @ '' '' @ [CHR 0xEB, CHR 0x8B, CHR 0xB4, CHR 0xEB,
     CHR 0x8B, CHR 0xB9] @ '' '' @ [CHR 0xEB, CHR 0xB6, CHR 0x80, CHR 0xEC, CHR 0x84, CHR 0x9C,
     CHR 0xEC, CHR 0x97, CHR 0x90] @ '' '' @ [CHR 0xEC, CHR 0xA7, CHR 0x81, CHR 0xEC, CHR 0xA0,
     CHR 0x91] @ '' '' @ [CHR 0xEB, CHR 0xAC, CHR 0xB8, CHR 0xEC, CHR 0x9D, CHR 0x98, CHR 0xED,
     CHR 0x95, CHR 0xB4, CHR 0xEC, CHR 0xA3, CHR 0xBC, CHR 0xEC, CHR 0x84, CHR 0xB8, CHR 0xEC,
     CHR 0x9A, CHR 0x94]"

subsection \<open>Messages of \_generate\_deadline\_suggestions\<close>

text \<open>empty date: check the deadline separately\<close>

definition msg_check_deadline :: string where
  "msg_check_deadline =
     [CHR 0xE2, CHR 0x8F, CHR 0xB0] @ '' '' @ [CHR 0xEB, CHR 0xA7, CHR 0x88, CHR 0xEA, CHR 0xB0,
     CHR 0x90, CHR 0xEC, CHR 0x9D, CHR 0xBC, CHR 0xEC, CHR 0x9D, CHR 0x84] @ '' '' @ [CHR 0xEB,
     CHR 0xB3, CHR 0x84, CHR 0xEB, CHR 0x8F, CHR 0x84, CHR 0xEB, CHR 0xA1, CHR 0x9C] @ '' '' @
     [CHR 0xED, CHR 0x99, CHR 0x95, CHR 0xEC, CHR 0x9D, CHR 0xB8, CHR 0xED, CHR 0x95, CHR 0xB4,
     CHR 0xEC, CHR 0xA3, CHR 0xBC, CHR 0xEC, CHR 0x84, CHR 0xB8, CHR 0xEC, CHR 0x9A, CHR 0x94]"

text \<open>the deadline has passed\<close>

definition msg_overdue :: string where
  "msg_overdue =
     [CHR 0xE2, CHR 0x9A, CHR 0xA0, CHR 0xEF, CHR 0xB8, CHR 0x8F] @ '' '' @ [CHR 0xEB, CHR 0xA7,
     CHR 0x88, CHR 0xEA, CHR 0xB0, CHR 0x90, CHR 0xEC, CHR 0x9D, CHR 0xBC, CHR 0xEC, CHR 0x9D,
     CHR 0xB4] @ '' '' @ [CHR 0xEC, CHR 0xA7, CHR 0x80, CHR 0xEB, CHR 0x82, CHR 0xAC, CHR 0xEC,
     CHR 0x8A, CHR 0xB5, CHR 0xEB, CHR 0x8B, CHR 0x88, CHR 0xEB, CHR 0x8B, CHR 0xA4] @ ''. '' @
     [CHR 0xEC, CHR 0x97, CHR 0xB0, CHR 0xEC, CHR 0x9E, CHR 0xA5] @ '' '' @ [CHR 0xEA, CHR 0xB0,
     CHR 0x80, CHR 0xEB, CHR 0x8A, CHR 0xA5] @ '' '' @ [CHR 0xEC, CHR 0x97, CHR 0xAC, CHR 0xEB,
     CHR 0xB6, CHR 0x80, CHR 0xEB, CHR 0xA5, CHR 0xBC] @ '' '' @ [CHR 0xED, CHR 0x99, CHR 0x95,
     CHR 0xEC, CHR 0x9D, CHR 0xB8, CHR 0xED, CHR 0x95, CHR 0xB4, CHR 0xEB, CHR 0xB3, CHR 0xB4,
     CHR 0xEC, CHR 0x84, CHR 0xB8, CHR 0xEC, CHR 0x9A, CHR 0x94]"

text \<open>today is the deadline\<close>

definition msg_due_today :: string where
  "msg_due_today =
     [CHR 0xF0, CHR 0x9F, CHR 0x9A, CHR 0xA8] @ '' '' @ [CHR 0xEC, CHR 0x98, CHR 0xA4, CHR 0xEB,
     CHR 0x8A, CHR 0x98, CHR 0xEC, CHR 0x9D, CHR 0xB4] @ '' '' @ [CHR 0xEB, CHR 0xA7, CHR 0x88,
     CHR 0xEA, CHR 0xB0, CHR 0x90, CHR 0xEC, CHR 0x9D, CHR 0xBC, CHR 0xEC, CHR 0x9E, CHR 0x85,
     CHR 0xEB, CHR 0x8B, CHR 0x88, CHR 0xEB, CHR 0x8B, CHR 0xA4] @ ''!''"

text \<open>at most 3 days: the text before the number\<close>

definition msg_within3_pre :: string where
  "msg_within3_pre =
     [CHR 0xE2, CHR 0x8F, CHR 0xB0] @ '' ''"

text \<open>at most 3 days: (number) days until the deadline, hurry\<close>

definition msg_within3_post :: string where
  "msg_within3_post =
     [CHR 0xEC, CHR 0x9D, CHR 0xBC] @ '' '' @ [CHR 0xED, CHR 0x9B, CHR 0x84] @ '' '' @ [CHR 0xEB,
     CHR 0xA7, CHR 0x88, CHR 0xEA, CHR 0xB0, CHR 0x90, CHR 0xEC, CHR 0x9E, CHR 0x85, CHR 0xEB,
     CHR 0x8B, CHR 0x88, CHR 0xEB, CHR 0x8B, CHR 0xA4] @ ''. '' @ [CHR 0xEC, CHR 0x84, CHR 0x9C,
     CHR 0xEB, CHR 0x91, CHR 0x98, CHR 0xEB, CHR 0x9F, CHR 0xAC] @ '' '' @ [CHR 0xEC, CHR 0xA4,
     CHR 0x80, CHR 0xEB, CHR 0xB9, CHR 0x84, CHR 0xED, CHR 0x95, CHR 0x98, CHR 0xEC, CHR 0x84,
     CHR 0xB8, CHR 0xEC, CHR 0x9A, CHR 0x94] @ ''!''"

text \<open>at most 7 days: deadline within a week (\<close>

definition msg_within7_pre :: string where
  "msg_within7_pre =
     [CHR 0xF0, CHR 0x9F, CHR 0x93, CHR 0x85] @ '' '' @ [CHR 0xEC, CHR 0x9D, CHR 0xBC, CHR 0xEC,
     CHR 0xA3, CHR 0xBC, CHR 0xEC, CHR 0x9D, CHR 0xBC] @ '' '' @ [CHR 0xEB, CHR 0x82, CHR 0xB4] @
     '' '' @ [CHR 0xEB, CHR 0xA7, CHR 0x88, CHR 0xEA, CHR 0xB0, CHR 0x90] @ ''(''"

text \<open>at most 7 days: (number) days from now)\<close>

definition msg_within7_post :: string where
  "msg_within7_post =
     [CHR 0xEC, CHR 0x9D, CHR 0xBC] @ '' '' @ [CHR 0xED, CHR 0x9B, CHR 0x84] @ '')'' @ [CHR 0xEC,
     CHR 0x9E, CHR 0x85, CHR 0xEB, CHR 0x8B, CHR 0x88, CHR 0xEB, CHR 0x8B, CHR 0xA4] @ ''. '' @
     [CHR 0xEB, CHR 0xAF, CHR 0xB8, CHR 0xEB, CHR 0xA6, CHR 0xAC] @ '' '' @ [CHR 0xEC, CHR 0xA4,
     CHR 0x80, CHR 0xEB, CHR 0xB9, CHR 0x84, CHR 0xED, CHR 0x95, CHR 0x98, CHR 0xEC, CHR 0x84,
     CHR 0xB8, CHR 0xEC, CHR 0x9A, CHR 0x94]"

text \<open>at most 14 days: deadline within two weeks\<close>

definition msg_within14 :: string where
  "msg_within14 =
     [CHR 0xF0, CHR 0x9F, CHR 0x93, CHR 0x8B] @ '' 2'' @ [CHR 0xEC, CHR 0xA3, CHR 0xBC] @ '' '' @
     [CHR 0xEB, CHR 0x82, CHR 0xB4] @ '' '' @ [CHR 0xEB, CHR 0xA7, CHR 0x88, CHR 0xEA, CHR 0xB0,
     CHR 0x90, CHR 0xEC, CHR 0x9E, CHR 0x85, CHR 0xEB, CHR 0x8B, CHR 0x88, CHR 0xEB, CHR 0x8B,
     CHR 0xA4] @ ''. '' @ [CHR 0xED, CHR 0x95, CHR 0x84, CHR 0xEC, CHR 0x9A, CHR 0x94, CHR 0xED,
     CHR 0x95, CHR 0x9C] @ '' '' @ [CHR 0xEC, CHR 0x84, CHR 0x9C, CHR 0xEB, CHR 0xA5, CHR 0x98,
     CHR 0xEB, CHR 0xA5, CHR 0xBC] @ '' '' @ [CHR 0xEC, CHR 0xA4, CHR 0x80, CHR 0xEB, CHR 0xB9,
     CHR 0x84, CHR 0xED, CHR 0x95, CHR 0xB4, CHR 0xEB, CHR 0xB3, CHR 0xB4, CHR 0xEC, CHR 0x84,
     CHR 0xB8, CHR 0xEC, CHR 0x9A, CHR 0x94]"

text \<open>more than 14 days: until the deadline\<close>

definition msg_later_pre :: string where
  "msg_later_pre =
     [CHR 0xF0, CHR 0x9F, CHR 0x93, CHR 0x86] @ '' '' @ [CHR 0xEB, CHR 0xA7, CHR 0x88, CHR 0xEA,
     CHR 0xB0, CHR 0x90, CHR 0xEA, CHR 0xB9, CHR 0x8C, CHR 0xEC, CHR 0xA7, CHR 0x80] @ '' ''"

text \<open>more than 14 days: (number) days remain\<close>

definition msg_later_post :: string where
  "msg_later_post =
     [CHR 0xEC, CHR 0x9D, CHR 0xBC] @ '' '' @ [CHR 0xEB, CHR 0x82, CHR 0xA8, CHR 0xEC, CHR 0x95,
     CHR 0x98, CHR 0xEC, CHR 0x8A, CHR 0xB5, CHR 0xEB, CHR 0x8B, CHR 0x88, CHR 0xEB, CHR 0x8B,
     CHR 0xA4] @ ''. '' @ [CHR 0xEA, CHR 0xB3, CHR 0x84, CHR 0xED, CHR 0x9A, CHR 0x8D, CHR 0xEC,
     CHR 0xA0, CHR 0x81, CHR 0xEC, CHR 0x9C, CHR 0xBC, CHR 0xEB, CHR 0xA1, CHR 0x9C] @ '' '' @
     [CHR 0xEC, CHR 0xA4, CHR 0x80, CHR 0xEB, CHR 0xB9, CHR 0x84, CHR 0xED, CHR 0x95, CHR 0x98,
     CHR 0xEC, CHR 0x84, CHR 0xB8, CHR 0xEC, CHR 0x9A, CHR 0x94]"

text \<open>no date recognised: check the format of the deadline\<close>

definition msg_bad_format :: string where
  "msg_bad_format =
     [CHR 0xF0, CHR 0x9F, CHR 0x93, CHR 0x85] @ '' '' @ [CHR 0xEB, CHR 0xA7, CHR 0x88, CHR 0xEA,
     CHR 0xB0, CHR 0x90, CHR 0xEC, CHR 0x9D, CHR 0xBC] @ '' '' @ [CHR 0xED, CHR 0x98, CHR 0x95,
     CHR 0xEC, CHR 0x8B, CHR 0x9D, CHR 0xEC, CHR 0x9D, CHR 0x84] @ '' '' @ [CHR 0xED, CHR 0x99,
     CHR 0x95, CHR 0xEC, CHR 0x9D, CHR 0xB8, CHR 0xED, CHR 0x95, CHR 0x98, CHR 0xEC, CHR 0x97,
     CHR 0xAC] @ '' '' @ [CHR 0xEC, CHR 0x9D, CHR 0xBC, CHR 0xEC, CHR 0xA0, CHR 0x95, CHR 0xEC,
     CHR 0x9D, CHR 0x84] @ '' '' @ [CHR 0xEA, CHR 0xB4, CHR 0x80, CHR 0xEB, CHR 0xA6, CHR 0xAC,
     CHR 0xED, CHR 0x95, CHR 0x98, CHR 0xEC, CHR 0x84, CHR 0xB8, CHR 0xEC, CHR 0x9A, CHR 0x94]"

text \<open>handler: mark the deadline in the calendar\<close>

definition msg_mark_calendar :: string where
  "msg_mark_calendar =
     [CHR 0xF0, CHR 0x9F, CHR 0x93, CHR 0x85] @ '' '' @ [CHR 0xEB, CHR 0xA7, CHR 0x88, CHR 0xEA,
     CHR 0xB0, CHR 0x90, CHR 0xEC, CHR 0x9D, CHR 0xBC, CHR 0xEC, CHR 0x9D, CHR 0x84] @ '' '' @
     [CHR 0xEB, CHR 0x8B, CHR 0xAC, CHR 0xEB, CHR 0xA0, CHR 0xA5, CHR 0xEC, CHR 0x97, CHR 0x90] @
     '' '' @ [CHR 0xED, CHR 0x91, CHR 0x9C, CHR 0xEC, CHR 0x8B, CHR 0x9C, CHR 0xED, CHR 0x95, CHR 0xB4,
     CHR 0xEB, CHR 0x91, CHR 0x90, CHR 0xEC, CHR 0x84, CHR 0xB8, CHR 0xEC, CHR 0x9A, CHR 0x94]"

subsection \<open>Message of consolidate\_suggestions\<close>

text \<open>handler: contact the office directly\<close>

definition msg_consolidate_fallback :: string where
  "msg_consolidate_fallback =
     [CHR 0xF0, CHR 0x9F, CHR 0x93, CHR 0x9E] @ '' '' @ [CHR 0xEA, CHR 0xB4, CHR 0x80, CHR 0xEB,
     CHR 0xA0, CHR 0xA8] @ '' '' @ [CHR 0xEB, CHR 0xB6, CHR 0x80, CHR 0xEC, CHR 0x84, CHR 0x9C,
     CHR 0xEC, CHR 0x97, CHR 0x90] @ '' '' @ [CHR 0xEC, CHR 0xA7, CHR 0x81, CHR 0xEC, CHR 0xA0,
     CHR 0x91] @ '' '' @ [CHR 0xEB, CHR 0xAC, CHR 0xB8, CHR 0xEC, CHR 0x9D, CHR 0x98, CHR 0xED,
     CHR 0x95, CHR 0xB4, CHR 0xEC, CHR 0xA3, CHR 0xBC, CHR 0xEC, CHR 0x84, CHR 0xB8, CHR 0xEC,
     CHR 0x9A, CHR 0x94]"

subsection \<open>Dates and times\<close>

text \<open>
  \<^verbatim>\<open>datetime\<close> values of the proleptic Gregorian calendar.  The clock
  \<^verbatim>\<open>datetime.now()\<close> is an input of the model.
\<close>

record datetime =
  dt_year :: int
  dt_month :: int
  dt_day :: int
  dt_hour :: int
  dt_minute :: int
  dt_second :: int
  dt_microsecond :: int

definition is_leap :: "int \<Rightarrow> bool" where
  "is_leap y = (y mod 4 = 0 \<and> (y mod 100 \<noteq> 0 \<or> y mod 400 = 0))"

definition days_in_month :: "int \<Rightarrow> int \<Rightarrow> int" where
  "days_in_month y m =
     (if m = 2 then (if is_leap y then 29 else 28)
      else if m = 4 \<or> m = 6 \<or> m = 9 \<or> m = 11 then 30
      else 31)"

definition days_before_year :: "int \<Rightarrow> int" where
  "days_before_year y = (y - 1) * 365 + (y - 1) div 4 - (y - 1) div 100 + (y - 1) div 400"

definition days_before_month :: "int \<Rightarrow> int \<Rightarrow> int" where
  "days_before_month y m = sum_list (map (days_in_month y) [1 .. m - 1])"

definition ymd2ord :: "int \<Rightarrow> int \<Rightarrow> int \<Rightarrow> int" where
  "ymd2ord y m d = days_before_year y + days_before_month y m + d"

text \<open>
  The constructor \<^verbatim>\<open>datetime(year, month, day)\<close>: midnight of that day, or
  \<open>None\<close> for the \<^verbatim>\<open>ValueError\<close> of a date that does not exist.
\<close>

definition mk_datetime :: "int \<Rightarrow> int \<Rightarrow> int \<Rightarrow> datetime option" where
  "mk_datetime y m d =
     (if 1 \<le> y \<and> y \<le> 9999 \<and> 1 \<le> m \<and> m \<le> 12 \<and> 1 \<le> d \<and> d \<le> days_in_month y m
      then Some \<lparr>dt_year = y, dt_month = m, dt_day = d, dt_hour = 0, dt_minute = 0,
                 dt_second = 0, dt_microsecond = 0\<rparr>
      else None)"

definition us_per_day :: int where
  "us_per_day = 86400 * 1000000"

definition time_of_day :: "datetime \<Rightarrow> int" where
  "time_of_day t =
     ((dt_hour t * 60 + dt_minute t) * 60 + dt_second t) * 1000000 + dt_microsecond t"

definition to_microseconds :: "datetime \<Rightarrow> int" where
  "to_microseconds t =
     ymd2ord (dt_year t) (dt_month t) (dt_day t) * us_per_day + time_of_day t"

text \<open>
  \<^verbatim>\<open>(deadline - now).days\<close>: a \<^verbatim>\<open>timedelta\<close> is normalised so that its seconds and
  microseconds are not negative, hence \<^verbatim>\<open>days\<close> is the floor of the difference in days.
\<close>

definition timedelta_days :: "datetime \<Rightarrow> datetime \<Rightarrow> int" where
  "timedelta_days deadline now = (to_microseconds deadline - to_microseconds now) div us_per_day"

subsection \<open>The three date patterns\<close>

text \<open>
  \<^verbatim>\<open>\d{n}\<close> at the start of the string: the text of the \<open>n\<close> decimal digits and the
  rest.  A pattern on \<^verbatim>\<open>str\<close> takes every decimal digit of Unicode for \<^verbatim>\<open>\d\<close>.
\<close>

fun exact_digits :: "nat \<Rightarrow> string \<Rightarrow> (string \<times> string) option" where
  "exact_digits 0 s = Some ([], s)"
| "exact_digits (Suc n) s =
     (case read_digit s of
        None \<Rightarrow> None
      | Some (v, rest) \<Rightarrow>
          (case exact_digits n rest of
             None \<Rightarrow> None
           | Some (ds, r) \<Rightarrow> Some (take (length s - length rest) s @ ds, r)))"

text \<open>A match that goes on with the separator.\<close>

definition then_sep :: "char \<Rightarrow> (string \<times> string) option \<Rightarrow> (string \<times> string) option" where
  "then_sep sep m =
     (case m of
        None \<Rightarrow> None
      | Some (ds, r) \<Rightarrow>
          (case r of
             [] \<Rightarrow> None
           | c # rest \<Rightarrow> if c = sep then Some (ds, rest) else None))"

text \<open>
  \<^verbatim>\<open>(\d{1,2})\<close> followed by the separator.  The group is greedy: two digits are
  tried first, and one digit when the match cannot go on after two.
\<close>

definition d12_sep :: "char \<Rightarrow> string \<Rightarrow> (string \<times> string) option" where
  "d12_sep sep s =
     (case then_sep sep (exact_digits 2 s) of
        Some m \<Rightarrow> Some m
      | None \<Rightarrow> then_sep sep (exact_digits 1 s))"

text \<open>\<^verbatim>\<open>(\d{1,2})\<close> at the end of a pattern: two digits when there are two.\<close>

definition d12_end :: "string \<Rightarrow> string option" where
  "d12_end s =
     (case exact_digits 2 s of
        Some (ds, r) \<Rightarrow> Some ds
      | None \<Rightarrow> map_option fst (exact_digits 1 s))"

text \<open>
  \<^verbatim>\<open>(\d{4})S(\d{1,2})S(\d{1,2})\<close> matched at the start of the string, for the
  separator \<^verbatim>\<open>S\<close>; the groups are year, month, day.
\<close>

definition match_ymd :: "char \<Rightarrow> string \<Rightarrow> (string \<times> string \<times> string) option" where
  "match_ymd sep s =
     (case exact_digits 4 s of
        None \<Rightarrow> None
      | Some (y, r1) \<Rightarrow>
          (case r1 of
             [] \<Rightarrow> None
           | c # r2 \<Rightarrow>
               if c \<noteq> sep then None
               else (case d12_sep sep r2 of
                       None \<Rightarrow> None
                     | Some (m, r3) \<Rightarrow>
                         (case d12_end r3 of
                            None \<Rightarrow> None
                          | Some d \<Rightarrow> Some (y, m, d)))))"

text \<open>\<^verbatim>\<open>(\d{1,2})/(\d{1,2})/(\d{4})\<close> at the start of the string; the groups are month, day, year.\<close>

definition match_mdy :: "string \<Rightarrow> (string \<times> string \<times> string) option" where
  "match_mdy s =
     (case d12_sep CHR ''/'' s of
        None \<Rightarrow> None
      | Some (m, r1) \<Rightarrow>
          (case d12_sep CHR ''/'' r1 of
             None \<Rightarrow> None
           | Some (d, r2) \<Rightarrow>
               (case exact_digits 4 r2 of
                  None \<Rightarrow> None
                | Some (y, r3) \<Rightarrow> Some (m, d, y))))"

text \<open>\<^verbatim>\<open>re.search\<close>: the match at the leftmost position that has one.\<close>

fun re_search :: "(string \<Rightarrow> 'a option) \<Rightarrow> string \<Rightarrow> 'a option" where
  "re_search m [] = m []"
| "re_search m (c # cs) = (case m (c # cs) of Some r \<Rightarrow> Some r | None \<Rightarrow> re_search m cs)"

text \<open>
  \<^verbatim>\<open>datetime(int(year), int(month), int(day))\<close> on three groups; \<open>None\<close> is the
  \<^verbatim>\<open>ValueError\<close>, after which the loop goes on with the next pattern.
\<close>

definition datetime_of_groups :: "string \<Rightarrow> string \<Rightarrow> string \<Rightarrow> datetime option" where
  "datetime_of_groups year month day =
     (case (py_int year, py_int month, py_int day) of
        (Some y, Some m, Some d) \<Rightarrow> mk_datetime y m d
      | _ \<Rightarrow> None)"

definition try_ymd :: "char \<Rightarrow> string \<Rightarrow> datetime option" where
  "try_ymd sep date_str =
     (case re_search (match_ymd sep) date_str of
        None \<Rightarrow> None
      | Some (year, month, day) \<Rightarrow> datetime_of_groups year month day)"

definition try_mdy :: "string \<Rightarrow> datetime option" where
  "try_mdy date_str =
     (case re_search match_mdy date_str of
        None \<Rightarrow> None
      | Some (month, day, year) \<Rightarrow> datetime_of_groups year month day)"

text \<open>The loop over the patterns: the first one that matches and gives a date.\<close>

definition parse_deadline :: "string \<Rightarrow> datetime option" where
  "parse_deadline date_str =
     (case try_ymd CHR ''.'' date_str of
        Some deadline \<Rightarrow> Some deadline
      | None \<Rightarrow>
          (case try_ymd CHR ''-'' date_str of
             Some deadline \<Rightarrow> Some deadline
           | None \<Rightarrow> try_mdy date_str))"

subsection \<open>\_generate\_deadline\_suggestions\<close>

text \<open>
  Nothing in the \<^verbatim>\<open>try\<close> block raises on a string, so its handler (which would add
  \<open>msg_mark_calendar\<close>) is not reached.
\<close>

definition generate_deadline_suggestions :: "datetime \<Rightarrow> string \<Rightarrow> string list" where
  "generate_deadline_suggestions now date_str =
     (if date_str = [] then [msg_check_deadline]
      else (case parse_deadline date_str of
              Some deadline \<Rightarrow>
                (let days_left = timedelta_days deadline now
                 in if days_left < 0 then [msg_overdue]
                    else if days_left = 0 then [msg_due_today]
                    else if days_left \<le> 3
                      then [msg_within3_pre @ show_int days_left @ msg_within3_post]
                    else if days_left \<le> 7
                      then [msg_within7_pre @ show_int days_left @ msg_within7_post]
                    else if days_left \<le> 14 then [msg_within14]
                    else [msg_later_pre @ show_int days_left @ msg_later_post])
            | None \<Rightarrow> [msg_bad_format]))"

subsection \<open>generate\_parsing\_suggestions\<close>

definition get_str :: "string option \<Rightarrow> string" where
  "get_str x = (case x of None \<Rightarrow> [] | Some s \<Rightarrow> s)"

text \<open>
  The loop over the schedule.  Each pass that reaches the deadline rule reads the clock;
  the \<open>i\<close>-th entry is given the reading \<open>clock i\<close>.
\<close>

fun schedule_suggestions :: "(nat \<Rightarrow> datetime) \<Rightarrow> nat \<Rightarrow> pydict list \<Rightarrow> string list" where
  "schedule_suggestions clock i [] = []"
| "schedule_suggestions clock i (schedule # rest) =
     (if py_in kw_deadline (dict_get schedule ''description'' [])
      then generate_deadline_suggestions (clock i) (dict_get schedule ''date'' [])
      else []) @ schedule_suggestions clock (Suc i) rest"

text \<open>
  On a summary whose fields are strings and whose schedule is a list of such entries no
  statement of the \<^verbatim>\<open>try\<close> block raises, so the handler (which would add
  \<open>msg_check_details\<close>) is not reached.
\<close>

definition generate_parsing_suggestions ::
    "(nat \<Rightarrow> datetime) \<Rightarrow> 'a summary_data_scheme \<Rightarrow> string list" where
  "generate_parsing_suggestions clock parsed_data =
     (let title = get_str (sd_title parsed_data);
          schedules = (case sd_schedule parsed_data of None \<Rightarrow> [] | Some s \<Rightarrow> s);
          application_method = get_str (sd_application_method parsed_data);
          target = get_str (sd_target parsed_data);
          important_notes = get_str (sd_important_notes parsed_data)
      in (if py_in kw_scholarship title then [msg_scholarship_notice]
          else if py_in kw_job title \<or> py_in kw_hiring title then [msg_job_notice]
          else if py_in kw_exchange title \<or> py_in kw_abroad title then [msg_exchange_notice]
          else []) @
         (if schedules \<noteq> [] then schedule_suggestions clock 0 schedules
          else [msg_no_schedule]) @
         (if application_method \<noteq> []
          then (if py_in kw_online application_method then [msg_online] else []) @
               (if py_in kw_visit application_method then [msg_visit] else []) @
               (if py_in kw_email application_method then [msg_email] else [])
          else []) @
         (if target \<noteq> []
          then (if py_in kw_grade target then [msg_grade] else []) @
               (if py_in kw_department target then [msg_department] else [])
          else []) @
         (if important_notes \<noteq> []
          then (if py_in kw_capacity important_notes then [msg_capacity] else []) @
               (if py_in kw_documents important_notes then [msg_documents] else []) @
               (if py_in kw_interview important_notes then [msg_interview] else [])
          else []))"

subsection \<open>generate\_error\_suggestions and generate\_general\_suggestions\<close>

text \<open>
  \<^verbatim>\<open>s.lower()\<close>, as far as a test for a keyword can tell.  The ASCII capitals become
  small letters.  Beyond ASCII two letters have a lower-case form with an ASCII letter in
  it: U+0130, which becomes \<^verbatim>\<open>i\<close> and U+0307, and U+212A, which becomes \<^verbatim>\<open>k\<close>.  The
  other cased letters beyond ASCII are left as they are; their lower-case forms have no
  ASCII letter and no Hangul syllable, so the keywords of this program are found in the
  result exactly when they are found in the result of \<^verbatim>\<open>lower\<close>.
\<close>

definition lower_ascii :: "char \<Rightarrow> char" where
  "lower_ascii c =
     (let n = (of_char c :: nat) in if 65 \<le> n \<and> n \<le> 90 then char_of (n + 32) else c)"

definition lower_special :: "(string \<times> string) list" where
  "lower_special =
     [([CHR 0xC4, CHR 0xB0], ''i'' @ [CHR 0xCC, CHR 0x87]),
      ([CHR 0xE2, CHR 0x84, CHR 0xAA], ''k'')]"

function py_lower :: "string \<Rightarrow> string" where
  "py_lower s =
     (case s of
        [] \<Rightarrow> []
      | c # cs \<Rightarrow>
          (case find (\<lambda>(p, l). p \<noteq> [] \<and> prefix p s) lower_special of
             Some (p, l) \<Rightarrow> l @ py_lower (drop (length p) s)
           | None \<Rightarrow> lower_ascii c # py_lower cs))"
  by pat_completeness auto

termination
proof (relation "measure length")
  show "wf (measure length)" by simp
next
  fix s :: string and c :: char and cs p l :: string and x :: "string \<times> string"
  assume "s = c # cs" and "find (\<lambda>(p, l). p \<noteq> [] \<and> prefix p s) lower_special = Some x"
    and "(p, l) = x"
  then have "p \<noteq> []" by (auto simp: find_Some_iff)
  with \<open>s = c # cs\<close> show "(drop (length p) s, s) \<in> measure length" by (cases p) auto
next
  fix s :: string and c :: char and cs :: string
  assume "s = c # cs"
  then show "(cs, s) \<in> measure length" by simp
qed

declare py_lower.simps [simp del]

text \<open>
  Both functions wrap their body in \<^verbatim>\<open>try\<close>; on string arguments the body does not
  raise, so the handlers (\<open>[msg_tech_support]\<close> and \<open>[msg_contact_office]\<close>) are not
  reached.
\<close>

definition generate_error_suggestions :: "string \<Rightarrow> string \<Rightarrow> string list" where
  "generate_error_suggestions error_type error_message =
     (if py_in ''api'' (py_lower error_type) \<or> py_in ''key'' (py_lower error_message)
        then [msg_api_key, msg_api_env, msg_api_quota]
      else if py_in ''network'' (py_lower error_type) \<or> py_in ''connection'' (py_lower error_message)
        then [msg_net_connection, msg_retry_later, msg_net_firewall]
      else if py_in ''json'' (py_lower error_type) \<or> py_in ''parsing'' (py_lower error_message)
        then [msg_input_format, msg_retry, msg_tech_support]
      else if py_in ''validation'' (py_lower error_type)
        then [msg_required_fields, msg_length_format, msg_review_input]
      else [msg_retry_later, msg_contact_admin, msg_record_error])"

definition generate_general_suggestions :: "string \<Rightarrow> string list" where
  "generate_general_suggestions category0 =
     (let category = py_lower category0
      in if py_in kw_scholarship category
           then [msg_other_scholarships, msg_prepare_documents, msg_apply_early]
         else if py_in kw_job category \<or> py_in kw_hiring category
           then [msg_resume, msg_company, msg_certificates]
         else if py_in kw_education category \<or> py_in kw_lecture category
           then [msg_study_material, msg_timetable, msg_supplies]
         else if py_in kw_event category
           then [msg_registration, msg_venue, msg_dress_code]
         else [msg_check_notices, msg_ask_contact, msg_bookmark])"

subsection \<open>consolidate\_suggestions\<close>

text \<open>
  The function is written for a list of lists of strings but checks its elements at run
  time, so its argument is modelled as a list of Python values: strings, \<^verbatim>\<open>None\<close>
  and lists.  Strings and \<^verbatim>\<open>None\<close> are hashable, lists are not.
\<close>

datatype pyval = PStr string | PNone | PList "pyval list"

definition unhashable_list :: string where
  "unhashable_list = ''unhashable type: '' @ [CHR 0x27] @ ''list'' @ [CHR 0x27]"

fun hashable :: "pyval \<Rightarrow> bool" where
  "hashable (PList xs) = False"
| "hashable v = True"

text \<open>The first loop: the elements that are lists are appended one after the other.\<close>

fun flatten_lists :: "pyval list \<Rightarrow> pyval list" where
  "flatten_lists [] = []"
| "flatten_lists (PList xs # rest) = xs @ flatten_lists rest"
| "flatten_lists (v # rest) = flatten_lists rest"

text \<open>
  The second loop, with its two variables.  The test \<^verbatim>\<open>suggestion not in seen\<close>
  hashes the suggestion and raises \<^verbatim>\<open>TypeError\<close> on a list.
\<close>

fun unique_loop :: "pyval list \<Rightarrow> pyval list \<Rightarrow> pyval set \<Rightarrow> exn + pyval list" where
  "unique_loop [] unique_suggestions seen = Inr unique_suggestions"
| "unique_loop (suggestion # rest) unique_suggestions seen =
     (if \<not> hashable suggestion then Inl (TypeError unhashable_list)
      else if suggestion \<notin> seen
        then unique_loop rest (unique_suggestions @ [suggestion]) (insert suggestion seen)
      else unique_loop rest unique_suggestions seen)"

text \<open>The slice \<^verbatim>\<open>xs[:m]\<close>: a negative bound counts from the end.\<close>

definition slice_to :: "int \<Rightarrow> 'a list \<Rightarrow> 'a list" where
  "slice_to m xs = (if 0 \<le> m then take (nat m) xs else take (length xs - nat (- m)) xs)"

definition consolidate_body :: "pyval list \<Rightarrow> int \<Rightarrow> exn + pyval list" where
  "consolidate_body suggestion_lists max_suggestions =
     (case unique_loop (flatten_lists suggestion_lists) [] {} of
        Inl e \<Rightarrow> Inl e
      | Inr unique_suggestions \<Rightarrow> Inr (slice_to max_suggestions unique_suggestions))"

definition consolidate_suggestions :: "pyval list \<Rightarrow> int \<Rightarrow> pyval list" where
  "consolidate_suggestions suggestion_lists max_suggestions =
     (case consolidate_body suggestion_lists max_suggestions of
        Inr final_suggestions \<Rightarrow> final_suggestions
      | Inl e \<Rightarrow> [PStr msg_consolidate_fallback])"

text \<open>The default value of \<^verbatim>\<open>max_suggestions\<close>.\<close>

definition default_max_suggestions :: int where
  "default_max_suggestions = 10"

text \<open>A list of lists of strings as Python values.\<close>

definition str_lists :: "string list list \<Rightarrow> pyval list" where
  "str_lists ls = map (\<lambda>l. PList (map PStr l)) ls"


section \<open>tools/ocr\_tool.py\<close>

text \<open>
  What \<^verbatim>\<open>ocr.predict\<close> returns is a list; its first element either offers
  \<^verbatim>\<open>rec_texts\<close> (as an attribute or as a key) or has another shape.
\<close>

datatype ocr_result = RecTexts "string list" | Unexpected

text \<open>
  The services outside the program: the download of an image (with its conversion), the
  OCR engine, the summarizing model (whether its handle exists, and its answer for a
  title, the extracted texts and a content), \<^verbatim>\<open>json.loads\<close>, and the clock.  Each of
  them may raise.
\<close>

record 'img services =
  download_image :: "string \<Rightarrow> exn + 'img"
  ocr_predict :: "'img \<Rightarrow> exn + ocr_result list"
  model_ready :: bool
  generate_content :: "string \<Rightarrow> (string \<times> string) list \<Rightarrow> string \<Rightarrow> exn + string"
  json_loads :: "string \<Rightarrow> exn + summary_data"
  clock :: "nat \<Rightarrow> datetime"

text \<open>The body of the \<^verbatim>\<open>try\<close> block of \<^verbatim>\<open>perform_ocr_on_url\<close>.\<close>

definition perform_ocr_body :: "('img, 'a) services_scheme \<Rightarrow> string \<Rightarrow> exn + string" where
  "perform_ocr_body env img_url =
     (case download_image env img_url of
        Inl e \<Rightarrow> Inl e
      | Inr img_array \<Rightarrow>
          (case ocr_predict env img_array of
             Inl e \<Rightarrow> Inl e
           | Inr results \<Rightarrow>
               (case results of
                  [] \<Rightarrow> Inr []
                | first_result # rest \<Rightarrow>
                    (case first_result of
                       RecTexts text_lines \<Rightarrow>
                         Inr (if text_lines \<noteq> [] then py_join [CHR 0x0A] text_lines else [])
                     | Unexpected \<Rightarrow> Inr []))))"

text \<open>\<^verbatim>\<open>perform_ocr_on_url\<close>: every exception of the body is caught and gives the empty string.\<close>

definition perform_ocr_on_url :: "('img, 'a) services_scheme \<Rightarrow> string \<Rightarrow> string" where
  "perform_ocr_on_url env img_url =
     (case perform_ocr_body env img_url of Inl e \<Rightarrow> [] | Inr ocr_text \<Rightarrow> ocr_text)"


section \<open>ai/SummaryContent.py\<close>

text \<open>summarization failed\<close>

definition summary_failed_prefix :: string where
  "summary_failed_prefix =
     [CHR 0xEC, CHR 0x9A, CHR 0x94, CHR 0xEC, CHR 0x95, CHR 0xBD, CHR 0xEC, CHR 0x97, CHR 0x90] @
     '' '' @ [CHR 0xEC, CHR 0x8B, CHR 0xA4, CHR 0xED, CHR 0x8C, CHR 0xA8, CHR 0xED, CHR 0x96, CHR 0x88,
     CHR 0xEC, CHR 0x8A, CHR 0xB5, CHR 0xEB, CHR 0x8B, CHR 0x88, CHR 0xEB, CHR 0x8B, CHR 0xA4]"

text \<open>summarization failed, the model is not initialised\<close>

definition summary_failed_no_model :: string where
  "summary_failed_no_model =
     [CHR 0xEC, CHR 0x9A, CHR 0x94, CHR 0xEC, CHR 0x95, CHR 0xBD, CHR 0xEC, CHR 0x97, CHR 0x90] @
     '' '' @ [CHR 0xEC, CHR 0x8B, CHR 0xA4, CHR 0xED, CHR 0x8C, CHR 0xA8, CHR 0xED, CHR 0x96, CHR 0x88,
     CHR 0xEC, CHR 0x8A, CHR 0xB5, CHR 0xEB, CHR 0x8B, CHR 0x88, CHR 0xEB, CHR 0x8B, CHR 0xA4] @
     ''. '' @ [CHR 0xEB, CHR 0xAA, CHR 0xA8, CHR 0xEB, CHR 0x8D, CHR 0xB8, CHR 0xEC, CHR 0x9D,
     CHR 0xB4] @ '' '' @ [CHR 0xEC, CHR 0xB4, CHR 0x88, CHR 0xEA, CHR 0xB8, CHR 0xB0, CHR 0xED,
     CHR 0x99, CHR 0x94, CHR 0xEB, CHR 0x90, CHR 0x98, CHR 0xEC, CHR 0xA7, CHR 0x80] @ '' '' @
     [CHR 0xEC, CHR 0x95, CHR 0x8A, CHR 0xEC, CHR 0x95, CHR 0x98, CHR 0xEC, CHR 0x8A, CHR 0xB5,
     CHR 0xEB, CHR 0x8B, CHR 0x88, CHR 0xEB, CHR 0x8B, CHR 0xA4] @ ''.''"

text \<open>summarization failed:\<close>

definition summary_failed_colon :: string where
  "summary_failed_colon =
     [CHR 0xEC, CHR 0x9A, CHR 0x94, CHR 0xEC, CHR 0x95, CHR 0xBD, CHR 0xEC, CHR 0x97, CHR 0x90] @
     '' '' @ [CHR 0xEC, CHR 0x8B, CHR 0xA4, CHR 0xED, CHR 0x8C, CHR 0xA8, CHR 0xED, CHR 0x96, CHR 0x88,
     CHR 0xEC, CHR 0x8A, CHR 0xB5, CHR 0xEB, CHR 0x8B, CHR 0x88, CHR 0xEB, CHR 0x8B, CHR 0xA4] @ '': ''"

text \<open>unexpected error while summarizing:\<close>

definition summary_unexpected :: string where
  "summary_unexpected =
     [CHR 0xEC, CHR 0x9A, CHR 0x94, CHR 0xEC, CHR 0x95, CHR 0xBD] @ '' '' @ [CHR 0xEC, CHR 0xA4,
     CHR 0x91] @ '' '' @ [CHR 0xEC, CHR 0x98, CHR 0x88, CHR 0xEC, CHR 0x83, CHR 0x81, CHR 0xEC,
     CHR 0xB9, CHR 0x98] @ '' '' @ [CHR 0xEB, CHR 0xAA, CHR 0xBB, CHR 0xED, CHR 0x95, CHR 0x9C] @
     '' '' @ [CHR 0xEC, CHR 0x98, CHR 0xA4, CHR 0xEB, CHR 0xA5, CHR 0x98] @ '': ''"

text \<open>no valid JSON in the answer of the model\<close>

definition no_json_found :: string where
  "no_json_found =
     ''LLM '' @ [CHR 0xEC, CHR 0x9D, CHR 0x91, CHR 0xEB, CHR 0x8B, CHR 0xB5, CHR 0xEC, CHR 0x97,
     CHR 0x90, CHR 0xEC, CHR 0x84, CHR 0x9C] @ '' '' @ [CHR 0xEC, CHR 0x9C, CHR 0xA0, CHR 0xED,
     CHR 0x9A, CHR 0xA8, CHR 0xED, CHR 0x95, CHR 0x9C] @ '' JSON'' @ [CHR 0xEC, CHR 0x9D, CHR 0x84] @
     '' '' @ [CHR 0xEC, CHR 0xB0, CHR 0xBE, CHR 0xEC, CHR 0x9D, CHR 0x84] @ '' '' @ [CHR 0xEC,
     CHR 0x88, CHR 0x98] @ '' '' @ [CHR 0xEC, CHR 0x97, CHR 0x86, CHR 0xEC, CHR 0x8A, CHR 0xB5,
     CHR 0xEB, CHR 0x8B, CHR 0x88, CHR 0xEB, CHR 0x8B, CHR 0xA4] @ ''.''"

text \<open>parsing failed\<close>

definition parsing_failed :: string where
  "parsing_failed =
     [CHR 0xED, CHR 0x8C, CHR 0x8C, CHR 0xEC, CHR 0x8B, CHR 0xB1] @ '' '' @ [CHR 0xEC, CHR 0x8B,
     CHR 0xA4, CHR 0xED, CHR 0x8C, CHR 0xA8]"

text \<open>unexpected error in the Summary node:\<close>

definition summary_node_unexpected :: string where
  "summary_node_unexpected =
     ''Summary '' @ [CHR 0xEB, CHR 0x85, CHR 0xB8, CHR 0xEB, CHR 0x93, CHR 0x9C, CHR 0xEC, CHR 0x97,
     CHR 0x90, CHR 0xEC, CHR 0x84, CHR 0x9C] @ '' '' @ [CHR 0xEC, CHR 0x98, CHR 0x88, CHR 0xEC,
     CHR 0x83, CHR 0x81, CHR 0xEC, CHR 0xB9, CHR 0x98] @ '' '' @ [CHR 0xEB, CHR 0xAA, CHR 0xBB,
     CHR 0xED, CHR 0x95, CHR 0x9C] @ '' '' @ [CHR 0xEC, CHR 0x98, CHR 0xA4, CHR 0xEB, CHR 0xA5,
     CHR 0x98] @ '': ''"

definition none_not_subscriptable :: string where
  "none_not_subscriptable =
     [CHR 0x27] @ ''NoneType'' @ [CHR 0x27] @ '' object is not subscriptable''"

text \<open>
  \<^verbatim>\<open>re.search(r'\{.*\}', text, re.DOTALL)\<close>: from the first opening brace to the last
  closing brace after it.
\<close>

definition json_span :: "string \<Rightarrow> string option" where
  "json_span raw =
     (let t = dropWhile (\<lambda>c. c \<noteq> CHR 0x7B) raw;
          u = rev (dropWhile (\<lambda>c. c \<noteq> CHR 0x7D) (rev t))
      in if t = [] \<or> u = [] then None else Some u)"

definition summarize_failure :: "exn \<Rightarrow> string" where
  "summarize_failure e = summary_failed_colon @ summary_unexpected @ exn_str e"

text \<open>
  \<^verbatim>\<open>GeminiSummarizer.summarize\<close>.  The prompt is built from the title, the extracted
  texts and the content; the model's answer is taken as a function of these three.
\<close>

definition summarize ::
    "('img, 'a) services_scheme \<Rightarrow> string \<Rightarrow> (string \<times> string) list \<Rightarrow> string \<Rightarrow> string" where
  "summarize env title ocr_text content =
     (if \<not> model_ready env then summary_failed_no_model
      else (case generate_content env title ocr_text content of
              Inl e \<Rightarrow> summarize_failure e
            | Inr raw_response_text \<Rightarrow>
                (case json_span raw_response_text of
                   None \<Rightarrow> summarize_failure (ValueError no_json_found)
                 | Some json_string \<Rightarrow>
                     (case json_loads env json_string of
                        Inl e \<Rightarrow> summarize_failure e
                      | Inr parsed \<Rightarrow> py_strip json_string))))"


section \<open>ai/langgraph\_pipeline.py\<close>

text \<open>An image reference, and the state that the graph passes from node to node.\<close>

record image_ref =
  img_url :: string
  img_filename :: string
  img_ocr_text :: "string option"

text \<open>The title is \<open>None\<close> when the value is \<^verbatim>\<open>None\<close>.\<close>

record notify_state =
  ns_title :: "string option"
  ns_content :: string
  ns_image :: "image_ref list"
  ns_category :: string
  ns_ocr_text :: "(string \<times> string) list"

text \<open>
  The value under \<^verbatim>\<open>json_summary\<close>.  The keys \<^verbatim>\<open>error\<close>, \<^verbatim>\<open>data\<close> and
  \<^verbatim>\<open>parsed_data\<close> are \<open>None\<close> where the dictionary does not have them.
\<close>

record json_summary =
  js_status :: string
  js_error :: "string option"
  js_data :: "string option"
  js_parsed_data :: "summary_data option"
  js_suggestions :: "pyval list"

text \<open>Truth value of the parsed dictionary: it has at least one key.\<close>

definition dict_truthy :: "summary_data \<Rightarrow> bool" where
  "dict_truthy d =
     (sd_title d \<noteq> None \<or> sd_summary d \<noteq> None \<or> sd_schedule d \<noteq> None \<or>
      sd_target d \<noteq> None \<or> sd_application_method d \<noteq> None \<or>
      sd_important_notes d \<noteq> None \<or> sd_other_keys d)"

definition error_summary :: "string \<Rightarrow> string option \<Rightarrow> string list \<Rightarrow> json_summary" where
  "error_summary msg data suggestions =
     \<lparr>js_status = ''error'', js_error = Some msg, js_data = data, js_parsed_data = None,
      js_suggestions = map PStr suggestions\<rparr>"

text \<open>The branch of \<^verbatim>\<open>_Summary\<close> for a summary that parsed to a dictionary with keys.\<close>

definition success_summary ::
    "('img, 'a) services_scheme \<Rightarrow> string \<Rightarrow> string \<Rightarrow> summary_data \<Rightarrow> json_summary" where
  "success_summary env category summary_result parsed_data =
     (let engine_suggestions = generate_parsing_suggestions (clock env) parsed_data;
          general_suggestions = generate_general_suggestions category;
          suggestion_lists =
            (if engine_suggestions \<noteq> [] then [engine_suggestions] else []) @
            (if general_suggestions \<noteq> [] then [general_suggestions] else []);
          final_suggestions =
            consolidate_suggestions (str_lists suggestion_lists) default_max_suggestions
      in \<lparr>js_status = ''success'', js_error = None, js_data = Some summary_result,
           js_parsed_data = Some parsed_data, js_suggestions = final_suggestions\<rparr>)"

text \<open>
  The \<^verbatim>\<open>try\<close> block of \<^verbatim>\<open>_Summary\<close>.  Its first statement slices the title and
  raises on \<^verbatim>\<open>None\<close>; nothing after it raises.  An exception of \<^verbatim>\<open>json.loads\<close> is
  a \<^verbatim>\<open>JSONDecodeError\<close>, which the inner handler turns into the parsing failure.
\<close>

definition Summary_body :: "('img, 'a) services_scheme \<Rightarrow> notify_state \<Rightarrow> exn + json_summary" where
  "Summary_body env state =
     (case ns_title state of
        None \<Rightarrow> Inl (TypeError none_not_subscriptable)
      | Some title \<Rightarrow>
          (let summary_result = summarize env title (ns_ocr_text state) (ns_content state)
           in if \<not> prefix summary_failed_prefix summary_result
              then (case json_loads env summary_result of
                      Inr parsed_data \<Rightarrow>
                        if dict_truthy parsed_data
                        then Inr (success_summary env (ns_category state) summary_result parsed_data)
                        else Inr (error_summary parsing_failed (Some summary_result)
                                    (generate_error_suggestions ''parsing'' parsing_failed))
                    | Inl e \<Rightarrow>
                        Inr (error_summary parsing_failed (Some summary_result)
                               (generate_error_suggestions ''parsing'' parsing_failed)))
              else Inr (error_summary summary_result None
                          (generate_error_suggestions ''summary'' summary_result))))"

text \<open>The node \<^verbatim>\<open>_Summary\<close>, with its handler.\<close>

definition Summary :: "('img, 'a) services_scheme \<Rightarrow> notify_state \<Rightarrow> json_summary" where
  "Summary env state =
     (case Summary_body env state of
        Inr result \<Rightarrow> result
      | Inl e \<Rightarrow>
          error_summary (summary_node_unexpected @ exn_str e) None
            (generate_error_suggestions ''unexpected'' (exn_str e)))"

text \<open>
  The compiled graph has the nodes \<^verbatim>\<open>OCR_Node\<close> and \<^verbatim>\<open>Summary_Node\<close>.  A run is
  recorded: the nodes in the order they are entered, and each call of the extraction
  service with its address.
\<close>

datatype node = OCR_Node | Summary_Node

datatype event = Enter node | Extract string

text \<open>The loop of \<^verbatim>\<open>_OCR\<close>: every image gets its \<^verbatim>\<open>ocr_text\<close>.\<close>

fun ocr_loop :: "('img, 'a) services_scheme \<Rightarrow> image_ref list \<Rightarrow> image_ref list \<times> event list" where
  "ocr_loop env [] = ([], [])"
| "ocr_loop env (i # rest) =
     (let text = perform_ocr_on_url env (img_url i);
          (images, events) = ocr_loop env rest
      in (i\<lparr>img_ocr_text := Some text\<rparr> # images, Extract (img_url i) # events))"

text \<open>
  The node \<^verbatim>\<open>_OCR\<close>: after the loop the state gets the list of file names with
  their texts.
\<close>

definition OCR :: "('img, 'a) services_scheme \<Rightarrow> notify_state \<Rightarrow> notify_state \<times> event list" where
  "OCR env state =
     (let (images, events) = ocr_loop env (ns_image state)
      in (state\<lparr>ns_image := images,
                ns_ocr_text := map (\<lambda>i. (img_filename i, the (img_ocr_text i))) images\<rparr>,
          events))"

definition OCR_branching_condition :: "notify_state \<Rightarrow> bool" where
  "OCR_branching_condition state = (ns_image state \<noteq> [])"

text \<open>
  The graph: from the start to \<^verbatim>\<open>OCR_Node\<close> and then \<^verbatim>\<open>Summary_Node\<close> when the
  condition holds, to \<^verbatim>\<open>Summary_Node\<close> directly otherwise.
\<close>

record graph_run =
  gr_events :: "event list"
  gr_state :: notify_state
  gr_json_summary :: json_summary

definition invoke :: "('img, 'a) services_scheme \<Rightarrow> notify_state \<Rightarrow> graph_run" where
  "invoke env state =
     (if OCR_branching_condition state
      then (let (state1, events) = OCR env state
            in \<lparr>gr_events = Enter OCR_Node # events @ [Enter Summary_Node],
                 gr_state = state1,
                 gr_json_summary = Summary env state1\<rparr>)
      else \<lparr>gr_events = [Enter Summary_Node],
             gr_state = state,
             gr_json_summary = Summary env state\<rparr>)"

text \<open>
  The argument of \<^verbatim>\<open>run\<close> is a dictionary; a key that it does not have is \<open>None\<close>
  here, and the title may be present with the value \<^verbatim>\<open>None\<close>.
\<close>

record json_input =
  ji_title :: "string option option"
  ji_content :: "string option"
  ji_image :: "image_ref list option"
  ji_category :: "string option"

text \<open>What \<^verbatim>\<open>run\<close> returns; the empty dictionary under \<^verbatim>\<open>json_summary\<close> is \<open>None\<close>.\<close>

record run_result =
  rr_status :: string
  rr_json_summary :: "json_summary option"

text \<open>
  The \<^verbatim>\<open>try\<close> block of \<^verbatim>\<open>run\<close>: the four subscripts raise \<^verbatim>\<open>KeyError\<close>.  The
  test before it, whether the compiled graph is \<^verbatim>\<open>None\<close>, never holds for a pipeline
  whose constructor returned.
\<close>

definition run_body :: "('img, 'a) services_scheme \<Rightarrow> json_input \<Rightarrow> exn + run_result" where
  "run_body env json_input =
     (case ji_title json_input of
        None \<Rightarrow> Inl (KeyError ''title'')
      | Some title \<Rightarrow>
          (case ji_content json_input of
             None \<Rightarrow> Inl (KeyError ''content'')
           | Some content \<Rightarrow>
               (case ji_image json_input of
                  None \<Rightarrow> Inl (KeyError ''image'')
                | Some images \<Rightarrow>
                    (case ji_category json_input of
                       None \<Rightarrow> Inl (KeyError ''category'')
                     | Some category \<Rightarrow>
                         (let result = gr_json_summary (invoke env
                                \<lparr>ns_title = title, ns_content = content, ns_image = images,
                                 ns_category = category, ns_ocr_text = []\<rparr>)
                          in Inr \<lparr>rr_status = ''success'', rr_json_summary = Some result\<rparr>)))))"

definition run :: "('img, 'a) services_scheme \<Rightarrow> json_input \<Rightarrow> run_result" where
  "run env json_input =
     (case run_body env json_input of
        Inr result \<Rightarrow> result
      | Inl e \<Rightarrow> \<lparr>rr_status = ''error'', rr_json_summary = None\<rparr>)"


section \<open>main.py: the content crawler\<close>

text \<open>
  A notification as the crawler reads it, and the content record that a fetch returns.
  The crawler adds the notification id and the category to the record.  Both are
  dictionaries.  The keys that the crawler subscripts without a guard are fields here.
  A title is \<open>None\<close> when the dictionary has no key \<^verbatim>\<open>title\<close>, \<open>Some None\<close> when the key
  has the value \<^verbatim>\<open>None\<close>, and \<open>Some (Some s)\<close> when it has the string \<open>s\<close>.
\<close>

record notification =
  nt_link :: string
  nt_title :: "string option option"
  nt_notification_id :: int
  nt_category_title :: string
  nt_content_selector :: "string option"

record content_data =
  cd_title :: "string option option"
  cd_content :: string
  cd_image :: "image_ref list"
  cd_fetch_success :: bool
  cd_error :: "string option"
  cd_notification_id :: "int option"
  cd_category :: "string option"





definition tag_content :: "notification \<Rightarrow> content_data \<Rightarrow> content_data" where
  "tag_content notification content_data =
     content_data\<lparr>cd_notification_id := Some (nt_notification_id notification),
                  cd_category := Some (nt_category_title notification)\<rparr>"











text \<open>The number of workers of the pool.\<close>

definition max_workers :: "(string \<times> notification list) list \<Rightarrow> notification list \<Rightarrow> nat" where
  "max_workers domain_groups fast_notifications =
     (let fast_workers = (if fast_notifications \<noteq> [] then min 20 (length fast_notifications)
                          else 0)
      in max 1 (length domain_groups + fast_workers))"













section \<open>tools/email\_tool.py\<close>

text \<open>
  The subscribers come from \<^verbatim>\<open>EmailDB().get_all_subscribers_email_initial()\<close>: a
  dictionary from notification ids to lists of addresses, or an exception when the
  database cannot be opened.  Rendering and transport are outside the program:
  \<open>deliver\<close> says whether they go through for the given recipients and data.  The
  messages handed to the mail server are collected in the outbox.
\<close>

type_synonym subscribers = "int \<Rightarrow> string list option"

type_synonym outbox = "(string list \<times> content_data) list"

text \<open>
  \<^verbatim>\<open>_send_email\<close>: the whole body is in a \<^verbatim>\<open>try\<close> block whose handler logs, so it
  returns in every case; one message goes to all recipients when nothing fails.  The
  text of the message is not modelled: a message is the recipients with the data.
\<close>

definition send_email_message ::
    "(string list \<Rightarrow> content_data \<Rightarrow> bool) \<Rightarrow> string list \<Rightarrow> content_data \<Rightarrow> outbox \<Rightarrow> outbox" where
  "send_email_message deliver receiver_emails data sent =
     (if deliver receiver_emails data then sent @ [(receiver_emails, data)] else sent)"

text \<open>\<^verbatim>\<open>EmailSender.send\<close>\<close>

definition send ::
    "exn + subscribers \<Rightarrow> (string list \<Rightarrow> content_data \<Rightarrow> bool) \<Rightarrow> content_data \<Rightarrow> outbox \<Rightarrow>
     (exn + string) \<times> outbox" where
  "send database deliver data sent =
     (case database of
        Inl e \<Rightarrow> (Inl e, sent)
      | Inr receiver \<Rightarrow>
          (case cd_notification_id data of
             None \<Rightarrow> (Inl (KeyError ''notification_id''), sent)
           | Some notification_id \<Rightarrow>
               (case receiver notification_id of
                  None \<Rightarrow>
                    (Inr (''No subscribers for notification_id '' @ show_int notification_id), sent)
                | Some receiver_emails \<Rightarrow>
                    if receiver_emails = []
                    then (Inr (''Empty subscriber list for notification_id '' @
                               show_int notification_id), sent)
                    else (Inr (''Email sent to '' @ show_nat (length receiver_emails) @
                               '' subscribers for notification_id '' @ show_int notification_id),
                          send_email_message deliver receiver_emails data sent))))"

text \<open>\<^verbatim>\<open>send_email\<close> of main.py: the caller of \<open>send\<close>, which catches its exceptions.\<close>

definition send_email ::
    "exn + subscribers \<Rightarrow> (string list \<Rightarrow> content_data \<Rightarrow> bool) \<Rightarrow> content_data \<Rightarrow> outbox \<Rightarrow>
     string \<times> outbox" where
  "send_email database deliver content_data sent =
     (case send database deliver content_data sent of
        (Inr result, sent1) \<Rightarrow> (result, sent1)
      | (Inl e, sent1) \<Rightarrow> (''Email sending failed: '' @ exn_str e, sent1))"


section \<open>build\_gcal\_urls on a store of objects\<close>

text \<open>
  To see what \<^verbatim>\<open>build_gcal_urls\<close> changes, dictionaries and lists are objects in a
  store and are passed by reference.  A value is \<^verbatim>\<open>None\<close>, a string or a reference;
  an address is an index of the store, and a new object is put at its end.
\<close>

datatype hval = HNone | HStr string | HRef nat

datatype hobj = HDict "(string \<times> hval) list" | HList "hval list"

type_synonym store = "hobj list"

definition alloc :: "hobj \<Rightarrow> store \<Rightarrow> nat \<times> store" where
  "alloc obj h = (length h, h @ [obj])"

text \<open>The object at an address; \<open>None\<close> for an address beyond the store.\<close>

definition deref :: "store \<Rightarrow> nat \<Rightarrow> hobj option" where
  "deref h a = (if a < length h then Some (h ! a) else None)"

definition dangling :: exn where
  "dangling = OtherError ''no object at this address''"

text \<open>Truth value of a value: \<^verbatim>\<open>None\<close>, the empty string and empty containers are false.\<close>

definition h_truthy :: "store \<Rightarrow> hval \<Rightarrow> bool" where
  "h_truthy h v =
     (case v of
        HNone \<Rightarrow> False
      | HStr s \<Rightarrow> s \<noteq> []
      | HRef a \<Rightarrow> (case deref h a of
                     None \<Rightarrow> False
                   | Some (HDict d) \<Rightarrow> d \<noteq> []
                   | Some (HList l) \<Rightarrow> l \<noteq> []))"

definition no_get :: exn where
  "no_get = AttributeError ''object has no attribute get''"

definition no_strip :: exn where
  "no_strip = AttributeError ''object has no attribute strip''"

text \<open>\<^verbatim>\<open>v.get(k)\<close>: only a dictionary has the method; \<open>None\<close> for a key that is absent.\<close>

definition h_get :: "store \<Rightarrow> hval \<Rightarrow> string \<Rightarrow> exn + hval option" where
  "h_get h v k =
     (case v of
        HRef a \<Rightarrow> (case deref h a of
                     None \<Rightarrow> Inl dangling
                   | Some (HDict d) \<Rightarrow> Inr (map_of d k)
                   | Some (HList l) \<Rightarrow> Inl no_get)
      | _ \<Rightarrow> Inl no_get)"

text \<open>\<^verbatim>\<open>v.strip()\<close>: only a string has the method.\<close>

definition h_strip :: "hval \<Rightarrow> exn + string" where
  "h_strip v = (case v of HStr s \<Rightarrow> Inr (py_strip s) | _ \<Rightarrow> Inl no_strip)"

text \<open>\<^verbatim>\<open>v.get(k, "").strip()\<close>\<close>

definition h_get_strip :: "store \<Rightarrow> hval \<Rightarrow> string \<Rightarrow> exn + string" where
  "h_get_strip h v k =
     (case h_get h v k of
        Inl e \<Rightarrow> Inl e
      | Inr None \<Rightarrow> Inr (py_strip [])
      | Inr (Some x) \<Rightarrow> h_strip x)"

text \<open>\<^verbatim>\<open>(item.get(k) or dflt).strip()\<close>\<close>

definition h_get_or_strip :: "store \<Rightarrow> hval \<Rightarrow> string \<Rightarrow> string \<Rightarrow> exn + string" where
  "h_get_or_strip h item k dflt =
     (case h_get h item k of
        Inl e \<Rightarrow> Inl e
      | Inr None \<Rightarrow> Inr (py_strip dflt)
      | Inr (Some x) \<Rightarrow> if h_truthy h x then h_strip x else Inr (py_strip dflt))"

text \<open>
  The values that \<^verbatim>\<open>for schedule_item in schedule\<close> visits: the elements of a list,
  the keys of a dictionary, the characters of a string.
\<close>

definition h_iter :: "store \<Rightarrow> hval \<Rightarrow> exn + hval list" where
  "h_iter h v =
     (case v of
        HNone \<Rightarrow> Inl (TypeError ''object is not iterable'')
      | HStr s \<Rightarrow> Inr (map (\<lambda>c. HStr [c]) s)
      | HRef a \<Rightarrow> (case deref h a of
                     None \<Rightarrow> Inl dangling
                   | Some (HDict d) \<Rightarrow> Inr (map (\<lambda>(k, x). HStr k) d)
                   | Some (HList l) \<Rightarrow> Inr l))"

text \<open>\<^verbatim>\<open>result.append(v)\<close> for the list at the address \<open>result\<close>.\<close>

definition h_append :: "nat \<Rightarrow> hval \<Rightarrow> store \<Rightarrow> store" where
  "h_append result v h =
     (case deref h result of
        Some (HList l) \<Rightarrow> h[result := HList (l @ [v])]
      | _ \<Rightarrow> h)"

text \<open>
  \<^verbatim>\<open>result_item = schedule_item.copy(); result_item["url"] = gcal_url;
  result.append(result_item)\<close>: the copy is a new dictionary, the link is stored in the
  copy, and a reference to the copy is appended to the result.
\<close>

definition h_add_result :: "nat \<Rightarrow> hval \<Rightarrow> string \<Rightarrow> store \<Rightarrow> exn option \<times> store" where
  "h_add_result result schedule_item gcal_url h =
     (case schedule_item of
        HRef a \<Rightarrow>
          (case deref h a of
             Some (HDict d) \<Rightarrow>
               (case alloc (HDict d) h of
                  (result_item, h1) \<Rightarrow>
                    (None,
                     h_append result (HRef result_item)
                       (h1[result_item := HDict (AList.update ''url'' (HStr gcal_url) d)])))
           | _ \<Rightarrow> (Some (AttributeError ''object has no attribute copy''), h))
      | _ \<Rightarrow> (Some (AttributeError ''object has no attribute copy''), h))"

text \<open>The loop over the schedule; the first component is the exception that ended it, if any.\<close>

fun h_gcal_loop :: "string \<Rightarrow> string \<Rightarrow> nat \<Rightarrow> hval list \<Rightarrow> store \<Rightarrow> exn option \<times> store" where
  "h_gcal_loop title summary result [] h = (None, h)"
| "h_gcal_loop title summary result (schedule_item # rest) h =
     (case h_get_strip h schedule_item ''description'' of
        Inl e \<Rightarrow> (Some e, h)
      | Inr description \<Rightarrow>
          (case h_get_strip h schedule_item ''date'' of
             Inl e \<Rightarrow> (Some e, h)
           | Inr date_str \<Rightarrow>
               (case h_get_strip h schedule_item ''location'' of
                  Inl e \<Rightarrow> (Some e, h)
                | Inr location \<Rightarrow>
                    (case gcal_link title summary description date_str location of
                       None \<Rightarrow> h_gcal_loop title summary result rest h
                     | Some gcal_url \<Rightarrow>
                         (case h_add_result result schedule_item gcal_url h of
                            (Some e, h1) \<Rightarrow> (Some e, h1)
                          | (None, h1) \<Rightarrow> h_gcal_loop title summary result rest h1)))))"

text \<open>
  \<^verbatim>\<open>build_gcal_urls(item)\<close>: the value returned, or the exception raised, and the store
  after the call.
\<close>

definition h_build_gcal_urls :: "store \<Rightarrow> hval \<Rightarrow> (exn + hval) \<times> store" where
  "h_build_gcal_urls h item =
     (case h_get h item ''schedule'' of
        Inl e \<Rightarrow> (Inl e, h)
      | Inr found \<Rightarrow>
          if (case found of None \<Rightarrow> True | Some schedule \<Rightarrow> \<not> h_truthy h schedule)
          then (case alloc (HList []) h of (fresh, h1) \<Rightarrow> (Inr (HRef fresh), h1))
          else (case alloc (HList []) h of
                  (result, h1) \<Rightarrow>
                    (case h_get_or_strip h1 item ''title'' no_title of
                       Inl e \<Rightarrow> (Inl e, h1)
                     | Inr title \<Rightarrow>
                         (case h_get_or_strip h1 item ''summary'' [] of
                            Inl e \<Rightarrow> (Inl e, h1)
                          | Inr summary \<Rightarrow>
                              (case h_iter h1 (the found) of
                                 Inl e \<Rightarrow> (Inl e, h1)
                               | Inr schedule_items \<Rightarrow>
                                   (case h_gcal_loop title summary result schedule_items h1 of
                                      (Some e, h2) \<Rightarrow> (Inl e, h2)
                                    | (None, h2) \<Rightarrow> (Inr (HRef result), h2)))))))"

text \<open>
  A summary in the store: its schedule entries first, then the list of the schedule,
  then the dictionary of the item, which has the keys that the summary has.
\<close>

definition store_entry :: "pydict \<Rightarrow> hobj" where
  "store_entry d = HDict (map (\<lambda>(k, v). (k, HStr v)) d)"

definition store_summary :: "'a summary_data_scheme \<Rightarrow> store \<times> hval" where
  "store_summary item =
     (let schedule = (case sd_schedule item of None \<Rightarrow> [] | Some s \<Rightarrow> s);
          n = length schedule;
          field = (\<lambda>k x. case x of None \<Rightarrow> [] | Some s \<Rightarrow> [(k, HStr s)])
      in (map store_entry schedule @
          [HList (map HRef [0 ..< n]),
           HDict (field ''title'' (sd_title item) @ field ''summary'' (sd_summary item) @
                  (case sd_schedule item of None \<Rightarrow> [] | Some s \<Rightarrow> [(''schedule'', HRef n)]) @
                  field ''target'' (sd_target item) @
                  field ''application_method'' (sd_application_method item) @
                  field ''important_notes'' (sd_important_notes item))],
          HRef (Suc n)))"

text \<open>The list of dictionaries behind a value, read from the store.\<close>

definition read_dicts :: "store \<Rightarrow> hval \<Rightarrow> hobj list" where
  "read_dicts h v =
     (case v of
        HRef a \<Rightarrow> (case deref h a of
                     Some (HList l) \<Rightarrow>
                       List.map_filter (\<lambda>x. case x of HRef b \<Rightarrow> deref h b | _ \<Rightarrow> None) l
                   | _ \<Rightarrow> [])
      | _ \<Rightarrow> [])"

text \<open>
  The object at the address \<open>result\<close> is a list of references to objects that did not
  exist when the store had \<open>n0\<close> objects.
\<close>

definition fresh_list :: "nat \<Rightarrow> store \<Rightarrow> nat \<Rightarrow> bool" where
  "fresh_list n0 h result =
     (\<exists>l. deref h result = Some (HList l) \<and> (\<forall>v \<in> set l. \<exists>b. v = HRef b \<and> n0 \<le> b))"


section \<open>Sample data\<close>

subsection \<open>A sample summary\<close>

text \<open>A summary with one dated schedule entry and one entry without a date.\<close>

definition item0 :: summary_data where
  "item0 = \<lparr>sd_title = Some ''A'', sd_summary = None,
             sd_schedule = Some [[(''date'', ''2025.09.04'')], [(''description'', ''no date'')]],
             sd_target = None, sd_application_method = None, sd_important_notes = None,
             sd_other_keys = False\<rparr>"

text \<open>The same summary with the date of the last day of September.\<close>

definition item_month_end :: summary_data where
  "item_month_end =
     item0\<lparr>sd_schedule := Some [[(''date'', ''2025.09.30'')], [(''description'', ''no date'')]]\<rparr>"

text \<open>Two readings of the clock on 4 September 2025: at 10:00 and at midnight.\<close>

definition now_morning :: datetime where
  "now_morning = \<lparr>dt_year = 2025, dt_month = 9, dt_day = 4, dt_hour = 10, dt_minute = 0,
                   dt_second = 0, dt_microsecond = 0\<rparr>"

definition now_midnight :: datetime where
  "now_midnight = \<lparr>dt_year = 2025, dt_month = 9, dt_day = 4, dt_hour = 0, dt_minute = 0,
                    dt_second = 0, dt_microsecond = 0\<rparr>"

text \<open>
  Services for the examples: every image downloads, the engine reads two lines on it,
  the model answers with an empty JSON object between two words, and the parser reads
  that object as a dictionary with a title.
\<close>

definition sample_services :: "unit services" where
  "sample_services =
     \<lparr>download_image = (\<lambda>u. Inr ()),
      ocr_predict = (\<lambda>i. Inr [RecTexts [''line 1'', ''line 2'']]),
      model_ready = True,
      generate_content = (\<lambda>t ocr c. Inr (''ok '' @ [CHR 0x7B, CHR 0x7D] @ '' done'')),
      json_loads = (\<lambda>s. Inr \<lparr>sd_title = Some ''T'', sd_summary = None, sd_schedule = None,
                               sd_target = None, sd_application_method = None,
                               sd_important_notes = None, sd_other_keys = False\<rparr>),
      clock = (\<lambda>n. now_morning)\<rparr>"

text \<open>The same services with an engine that raises.\<close>

definition failing_ocr_services :: "unit services" where
  "failing_ocr_services = sample_services\<lparr>ocr_predict := (\<lambda>i. Inl (OtherError ''no engine''))\<rparr>"

text \<open>An input of \<^verbatim>\<open>run\<close> with one image, and one without the key \<^verbatim>\<open>image\<close>.\<close>

definition input_with_image :: json_input where
  "input_with_image =
     \<lparr>ji_title = Some (Some ''Notice''), ji_content = Some ''text'',
      ji_image = Some [\<lparr>img_url = ''http://x/a.jpg'', img_filename = ''a.jpg'',
                        img_ocr_text = None\<rparr>],
      ji_category = Some ''news''\<rparr>"

text \<open>Two states of the graph: with that image, and without images.\<close>

definition state_with_image :: notify_state where
  "state_with_image =
     \<lparr>ns_title = Some ''Notice'', ns_content = ''text'',
      ns_image = [\<lparr>img_url = ''http://x/a.jpg'', img_filename = ''a.jpg'',
                   img_ocr_text = None\<rparr>],
      ns_category = ''news'', ns_ocr_text = []\<rparr>"

definition state_without_image :: notify_state where
  "state_without_image = state_with_image\<lparr>ns_image := []\<rparr>"

definition input_without_image_key :: json_input where
  "input_without_image_key =
     \<lparr>ji_title = Some (Some ''Notice''), ji_content = Some ''text'',
      ji_image = None, ji_category = Some ''news''\<rparr>"

text \<open>Services whose download fails, whose model is missing, and whose parser rejects every text.\<close>

definition no_download_services :: "unit services" where
  "no_download_services =
     failing_ocr_services\<lparr>download_image := (\<lambda>u. Inl (OtherError ''404''))\<rparr>"

definition no_model_services :: "unit services" where
  "no_model_services = sample_services\<lparr>model_ready := False\<rparr>"

definition bad_json_services :: "unit services" where
  "bad_json_services = sample_services\<lparr>json_loads := (\<lambda>s. Inl (ValueError ''Expecting value''))\<rparr>"

text \<open>
  Fetchers for the examples.  The world is the number of fetches made so far.  The first
  fails twice and then succeeds; the second always fails; the third succeeds for the
  link \<^verbatim>\<open>http://a/1\<close> and raises for every other link; the fourth always succeeds
  with a record whose title is \<^verbatim>\<open>None\<close>; the fifth fails twice and then raises.
\<close>

definition sample_content :: "bool \<Rightarrow> string option \<Rightarrow> content_data" where
  "sample_content ok err =
     \<lparr>cd_title = Some (Some ''Notice''), cd_content = ''text'', cd_image = [], cd_fetch_success = ok,
      cd_error = err, cd_notification_id = None, cd_category = None\<rparr>"






definition sample_notification :: "string \<Rightarrow> notification" where
  "sample_notification link =
     \<lparr>nt_link = link, nt_title = Some (Some ''Notice''), nt_notification_id = 7,
      nt_category_title = ''news'', nt_content_selector = None\<rparr>"



text \<open>
  Subscribers for the examples: two addresses for the id 7, an empty list for the id 8,
  nothing else.
\<close>

definition sample_subscribers :: subscribers where
  "sample_subscribers = [7 \<mapsto> [''a@x.org'', ''b@x.org''], 8 \<mapsto> []]"


section \<open>Properties of the string functions\<close>

lemma strip_front_Nil: "strip_front table [] = []"
proof -
  have "find (\<lambda>p. p \<noteq> [] \<and> prefix p []) table = None"
    by (simp add: find_None_iff)
  then show ?thesis by (subst strip_front.simps) simp
qed

lemma py_strip_Nil: "py_strip [] = []"
  by (simp add: py_strip_def strip_both_def strip_front_Nil)






section \<open>Properties of the calendar links\<close>

lemma quote_char_nonempty: "quote_char safe c \<noteq> []"
  by (simp add: quote_char_def)

lemma py_quote_empty_iff: "py_quote safe v = [] \<longleftrightarrow> v = []"
  by (cases v) (simp_all add: py_quote_def quote_char_nonempty)

lemma enc_empty_iff: "enc b v = [] \<longleftrightarrow> v = []"
  by (simp add: enc_def py_quote_empty_iff)

lemma digit_char_digit: "n < 10 \<Longrightarrow> digit_char n \<in> set ''0123456789''"
proof -
  assume "n < 10"
  then have "n \<in> {0,1,2,3,4,5,6,7,8,9}" by auto
  then show ?thesis by (auto simp: digit_char_def)
qed

lemma show_nat_digits: "set (show_nat n) \<subseteq> set ''0123456789''"
proof (induction n rule: show_nat.induct)
  case (1 n)
  show ?case
  proof (cases "n < 10")
    case True
    then show ?thesis using digit_char_digit [of n] by (subst show_nat.simps) simp
  next
    case False
    have "n mod 10 < 10" by simp
    then have "digit_char (n mod 10) \<in> set ''0123456789''" by (rule digit_char_digit)
    with False 1 show ?thesis by (subst show_nat.simps) simp
  qed
qed

lemma show_nat_nonempty: "show_nat n \<noteq> []"
  by (subst show_nat.simps) simp

lemma zfill_chars: "set s \<subseteq> A \<Longrightarrow> CHR ''0'' \<in> A \<Longrightarrow> set (zfill w s) \<subseteq> A"
  by (auto simp: zfill_def)

lemma fmt_0d_chars: "set (fmt_0d w i) \<subseteq> set ''-/0123456789''"
proof -
  have d: "set ''0123456789'' \<subseteq> set ''-/0123456789''" by simp
  have a: "\<And>k w. set (zfill w (show_nat k)) \<subseteq> set ''-/0123456789''"
    by (rule zfill_chars) (use show_nat_digits d in blast, simp)
  show ?thesis
    unfolding fmt_0d_def using a by (cases "i < 0") (simp_all del: set_simps, auto)
qed

lemma gcal_dates_chars:
  assumes "gcal_dates d = Some x"
  shows "set x \<subseteq> set ''-/0123456789''"
proof -
  from assms obtain y m dd where
    x: "x = fmt_0d 4 y @ fmt_0d 2 m @ fmt_0d 2 dd @ ''/'' @ fmt_0d 4 y @ fmt_0d 2 m @ fmt_0d 2 (dd + 1)"
    by (auto simp: gcal_dates_def split: list.splits option.splits)
  show ?thesis unfolding x set_append
    using fmt_0d_chars [of 4 y] fmt_0d_chars [of 2 m] fmt_0d_chars [of 2 dd] fmt_0d_chars [of 2 "dd + 1"]
    by (intro Un_least) simp_all
qed

lemma gcal_dates_nonempty: "gcal_dates d = Some x \<Longrightarrow> x \<noteq> []"
  by (auto simp: gcal_dates_def split: list.splits option.splits)

lemma quote_char_keep: "c \<in> set ''-/0123456789'' \<Longrightarrow> quote_char ''/T:-_.'' c = [c]"
  by (auto simp: quote_char_def always_safe_def)

lemma enc_keep_slash_id: "set x \<subseteq> set ''-/0123456789'' \<Longrightarrow> enc True x = x"
proof (induction x)
  case Nil
  then show ?case by (simp add: enc_def py_quote_def)
next
  case (Cons c x)
  then have "c \<in> set ''-/0123456789''" and "set x \<subseteq> set ''-/0123456789''" by simp_all
  with Cons.IH quote_char_keep [of c] show ?case by (simp add: enc_def py_quote_def)
qed

lemma enc_ctz: "enc False ''Asia/Seoul'' = ''Asia%2FSeoul''"
  by (simp add: enc_def py_quote_def quote_char_def always_safe_def hex_char_def)

lemma gcal_url_shape:
  assumes "gcal_dates d = Some dates"
  shows "gcal_base @ gcal_qs (gcal_query t dates details) =
         gcal_base @ ''action=TEMPLATE'' @
         (if t = [] then [] else ''&text='' @ enc False t) @
         ''&dates='' @ dates @
         (if details = [] then [] else ''&details='' @ enc False details) @
         ''&ctz=Asia%2FSeoul''"
proof -
  have e: "enc True dates = dates"
    using assms gcal_dates_chars enc_keep_slash_id by blast
  have n: "dates \<noteq> []" using assms by (rule gcal_dates_nonempty)
  show ?thesis
    by (simp add: gcal_qs_def gcal_query_def e n enc_ctz enc_empty_iff)
qed

lemma gcal_loop_mem:
  "r \<in> set (gcal_loop t s sch) \<Longrightarrow> \<exists>e \<in> set sch. gcal_entry t s e = Some r"
  by (induction sch) (auto split: option.splits)

lemma gcal_loop_filter:
  "(\<And>e. \<not> P e \<Longrightarrow> gcal_entry t s e = None) \<Longrightarrow> gcal_loop t s (filter P sch) = gcal_loop t s sch"
  by (induction sch) (auto split: option.splits)

lemma gcal_entry_no_date: "map_of s ''date'' = None \<Longrightarrow> gcal_entry t u s = None"
  by (simp add: gcal_entry_def gcal_link_def dict_get_def py_strip_Nil)

lemma gcal_entry_shape:
  assumes "gcal_entry title summary s = Some r"
  shows "\<exists>dates. py_strip (dict_get s ''date'' []) \<noteq> [] \<and>
           gcal_dates (py_strip (dict_get s ''date'' [])) = Some dates \<and>
           r = AList.update ''url''
                 (gcal_base @ ''action=TEMPLATE'' @
                  (let description = py_strip (dict_get s ''description'' []);
                       event_title = (if description \<noteq> [] then title @ '' - '' @ description else title)
                   in if event_title = [] then [] else ''&text='' @ enc False event_title) @
                  ''&dates='' @ dates @
                  (let details = gcal_details (py_strip (dict_get s ''location'' [])) summary
                   in if details = [] then [] else ''&details='' @ enc False details) @
                  ''&ctz=Asia%2FSeoul'') s"
proof -
  from assms obtain dates where
    d: "py_strip (dict_get s ''date'' []) \<noteq> []"
       "gcal_dates (py_strip (dict_get s ''date'' [])) = Some dates"
    by (auto simp: gcal_entry_def gcal_link_def Let_def split: if_splits option.splits)
  from assms d have "r = AList.update ''url'' (gcal_base @ gcal_qs (gcal_query
       (if py_strip (dict_get s ''description'' []) \<noteq> [] then title @ '' - '' @ py_strip (dict_get s ''description'' []) else title)
       dates (gcal_details (py_strip (dict_get s ''location'' [])) summary))) s"
    by (simp add: gcal_entry_def gcal_link_def Let_def)
  then show ?thesis using d gcal_url_shape [OF d(2)] by (simp add: Let_def)
qed

lemma build_gcal_urls_mem:
  assumes "sd_schedule item = Some schedule" and "r \<in> set (build_gcal_urls item)"
  shows "\<exists>s \<in> set schedule.
           gcal_entry (py_strip (or_else (sd_title item) no_title))
                      (py_strip (or_else (sd_summary item) [])) s = Some r"
  using assms by (auto simp: build_gcal_urls_def dest: gcal_loop_mem split: if_splits)

lemma gcal_dates_parts:
  assumes "gcal_dates d = Some dates"
  shows "\<exists>ys ms ds year month day.
           py_split CHR ''-'' (py_replace CHR ''.'' CHR ''-'' d) = [ys, ms, ds] \<and>
           py_int ys = Some year \<and> py_int ms = Some month \<and> py_int ds = Some day \<and>
           dates = fmt_0d 4 year @ fmt_0d 2 month @ fmt_0d 2 day @ ''/'' @
                   fmt_0d 4 year @ fmt_0d 2 month @ fmt_0d 2 (day + 1)"
  using assms by (auto simp: gcal_dates_def split: list.splits option.splits)


lemma item0_result:
  "build_gcal_urls item0 =
     [[(''date'', ''2025.09.04''),
       (''url'', ''https://calendar.google.com/calendar/render?action=TEMPLATE&text=A&dates=20250904/20250905&ctz=Asia%2FSeoul'')]]"
  by code_simp



lemma build_gcal_urls_skip:
  assumes "sd_schedule item = Some schedule"
  shows "build_gcal_urls (item\<lparr>sd_schedule := Some (filter (\<lambda>s. map_of s ''date'' \<noteq> None) schedule)\<rparr>)
         = build_gcal_urls item"
proof -
  have "gcal_loop t u (filter (\<lambda>s. map_of s ''date'' \<noteq> None) schedule) = gcal_loop t u schedule" for t u
    by (rule gcal_loop_filter) (simp add: gcal_entry_no_date)
  moreover have "filter (\<lambda>s. map_of s ''date'' \<noteq> None) schedule = [] \<Longrightarrow> gcal_loop t u schedule = []" for t u
    using calculation [of t u] by simp
  ultimately show ?thesis using assms by (simp add: build_gcal_urls_def)
qed

text \<open>
  What the code does for every summary: each returned entry is a schedule entry whose
  date, with dots read as hyphens, splits into three integers year, month and day, and
  its link carries \<^verbatim>\<open>dates=\<close> year, month, day, a slash, and year, month and the day
  number plus one, in the widths 4, 2 and 2.  Schedule entries without a \<^verbatim>\<open>date\<close> key
  add nothing to the result.  The date 2025.09.04 gives 20250904/20250905.
\<close>

lemma build_gcal_urls_dates:
  assumes "sd_schedule item = Some schedule"
  shows "(\<forall>r \<in> set (build_gcal_urls item). \<exists>s \<in> set schedule. \<exists>ys ms ds year month day pre post.
            py_split CHR ''-'' (py_replace CHR ''.'' CHR ''-'' (py_strip (dict_get s ''date'' []))) = [ys, ms, ds] \<and>
            py_int ys = Some year \<and> py_int ms = Some month \<and> py_int ds = Some day \<and>
            r = AList.update ''url''
                  (pre @ ''&dates='' @ fmt_0d 4 year @ fmt_0d 2 month @ fmt_0d 2 day @ ''/'' @
                                     fmt_0d 4 year @ fmt_0d 2 month @ fmt_0d 2 (day + 1) @ post) s) \<and>
         build_gcal_urls (item\<lparr>sd_schedule := Some (filter (\<lambda>s. map_of s ''date'' \<noteq> None) schedule)\<rparr>)
           = build_gcal_urls item \<and>
         gcal_dates ''2025.09.04'' = Some ''20250904/20250905''"
proof (intro conjI ballI)
  fix r assume "r \<in> set (build_gcal_urls item)"
  from build_gcal_urls_mem [OF assms this] obtain s where
    s: "s \<in> set schedule"
       "gcal_entry (py_strip (or_else (sd_title item) no_title))
                   (py_strip (or_else (sd_summary item) [])) s = Some r"
    by blast
  from gcal_entry_shape [OF s(2)] obtain dates pre post where
    d: "gcal_dates (py_strip (dict_get s ''date'' [])) = Some dates"
    and r: "r = AList.update ''url'' (pre @ ''&dates='' @ dates @ post) s"
    by (metis append.assoc)
  from gcal_dates_parts [OF d] obtain ys ms ds year month day where
    p: "py_split CHR ''-'' (py_replace CHR ''.'' CHR ''-'' (py_strip (dict_get s ''date'' []))) = [ys, ms, ds]"
       "py_int ys = Some year" "py_int ms = Some month" "py_int ds = Some day"
       "dates = fmt_0d 4 year @ fmt_0d 2 month @ fmt_0d 2 day @ ''/'' @
                fmt_0d 4 year @ fmt_0d 2 month @ fmt_0d 2 (day + 1)"
    by blast
  have "r = AList.update ''url''
                  (pre @ ''&dates='' @ fmt_0d 4 year @ fmt_0d 2 month @ fmt_0d 2 day @ ''/'' @
                                     fmt_0d 4 year @ fmt_0d 2 month @ fmt_0d 2 (day + 1) @ post) s"
    unfolding r p(5) by simp
  with s(1) p(1-4)
  show "\<exists>s \<in> set schedule. \<exists>ys ms ds year month day pre post.
            py_split CHR ''-'' (py_replace CHR ''.'' CHR ''-'' (py_strip (dict_get s ''date'' []))) = [ys, ms, ds] \<and>
            py_int ys = Some year \<and> py_int ms = Some month \<and> py_int ds = Some day \<and>
            r = AList.update ''url''
                  (pre @ ''&dates='' @ fmt_0d 4 year @ fmt_0d 2 month @ fmt_0d 2 day @ ''/'' @
                                     fmt_0d 4 year @ fmt_0d 2 month @ fmt_0d 2 (day + 1) @ post) s"
    by blast
next
  show "build_gcal_urls (item\<lparr>sd_schedule := Some (filter (\<lambda>s. map_of s ''date'' \<noteq> None) schedule)\<rparr>)
           = build_gcal_urls item"
    using assms by (rule build_gcal_urls_skip)
next
  show "gcal_dates ''2025.09.04'' = Some ''20250904/20250905''" by code_simp
qed

text \<open>The sample summary: its second entry has no date and is left out.\<close>

lemma build_gcal_urls_dates_sample:
  "sd_schedule item0 = Some [[(''date'', ''2025.09.04'')], [(''description'', ''no date'')]] \<and>
   build_gcal_urls item0 =
     [[(''date'', ''2025.09.04''),
       (''url'', ''https://calendar.google.com/calendar/render?action=TEMPLATE&text=A&dates=20250904/20250905&ctz=Asia%2FSeoul'')]] \<and>
   build_gcal_urls (item0\<lparr>sd_schedule := Some (filter (\<lambda>s. map_of s ''date'' \<noteq> None)
       [[(''date'', ''2025.09.04'')], [(''description'', ''no date'')]])\<rparr>) = build_gcal_urls item0"
proof -
  have h: "sd_schedule item0 = Some [[(''date'', ''2025.09.04'')], [(''description'', ''no date'')]]"
    by (simp add: item0_def)
  from build_gcal_urls_dates [OF h] h item0_result show ?thesis by blast
qed

text \<open>
  Claim C5.  The end bound is the day number plus one, written behind the same year and
  month.  For the last day of a month this is not the day after: the date 2025.09.30 gets
  the end bound 20250931, and there is no 31 September.  The entry without a date is left
  out, and nothing is raised.
\<close>

theorem month_end_has_no_next_day:
  "build_gcal_urls item_month_end =
     [[(''date'', ''2025.09.30''),
       (''url'', ''https://calendar.google.com/calendar/render?action=TEMPLATE&text=A&dates=20250930/20250931&ctz=Asia%2FSeoul'')]] \<and>
   mk_datetime 2025 9 31 = None \<and>
   mk_datetime 2025 10 1 \<noteq> None"
  by code_simp


section \<open>Properties of the suggestion engine\<close>

subsection \<open>Deadlines\<close>

lemma floor_days:
  fixes k t :: int
  assumes "0 \<le> t" and "t < us_per_day"
  shows "(k * us_per_day - t) div us_per_day = (if t = 0 then k else k - 1)"
proof (cases "t = 0")
  case True
  then show ?thesis by (simp add: us_per_day_def)
next
  case False
  have "k * us_per_day - t = us_per_day * (k - 1) + (us_per_day - t)" by (simp add: algebra_simps)
  moreover have "0 \<le> us_per_day - t" "us_per_day - t < us_per_day" using assms False by simp_all
  ultimately have "(k * us_per_day - t) div us_per_day = k - 1"
    by (rule int_div_pos_eq)
  with False show ?thesis by simp
qed

lemma timedelta_days_calendar:
  assumes "mk_datetime y m d = Some deadline"
      and "0 \<le> time_of_day now" and "time_of_day now < us_per_day"
  shows "timedelta_days deadline now =
           ymd2ord y m d - ymd2ord (dt_year now) (dt_month now) (dt_day now)
           - (if time_of_day now = 0 then 0 else 1)"
proof -
  from assms(1) have dl: "to_microseconds deadline = ymd2ord y m d * us_per_day"
    by (auto simp: mk_datetime_def to_microseconds_def time_of_day_def split: if_splits)
  have nw: "to_microseconds now =
      ymd2ord (dt_year now) (dt_month now) (dt_day now) * us_per_day + time_of_day now"
    by (simp add: to_microseconds_def)
  have "to_microseconds deadline - to_microseconds now =
        (ymd2ord y m d - ymd2ord (dt_year now) (dt_month now) (dt_day now)) * us_per_day - time_of_day now"
    unfolding dl nw by (simp add: algebra_simps)
  then show ?thesis
    unfolding timedelta_days_def using floor_days [OF assms(2,3)] by simp
qed

lemma deadline_same_day:
  assumes "mk_datetime (dt_year now) (dt_month now) (dt_day now) = Some deadline"
      and "0 < time_of_day now" and "time_of_day now < us_per_day"
  shows "timedelta_days deadline now = - 1"
  using timedelta_days_calendar [OF assms(1) _ assms(3)] assms(2) by simp

lemma msg_overdue_not_due_today: "msg_overdue \<noteq> msg_due_today"
  by (simp add: msg_overdue_def msg_due_today_def)

text \<open>
  Claim C4.  The buckets are chosen by \<^verbatim>\<open>(deadline - now).days\<close>, where the deadline
  is the midnight that begins its day and the clock carries the time of day.  By
  \<open>timedelta_days_calendar\<close> this number is one less than the difference of the two dates
  unless the clock stands at midnight exactly.  So at 10:00 on 4 September 2025 the
  deadline 2025.09.04, which is today, gets the message for a deadline that has passed,
  and the deadline of the next day gets the message that today is the deadline; only at
  midnight does today's deadline get that message.
\<close>

theorem deadline_today_reported_overdue:
  "generate_deadline_suggestions now_morning ''2025.09.04'' = [msg_overdue] \<and>
   generate_deadline_suggestions now_morning ''2025.09.04'' \<noteq> [msg_due_today] \<and>
   generate_deadline_suggestions now_morning ''2025.09.05'' = [msg_due_today] \<and>
   generate_deadline_suggestions now_midnight ''2025.09.04'' = [msg_due_today]"
proof -
  have p4: "parse_deadline ''2025.09.04'' = mk_datetime 2025 9 4" by code_simp
  have p5: "parse_deadline ''2025.09.05'' = mk_datetime 2025 9 5" by code_simp
  have d4: "timedelta_days (the (mk_datetime 2025 9 4)) now_morning = - 1" by code_simp
  have d5: "timedelta_days (the (mk_datetime 2025 9 5)) now_morning = 0" by code_simp
  have d0: "timedelta_days (the (mk_datetime 2025 9 4)) now_midnight = 0" by code_simp
  have v4: "mk_datetime 2025 9 4 \<noteq> None" and v5: "mk_datetime 2025 9 5 \<noteq> None" by code_simp+
  have a: "generate_deadline_suggestions now_morning ''2025.09.04'' = [msg_overdue]"
    using v4 d4 by (auto simp: generate_deadline_suggestions_def p4)
  have b: "generate_deadline_suggestions now_morning ''2025.09.05'' = [msg_due_today]"
    using v5 d5 by (auto simp: generate_deadline_suggestions_def p5)
  have c: "generate_deadline_suggestions now_midnight ''2025.09.04'' = [msg_due_today]"
    using v4 d0 by (auto simp: generate_deadline_suggestions_def p4)
  from a b c msg_overdue_not_due_today show ?thesis by simp
qed

subsection \<open>Consolidation\<close>

lemma remdups_snoc: "remdups (xs @ [x]) = remdups [y \<leftarrow> xs. y \<noteq> x] @ [x]"
  by (induction xs) auto

lemma first_seen_Cons: "rev (remdups (rev (x # xs))) = x # rev (remdups (rev [y \<leftarrow> xs. y \<noteq> x]))"
  by (simp add: remdups_snoc rev_filter)

lemma filter_notin_snoc: "[y \<leftarrow> xs. y \<notin> set (u @ [x])] = [y \<leftarrow> [y \<leftarrow> xs. y \<notin> set u]. y \<noteq> x]"
  by (induction xs) auto

lemma unique_loop_first_seen:
  "list_all hashable xs \<Longrightarrow>
   unique_loop xs u (set u) = Inr (u @ rev (remdups (rev [x \<leftarrow> xs. x \<notin> set u])))"
proof (induction xs arbitrary: u)
  case Nil
  then show ?case by simp
next
  case (Cons x xs)
  then have h: "hashable x" and hs: "list_all hashable xs" by simp_all
  show ?case
  proof (cases "x \<in> set u")
    case True
    with h Cons.IH [OF hs, of u] show ?thesis by simp
  next
    case False
    have "unique_loop (x # xs) u (set u) = unique_loop xs (u @ [x]) (set (u @ [x]))"
      using h False by simp
    also have "\<dots> = Inr ((u @ [x]) @ rev (remdups (rev [y \<leftarrow> xs. y \<notin> set (u @ [x])])))"
      by (rule Cons.IH [OF hs])
    also have "\<dots> = Inr (u @ x # rev (remdups (rev [y \<leftarrow> [y \<leftarrow> xs. y \<notin> set u]. y \<noteq> x])))"
      by (simp only: filter_notin_snoc) simp
    also have "\<dots> = Inr (u @ rev (remdups (rev (x # [y \<leftarrow> xs. y \<notin> set u]))))"
      by (simp only: first_seen_Cons)
    also have "x # [y \<leftarrow> xs. y \<notin> set u] = [y \<leftarrow> x # xs. y \<notin> set u]"
      using False by simp
    finally show ?thesis .
  qed
qed

lemma flatten_str_lists: "flatten_lists (str_lists ls) = map PStr (concat ls)"
  by (induction ls) (simp_all add: str_lists_def)

lemma hashable_strs: "list_all hashable (map PStr xs)"
  by (induction xs) simp_all

lemma remdups_map_PStr: "remdups (map PStr xs) = map PStr (remdups xs)"
  by (induction xs) auto

lemma first_seen_map_PStr: "rev (remdups (rev (map PStr xs))) = map PStr (rev (remdups (rev xs)))"
proof -
  have "rev (map PStr xs) = map PStr (rev xs)" by (simp add: rev_map)
  then show ?thesis by (simp only: remdups_map_PStr rev_map)
qed

lemma consolidate_strs:
  "consolidate_body (str_lists ls) m = Inr (slice_to m (map PStr (rev (remdups (rev (concat ls))))))"
  using unique_loop_first_seen [OF hashable_strs, of "concat ls" "[]"]
  by (simp add: consolidate_body_def flatten_str_lists first_seen_map_PStr)

lemma first_seen_distinct: "distinct xs \<Longrightarrow> rev (remdups (rev xs)) = xs"
  by (simp add: distinct_remdups_id)

lemma consolidate_one_list:
  assumes "distinct xs"
  shows "consolidate_body [PList (map PStr xs)] m = Inr (slice_to m (map PStr xs))"
proof -
  have "str_lists [xs] = [PList (map PStr xs)]" by (simp add: str_lists_def)
  with consolidate_strs [of "[xs]" m] first_seen_distinct [OF assms] show ?thesis by simp
qed

text \<open>
  Claim C6, for a bound that is not negative.  On a list of lists of strings
  \<open>consolidate_suggestions\<close> returns the strings of all lists in call order, each kept
  at its first occurrence only, cut to the first \<open>max_suggestions\<close> of them; the length
  is the minimum of the number of different strings and the bound; consolidating the
  result once more returns it unchanged; the default bound is 10; and an input on which
  the body raises (a list inside a suggestion list is not hashable) gives the single
  fallback suggestion.
\<close>

theorem consolidate_suggestions_nonneg:
  assumes "0 \<le> max_suggestions"
  shows "consolidate_suggestions (str_lists ls) max_suggestions =
           map PStr (take (nat max_suggestions) (rev (remdups (rev (concat ls))))) \<and>
         length (consolidate_suggestions (str_lists ls) max_suggestions) =
           min (card (set (concat ls))) (nat max_suggestions) \<and>
         consolidate_suggestions
           [PList (consolidate_suggestions (str_lists ls) max_suggestions)] max_suggestions =
           consolidate_suggestions (str_lists ls) max_suggestions \<and>
         consolidate_suggestions (str_lists ls) default_max_suggestions =
           map PStr (take 10 (rev (remdups (rev (concat ls))))) \<and>
         consolidate_body [PList [PList []]] max_suggestions = Inl (TypeError unhashable_list) \<and>
         consolidate_suggestions [PList [PList []]] max_suggestions = [PStr msg_consolidate_fallback]"
proof -
  let ?u = "rev (remdups (rev (concat ls)))"
  let ?n = "nat max_suggestions"
  have r: "consolidate_suggestions (str_lists ls) max_suggestions = map PStr (take ?n ?u)"
    using assms by (simp add: consolidate_suggestions_def consolidate_strs slice_to_def take_map)
  have l: "length (map PStr (take ?n ?u)) = min (card (set (concat ls))) ?n"
    by (simp add: length_remdups_card_conv)
  have d: "distinct (take ?n ?u)" by simp
  have "consolidate_suggestions [PList (map PStr (take ?n ?u))] max_suggestions
          = map PStr (take ?n ?u)"
    using assms by (simp add: consolidate_suggestions_def consolidate_one_list [OF d] slice_to_def take_map)
  moreover have "consolidate_suggestions (str_lists ls) default_max_suggestions = map PStr (take 10 ?u)"
    by (simp add: consolidate_suggestions_def consolidate_strs slice_to_def take_map default_max_suggestions_def)
  moreover have "consolidate_body [PList [PList []]] max_suggestions = Inl (TypeError unhashable_list)"
    by (simp add: consolidate_body_def)
  moreover have "consolidate_suggestions [PList [PList []]] max_suggestions = [PStr msg_consolidate_fallback]"
    by (simp add: consolidate_suggestions_def consolidate_body_def)
  ultimately show ?thesis using r l by simp
qed

text \<open>The theorem at the bound 2 and two lists that share strings.\<close>

theorem consolidate_suggestions_nonneg_witness:
  "(0::int) \<le> 2 \<and>
   consolidate_suggestions (str_lists [[''a'', ''b''], [''b'', ''c'', ''a'']]) 2 = [PStr ''a'', PStr ''b''] \<and>
   length (consolidate_suggestions (str_lists [[''a'', ''b''], [''b'', ''c'', ''a'']]) 2) = 2"
proof -
  have h: "(0::int) \<le> 2" by simp
  have "set (concat [[''a'', ''b''], [''b'', ''c'', ''a'']]) = set [''a'', ''b'', ''c'']" by auto
  then have c: "card (set (concat [[''a'', ''b''], [''b'', ''c'', ''a'']])) = 3"
    by (simp only: distinct_card) simp
  from consolidate_suggestions_nonneg [OF h, of "[[''a'', ''b''], [''b'', ''c'', ''a'']]"] c
  show ?thesis by simp
qed

text \<open>
  With the bound \<open>-1\<close> the slice drops the last string instead: the length is not the
  minimum of the two numbers, and consolidating the result again changes it.
\<close>

theorem consolidate_negative_counterexample:
  "consolidate_suggestions (str_lists [[''a'', ''b'']]) (- 1) = [PStr ''a''] \<and>
   int (length (consolidate_suggestions (str_lists [[''a'', ''b'']]) (- 1)))
     \<noteq> min (int (card (set (concat [[''a'', ''b'']])))) (- 1) \<and>
   consolidate_suggestions [PList (consolidate_suggestions (str_lists [[''a'', ''b'']]) (- 1))] (- 1)
     \<noteq> consolidate_suggestions (str_lists [[''a'', ''b'']]) (- 1)"
  by (simp add: consolidate_suggestions_def consolidate_body_def str_lists_def slice_to_def)


section \<open>Properties of the processing pipeline\<close>

subsection \<open>Text extraction\<close>

lemma ocr_loop_events: "snd (ocr_loop env images) = map (\<lambda>i. Extract (img_url i)) images"
  by (induction images) (simp_all add: Let_def case_prod_beta)

lemma ocr_loop_images:
  "fst (ocr_loop env images) =
     map (\<lambda>i. i\<lparr>img_ocr_text := Some (perform_ocr_on_url env (img_url i))\<rparr>) images"
  by (induction images) (simp_all add: Let_def case_prod_beta)

lemma OCR_events: "snd (OCR env state) = map (\<lambda>i. Extract (img_url i)) (ns_image state)"
  using ocr_loop_events [of env "ns_image state"]
  by (simp add: OCR_def case_prod_beta)

lemma OCR_images:
  "ns_image (fst (OCR env state)) =
     map (\<lambda>i. i\<lparr>img_ocr_text := Some (perform_ocr_on_url env (img_url i))\<rparr>) (ns_image state)"
  using ocr_loop_images [of env "ns_image state"]
  by (simp add: OCR_def case_prod_beta)

lemma OCR_ocr_text:
  "ns_ocr_text (fst (OCR env state)) =
     map (\<lambda>i. (img_filename i, perform_ocr_on_url env (img_url i))) (ns_image state)"
  using ocr_loop_images [of env "ns_image state"]
  by (simp add: OCR_def o_def case_prod_beta)

lemma invoke_with_images:
  assumes "ns_image state \<noteq> []"
  shows "invoke env state =
           \<lparr>gr_events = Enter OCR_Node # map (\<lambda>i. Extract (img_url i)) (ns_image state) @
                         [Enter Summary_Node],
            gr_state = fst (OCR env state),
            gr_json_summary = Summary env (fst (OCR env state))\<rparr>"
  using assms OCR_events [of env state]
  by (simp add: invoke_def OCR_branching_condition_def case_prod_beta)

lemma invoke_without_images:
  assumes "ns_image state = []"
  shows "invoke env state =
           \<lparr>gr_events = [Enter Summary_Node], gr_state = state,
            gr_json_summary = Summary env state\<rparr>"
  using assms by (simp add: invoke_def OCR_branching_condition_def)

lemma perform_ocr_failure:
  "perform_ocr_body env u = Inl e \<Longrightarrow> perform_ocr_on_url env u = []"
  by (simp add: perform_ocr_on_url_def)

lemma perform_ocr_download_failure:
  "download_image env u = Inl e \<Longrightarrow> perform_ocr_body env u = Inl e"
  by (simp add: perform_ocr_body_def)

lemma perform_ocr_predict_failure:
  "download_image env u = Inr img \<Longrightarrow> ocr_predict env img = Inl e \<Longrightarrow> perform_ocr_body env u = Inl e"
  by (simp add: perform_ocr_body_def)

text \<open>
  Claim C8.  On a state with at least one image the graph enters \<^verbatim>\<open>OCR_Node\<close>, calls
  the extraction once for each image in order, and only then enters \<^verbatim>\<open>Summary_Node\<close>,
  which runs on the state in which every image carries the string that
  \<open>perform_ocr_on_url\<close> returned and \<^verbatim>\<open>ocr_text\<close> lists these strings by file name.
  On a state without images the graph enters \<^verbatim>\<open>Summary_Node\<close> only, so the extraction
  is not called.  \<open>perform_ocr_on_url\<close> always returns a string, and that string is
  empty when the download or the engine raises.
\<close>

theorem extraction_before_summarization:
  "(ns_image state \<noteq> [] \<longrightarrow>
      gr_events (invoke env state) =
        Enter OCR_Node # map (\<lambda>i. Extract (img_url i)) (ns_image state) @ [Enter Summary_Node] \<and>
      map img_ocr_text (ns_image (gr_state (invoke env state))) =
        map (\<lambda>i. Some (perform_ocr_on_url env (img_url i))) (ns_image state) \<and>
      ns_ocr_text (gr_state (invoke env state)) =
        map (\<lambda>i. (img_filename i, perform_ocr_on_url env (img_url i))) (ns_image state) \<and>
      gr_json_summary (invoke env state) = Summary env (gr_state (invoke env state))) \<and>
   (ns_image state = [] \<longrightarrow>
      gr_events (invoke env state) = [Enter Summary_Node] \<and>
      gr_json_summary (invoke env state) = Summary env state) \<and>
   (\<forall>e. download_image env u = Inl e \<longrightarrow> perform_ocr_on_url env u = []) \<and>
   (\<forall>img e. download_image env u = Inr img \<and> ocr_predict env img = Inl e \<longrightarrow>
      perform_ocr_on_url env u = [])"
proof (intro conjI impI allI)
  assume a: "ns_image state \<noteq> []"
  show "gr_events (invoke env state) =
        Enter OCR_Node # map (\<lambda>i. Extract (img_url i)) (ns_image state) @ [Enter Summary_Node]"
    by (simp add: invoke_with_images [OF a])
  show "map img_ocr_text (ns_image (gr_state (invoke env state))) =
        map (\<lambda>i. Some (perform_ocr_on_url env (img_url i))) (ns_image state)"
    by (simp add: invoke_with_images [OF a] OCR_images o_def)
  show "ns_ocr_text (gr_state (invoke env state)) =
        map (\<lambda>i. (img_filename i, perform_ocr_on_url env (img_url i))) (ns_image state)"
    by (simp add: invoke_with_images [OF a] OCR_ocr_text)
  show "gr_json_summary (invoke env state) = Summary env (gr_state (invoke env state))"
    by (simp add: invoke_with_images [OF a])
next
  assume a: "ns_image state = []"
  show "gr_events (invoke env state) = [Enter Summary_Node]"
    by (simp add: invoke_without_images [OF a])
  show "gr_json_summary (invoke env state) = Summary env state"
    by (simp add: invoke_without_images [OF a])
next
  fix e assume "download_image env u = Inl e"
  then have "perform_ocr_body env u = Inl e" by (rule perform_ocr_download_failure)
  then show "perform_ocr_on_url env u = []" by (rule perform_ocr_failure)
next
  fix img e assume "download_image env u = Inr img \<and> ocr_predict env img = Inl e"
  then have "perform_ocr_body env u = Inl e" by (simp add: perform_ocr_predict_failure)
  then show "perform_ocr_on_url env u = []" by (rule perform_ocr_failure)
qed

text \<open>
  The theorem at a state with one image and at a state with none, for an engine that
  raises and for a download that raises.
\<close>

theorem extraction_before_summarization_witness:
  "ns_image state_with_image \<noteq> [] \<and>
   gr_events (invoke failing_ocr_services state_with_image) =
     [Enter OCR_Node, Extract ''http://x/a.jpg'', Enter Summary_Node] \<and>
   map img_ocr_text (ns_image (gr_state (invoke failing_ocr_services state_with_image))) = [Some []] \<and>
   ns_image state_without_image = [] \<and>
   gr_events (invoke failing_ocr_services state_without_image) = [Enter Summary_Node] \<and>
   download_image failing_ocr_services ''http://x/a.jpg'' = Inr () \<and>
   ocr_predict failing_ocr_services () = Inl (OtherError ''no engine'') \<and>
   perform_ocr_on_url failing_ocr_services ''http://x/a.jpg'' = [] \<and>
   download_image no_download_services ''u'' = Inl (OtherError ''404'') \<and>
   perform_ocr_on_url no_download_services ''u'' = []"
proof -
  have h1: "ns_image state_with_image \<noteq> []" by (simp add: state_with_image_def)
  have h2: "ns_image state_without_image = []"
    by (simp add: state_without_image_def)
  have h3: "download_image failing_ocr_services ''http://x/a.jpg'' = Inr ()"
    by (simp add: failing_ocr_services_def sample_services_def)
  have h4: "ocr_predict failing_ocr_services () = Inl (OtherError ''no engine'')"
    by (simp add: failing_ocr_services_def sample_services_def)
  have h5: "download_image no_download_services ''u'' = Inl (OtherError ''404'')"
    by (simp add: no_download_services_def)
  note t1 = extraction_before_summarization [of state_with_image failing_ocr_services "''http://x/a.jpg''"]
  note t2 = extraction_before_summarization [of state_without_image failing_ocr_services "''u''"]
  note t3 = extraction_before_summarization [of state_with_image no_download_services "''u''"]
  from t1 have "\<forall>img e. download_image failing_ocr_services ''http://x/a.jpg'' = Inr img \<and>
      ocr_predict failing_ocr_services img = Inl e \<longrightarrow>
      perform_ocr_on_url failing_ocr_services ''http://x/a.jpg'' = []" by (elim conjE)
  with h3 h4 have p: "perform_ocr_on_url failing_ocr_services ''http://x/a.jpg'' = []" by simp
  from t1 h1 have e1: "gr_events (invoke failing_ocr_services state_with_image) =
     Enter OCR_Node # map (\<lambda>i. Extract (img_url i)) (ns_image state_with_image) @ [Enter Summary_Node]"
    and e2: "map img_ocr_text (ns_image (gr_state (invoke failing_ocr_services state_with_image))) =
     map (\<lambda>i. Some (perform_ocr_on_url failing_ocr_services (img_url i))) (ns_image state_with_image)"
    by simp_all
  have i: "ns_image state_with_image =
     [\<lparr>img_url = ''http://x/a.jpg'', img_filename = ''a.jpg'', img_ocr_text = None\<rparr>]"
    by (simp add: state_with_image_def)
  from t2 h2 have e3: "gr_events (invoke failing_ocr_services state_without_image) = [Enter Summary_Node]"
    by simp
  from t3 have "\<forall>e. download_image no_download_services ''u'' = Inl e \<longrightarrow>
      perform_ocr_on_url no_download_services ''u'' = []" by (elim conjE)
  with h5 have e4: "perform_ocr_on_url no_download_services ''u'' = []" by simp
  show ?thesis
    using h1 h2 h3 h4 h5 p e3 e4 by (simp only: e1 e2 i) (simp add: p)
qed

subsection \<open>Summaries and errors\<close>

lemma prefix_no_model: "prefix summary_failed_prefix summary_failed_no_model"
  by (simp add: summary_failed_prefix_def summary_failed_no_model_def)

lemma prefix_failure: "prefix summary_failed_prefix (summarize_failure e)"
  by (simp add: summary_failed_prefix_def summarize_failure_def summary_failed_colon_def)

lemma summarize_failed:
  assumes "\<not> model_ready env \<or>
           (\<exists>e. generate_content env title ocr content = Inl e) \<or>
           (\<exists>raw. generate_content env title ocr content = Inr raw \<and>
              (json_span raw = None \<or>
               (\<exists>js e. json_span raw = Some js \<and> json_loads env js = Inl e)))"
  shows "prefix summary_failed_prefix (summarize env title ocr content)"
  using assms prefix_no_model prefix_failure
  by (auto simp: summarize_def split: sum.splits option.splits)

lemma generate_error_suggestions_nonempty: "generate_error_suggestions ty msg \<noteq> []"
  by (simp add: generate_error_suggestions_def)

lemma error_summary_fields:
  "js_status (error_summary msg data sugg) = ''error''"
  "js_error (error_summary msg data sugg) = Some msg"
  "js_suggestions (error_summary msg data sugg) = map PStr sugg"
  by (simp_all add: error_summary_def)

lemma success_summary_status: "js_status (success_summary env c s p) = ''success''"
  by (simp add: success_summary_def Let_def)

lemma Summary_failed_summarize:
  assumes "ns_title state = Some title"
      and "prefix summary_failed_prefix (summarize env title (ns_ocr_text state) (ns_content state))"
  shows "Summary env state =
           error_summary (summarize env title (ns_ocr_text state) (ns_content state)) None
             (generate_error_suggestions ''summary''
                (summarize env title (ns_ocr_text state) (ns_content state)))"
  using assms by (simp add: Summary_def Summary_body_def Let_def)

lemma Summary_failed_parse:
  assumes "ns_title state = Some title"
      and "\<not> prefix summary_failed_prefix (summarize env title (ns_ocr_text state) (ns_content state))"
      and "json_loads env (summarize env title (ns_ocr_text state) (ns_content state)) = Inl e"
  shows "Summary env state =
           error_summary parsing_failed
             (Some (summarize env title (ns_ocr_text state) (ns_content state)))
             (generate_error_suggestions ''parsing'' parsing_failed)"
  using assms by (simp add: Summary_def Summary_body_def Let_def)

lemma Summary_no_title:
  assumes "ns_title state = None"
  shows "Summary env state =
           error_summary (summary_node_unexpected @ none_not_subscriptable) None
             (generate_error_suggestions ''unexpected'' none_not_subscriptable)"
  using assms by (simp add: Summary_def Summary_body_def)

lemma Summary_parsed:
  assumes "ns_title state = Some title"
      and "\<not> prefix summary_failed_prefix (summarize env title (ns_ocr_text state) (ns_content state))"
      and "json_loads env (summarize env title (ns_ocr_text state) (ns_content state)) = Inr parsed"
  shows "Summary env state =
           (if dict_truthy parsed
            then success_summary env (ns_category state)
                   (summarize env title (ns_ocr_text state) (ns_content state)) parsed
            else error_summary parsing_failed
                   (Some (summarize env title (ns_ocr_text state) (ns_content state)))
                   (generate_error_suggestions ''parsing'' parsing_failed))"
  using assms by (simp add: Summary_def Summary_body_def Let_def)

lemma Summary_cases:
  "(\<exists>s p. Summary env state = success_summary env (ns_category state) s p) \<or>
   (\<exists>msg data ty m. Summary env state = error_summary msg data (generate_error_suggestions ty m))"
proof (cases "ns_title state")
  case None
  from Summary_no_title [OF None] show ?thesis by blast
next
  case (Some title)
  let ?r = "summarize env title (ns_ocr_text state) (ns_content state)"
  show ?thesis
  proof (cases "prefix summary_failed_prefix ?r")
    case True
    from Summary_failed_summarize [OF Some True] show ?thesis by blast
  next
    case False
    show ?thesis
    proof (cases "json_loads env ?r")
      case (Inl e)
      from Summary_failed_parse [OF Some False Inl] show ?thesis by blast
    next
      case (Inr parsed)
      from Summary_parsed [OF Some False Inr] show ?thesis
        by (cases "dict_truthy parsed") (simp_all, blast+)
    qed
  qed
qed

lemma run_complete:
  assumes "ji_title j = Some t" "ji_content j = Some c" "ji_image j = Some i" "ji_category j = Some k"
  shows "run env j =
           \<lparr>rr_status = ''success'',
            rr_json_summary = Some (gr_json_summary (invoke env
               \<lparr>ns_title = t, ns_content = c, ns_image = i, ns_category = k, ns_ocr_text = []\<rparr>))\<rparr>"
  using assms by (simp add: run_def run_body_def)

lemma run_missing_key:
  assumes "ji_title j = None \<or> ji_content j = None \<or> ji_image j = None \<or> ji_category j = None"
  shows "run env j = \<lparr>rr_status = ''error'', rr_json_summary = None\<rparr>"
  using assms by (auto simp: run_def run_body_def split: option.splits)

lemma invoke_json_summary:
  "\<exists>state'. gr_json_summary (invoke env state) = Summary env state'"
  by (auto simp: invoke_def case_prod_beta)

text \<open>
  Claim C2, as the code has it.  The result of the Summary node always carries the status
  \<^verbatim>\<open>success\<close> or \<^verbatim>\<open>error\<close>; with the status \<^verbatim>\<open>error\<close> it carries an error message
  and a list of suggestions that is not empty and comes from
  \<open>generate_error_suggestions\<close>.  A summarization that fails (no model, an exception of
  the model, no JSON in its answer, JSON that does not parse), a summary that
  \<^verbatim>\<open>json.loads\<close> rejects, and a title that is \<^verbatim>\<open>None\<close> all end in such a result.
  \<^verbatim>\<open>run\<close> returns the node's result under the status \<^verbatim>\<open>success\<close> when its argument has
  the four keys, and the status \<^verbatim>\<open>error\<close> with an empty \<^verbatim>\<open>json_summary\<close> when one is
  missing.
\<close>

theorem summary_error_reporting:
  "js_status (Summary env state) \<in> {''success'', ''error''} \<and>
   (js_status (Summary env state) = ''error'' \<longrightarrow>
      js_error (Summary env state) \<noteq> None \<and>
      js_suggestions (Summary env state) \<noteq> [] \<and>
      (\<exists>ty msg. js_suggestions (Summary env state) = map PStr (generate_error_suggestions ty msg))) \<and>
   (\<forall>title. ns_title state = Some title \<and>
      (\<not> model_ready env \<or>
       (\<exists>e. generate_content env title (ns_ocr_text state) (ns_content state) = Inl e) \<or>
       (\<exists>raw. generate_content env title (ns_ocr_text state) (ns_content state) = Inr raw \<and>
          (json_span raw = None \<or>
           (\<exists>js e. json_span raw = Some js \<and> json_loads env js = Inl e))))
      \<longrightarrow> js_status (Summary env state) = ''error'') \<and>
   (\<forall>title e. ns_title state = Some title \<and>
      json_loads env (summarize env title (ns_ocr_text state) (ns_content state)) = Inl e
      \<longrightarrow> js_status (Summary env state) = ''error'') \<and>
   (ns_title state = None \<longrightarrow> js_status (Summary env state) = ''error'') \<and>
   (\<forall>t c i k. ji_title j = Some t \<and> ji_content j = Some c \<and> ji_image j = Some i \<and>
      ji_category j = Some k \<longrightarrow>
      (\<exists>state'. run env j = \<lparr>rr_status = ''success'',
                              rr_json_summary = Some (Summary env state')\<rparr>)) \<and>
   (ji_title j = None \<or> ji_content j = None \<or> ji_image j = None \<or> ji_category j = None \<longrightarrow>
      run env j = \<lparr>rr_status = ''error'', rr_json_summary = None\<rparr>)"
proof (intro conjI allI impI)
  show "js_status (Summary env state) \<in> {''success'', ''error''}"
    using Summary_cases [of env state]
    by (auto simp: success_summary_status error_summary_fields)
next
  assume e: "js_status (Summary env state) = ''error''"
  from Summary_cases [of env state] e obtain msg data ty m where
    r: "Summary env state = error_summary msg data (generate_error_suggestions ty m)"
    by (auto simp: success_summary_status)
  show "js_error (Summary env state) \<noteq> None"
    by (simp add: r error_summary_fields)
  show "js_suggestions (Summary env state) \<noteq> []"
    by (simp add: r error_summary_fields generate_error_suggestions_nonempty)
  show "\<exists>ty msg. js_suggestions (Summary env state) = map PStr (generate_error_suggestions ty msg)"
    unfolding r error_summary_fields by blast
next
  fix title
  assume a: "ns_title state = Some title \<and>
      (\<not> model_ready env \<or>
       (\<exists>e. generate_content env title (ns_ocr_text state) (ns_content state) = Inl e) \<or>
       (\<exists>raw. generate_content env title (ns_ocr_text state) (ns_content state) = Inr raw \<and>
          (json_span raw = None \<or>
           (\<exists>js e. json_span raw = Some js \<and> json_loads env js = Inl e))))"
  then have t: "ns_title state = Some title" by simp
  from a have "prefix summary_failed_prefix (summarize env title (ns_ocr_text state) (ns_content state))"
    by (intro summarize_failed) simp
  from Summary_failed_summarize [OF t this]
  show "js_status (Summary env state) = ''error''" by (simp add: error_summary_fields)
next
  fix title e
  assume a: "ns_title state = Some title \<and>
      json_loads env (summarize env title (ns_ocr_text state) (ns_content state)) = Inl e"
  then have t: "ns_title state = Some title"
    and l: "json_loads env (summarize env title (ns_ocr_text state) (ns_content state)) = Inl e"
    by simp_all
  show "js_status (Summary env state) = ''error''"
  proof (cases "prefix summary_failed_prefix (summarize env title (ns_ocr_text state) (ns_content state))")
    case True
    from Summary_failed_summarize [OF t True] show ?thesis by (simp add: error_summary_fields)
  next
    case False
    from Summary_failed_parse [OF t False l] show ?thesis by (simp add: error_summary_fields)
  qed
next
  assume "ns_title state = None"
  from Summary_no_title [OF this, of env]
  show "js_status (Summary env state) = ''error''" by (simp add: error_summary_fields)
next
  fix t c i k
  assume a: "ji_title j = Some t \<and> ji_content j = Some c \<and> ji_image j = Some i \<and>
      ji_category j = Some k"
  then have r: "run env j =
           \<lparr>rr_status = ''success'',
            rr_json_summary = Some (gr_json_summary (invoke env
               \<lparr>ns_title = t, ns_content = c, ns_image = i, ns_category = k, ns_ocr_text = []\<rparr>))\<rparr>"
    by (intro run_complete) simp_all
  from invoke_json_summary obtain state' where
    "gr_json_summary (invoke env
       \<lparr>ns_title = t, ns_content = c, ns_image = i, ns_category = k, ns_ocr_text = []\<rparr>)
     = Summary env state'" by blast
  with r show "\<exists>state'. run env j = \<lparr>rr_status = ''success'',
                              rr_json_summary = Some (Summary env state')\<rparr>" by auto
next
  assume "ji_title j = None \<or> ji_content j = None \<or> ji_image j = None \<or> ji_category j = None"
  then show "run env j = \<lparr>rr_status = ''error'', rr_json_summary = None\<rparr>"
    by (rule run_missing_key)
qed

text \<open>
  An argument without the key \<^verbatim>\<open>image\<close>: the result of \<^verbatim>\<open>run\<close> has the status
  \<^verbatim>\<open>error\<close> and an empty \<^verbatim>\<open>json_summary\<close>, hence neither an error message nor
  suggestions.
\<close>

theorem run_error_without_message_counterexample:
  "run sample_services input_without_image_key =
     \<lparr>rr_status = ''error'', rr_json_summary = None\<rparr>"
  by (simp add: run_def run_body_def input_without_image_key_def)

text \<open>
  The theorem for a missing model, for a parser that rejects the summary, for a title
  that is \<^verbatim>\<open>None\<close>, and for arguments of \<^verbatim>\<open>run\<close> with and without all keys.
\<close>

theorem summary_error_reporting_witness:
  "ns_title state_without_image = Some ''Notice'' \<and> \<not> model_ready no_model_services \<and>
   js_status (Summary no_model_services state_without_image) = ''error'' \<and>
   js_error (Summary no_model_services state_without_image) \<noteq> None \<and>
   js_suggestions (Summary no_model_services state_without_image) \<noteq> [] \<and>
   json_loads bad_json_services
     (summarize bad_json_services ''Notice'' (ns_ocr_text state_without_image)
        (ns_content state_without_image)) = Inl (ValueError ''Expecting value'') \<and>
   js_status (Summary bad_json_services state_without_image) = ''error'' \<and>
   ns_title (state_without_image\<lparr>ns_title := None\<rparr>) = None \<and>
   js_status (Summary sample_services (state_without_image\<lparr>ns_title := None\<rparr>)) = ''error'' \<and>
   ji_title input_with_image = Some (Some ''Notice'') \<and>
   ji_content input_with_image = Some ''text'' \<and>
   ji_image input_with_image \<noteq> None \<and>
   ji_category input_with_image = Some ''news'' \<and>
   rr_status (run no_model_services input_with_image) = ''success'' \<and>
   ji_image input_without_image_key = None \<and>
   run bad_json_services input_without_image_key = \<lparr>rr_status = ''error'', rr_json_summary = None\<rparr>"
proof -
  have h1: "ns_title state_without_image = Some ''Notice''"
    by (simp add: state_without_image_def state_with_image_def)
  have h2: "\<not> model_ready no_model_services" by (simp add: no_model_services_def)
  have h3: "json_loads bad_json_services
     (summarize bad_json_services ''Notice'' (ns_ocr_text state_without_image)
        (ns_content state_without_image)) = Inl (ValueError ''Expecting value'')"
    by (simp add: bad_json_services_def)
  have h4: "ns_title (state_without_image\<lparr>ns_title := None\<rparr>) = None" by simp
  have h5: "ji_title input_with_image = Some (Some ''Notice'')"
           "ji_content input_with_image = Some ''text''"
           "ji_category input_with_image = Some ''news''"
    by (simp_all add: input_with_image_def)
  obtain i where h6: "ji_image input_with_image = Some i" by (simp add: input_with_image_def)
  have h7: "ji_image input_without_image_key = None" by (simp add: input_without_image_key_def)
  note a = summary_error_reporting [of no_model_services state_without_image input_with_image]
  note b = summary_error_reporting [of bad_json_services state_without_image input_without_image_key]
  note c = summary_error_reporting [of sample_services "state_without_image\<lparr>ns_title := None\<rparr>" input_with_image]
  from a h1 h2 have s: "js_status (Summary no_model_services state_without_image) = ''error''"
    by simp
  with a have e: "js_error (Summary no_model_services state_without_image) \<noteq> None"
    and g: "js_suggestions (Summary no_model_services state_without_image) \<noteq> []"
    by simp_all
  from a h5 h6 obtain state' where
    "run no_model_services input_with_image =
       \<lparr>rr_status = ''success'', rr_json_summary = Some (Summary no_model_services state')\<rparr>"
    by auto
  then have r: "rr_status (run no_model_services input_with_image) = ''success''" by simp
  from b h1 h3 have p: "js_status (Summary bad_json_services state_without_image) = ''error''"
    by simp
  from b h7 have q: "run bad_json_services input_without_image_key =
      \<lparr>rr_status = ''error'', rr_json_summary = None\<rparr>" by simp
  from c h4 have n: "js_status (Summary sample_services (state_without_image\<lparr>ns_title := None\<rparr>)) = ''error''"
    by simp
  from h1 h2 h3 h4 h5 h6 h7 s e g r p q n show ?thesis by simp
qed


section \<open>Properties of the content crawler\<close>

subsection \<open>Retries\<close>
















subsection \<open>One result for each notification\<close>
























section \<open>Properties of the e-mail sender\<close>

text \<open>
  Claim C9.  For data whose notification id has no entry in the subscriber dictionary, or
  the empty list, \<open>send\<close> returns a string that says so, raises nothing and leaves the
  outbox as it was; \<^verbatim>\<open>send_email\<close>, which calls it, returns the same string.
\<close>

theorem send_without_subscribers:
  assumes "cd_notification_id data = Some notification_id"
      and "receiver notification_id = None \<or> receiver notification_id = Some []"
  shows "send (Inr receiver) deliver data sent =
           (Inr ((if receiver notification_id = None
                  then ''No subscribers for notification_id ''
                  else ''Empty subscriber list for notification_id '') @ show_int notification_id),
            sent) \<and>
         send_email (Inr receiver) deliver data sent =
           ((if receiver notification_id = None
             then ''No subscribers for notification_id ''
             else ''Empty subscriber list for notification_id '') @ show_int notification_id,
            sent)"
  using assms by (auto simp: send_def send_email_def)

text \<open>
  The theorem at an id without entry and at an id with the empty list; for the id with
  two subscribers a message is sent.
\<close>

theorem send_without_subscribers_witness:
  "cd_notification_id (tag_content (sample_notification ''http://a/1'') (sample_content True None)) = Some 7 \<and>
   sample_subscribers 9 = None \<and> sample_subscribers 8 = Some [] \<and>
   send (Inr sample_subscribers) (\<lambda>r d. True)
     ((sample_content True None)\<lparr>cd_notification_id := Some 9\<rparr>) [] =
     (Inr ''No subscribers for notification_id 9'', []) \<and>
   send (Inr sample_subscribers) (\<lambda>r d. True)
     ((sample_content True None)\<lparr>cd_notification_id := Some 8\<rparr>) [] =
     (Inr ''Empty subscriber list for notification_id 8'', []) \<and>
   snd (send (Inr sample_subscribers) (\<lambda>r d. True)
     (tag_content (sample_notification ''http://a/1'') (sample_content True None)) []) \<noteq> []"
proof -
  have h9: "cd_notification_id ((sample_content True None)\<lparr>cd_notification_id := Some 9\<rparr>) = Some 9"
    and h8: "cd_notification_id ((sample_content True None)\<lparr>cd_notification_id := Some 8\<rparr>) = Some 8"
    by simp_all
  have s9: "sample_subscribers 9 = None" and s8: "sample_subscribers 8 = Some []"
    by (simp_all add: sample_subscribers_def)
  have n9: "show_int 9 = ''9''" and n8: "show_int 8 = ''8''"
    by (simp_all add: show_int_def show_nat.simps digit_char_def)
  from send_without_subscribers [OF h9, of sample_subscribers "\<lambda>r d. True" "[]"] s9 n9
  have a: "send (Inr sample_subscribers) (\<lambda>r d. True)
     ((sample_content True None)\<lparr>cd_notification_id := Some 9\<rparr>) [] =
     (Inr ''No subscribers for notification_id 9'', [])" by simp
  from send_without_subscribers [OF h8, of sample_subscribers "\<lambda>r d. True" "[]"] s8 n8
  have b: "send (Inr sample_subscribers) (\<lambda>r d. True)
     ((sample_content True None)\<lparr>cd_notification_id := Some 8\<rparr>) [] =
     (Inr ''Empty subscriber list for notification_id 8'', [])" by simp
  have c: "cd_notification_id (tag_content (sample_notification ''http://a/1'') (sample_content True None)) = Some 7"
    by (simp add: tag_content_def sample_notification_def)
  have d: "snd (send (Inr sample_subscribers) (\<lambda>r d. True)
     (tag_content (sample_notification ''http://a/1'') (sample_content True None)) []) \<noteq> []"
    by (simp add: send_def c sample_subscribers_def send_email_message_def)
  from a b c d s9 s8 show ?thesis by simp
qed


section \<open>What build\_gcal\_urls leaves unchanged\<close>

subsection \<open>The frame\<close>

lemma h_append_frame:
  "n0 \<le> result \<Longrightarrow> take n0 (h_append result v h) = take n0 h"
  by (simp add: h_append_def split: option.splits hobj.splits)

lemma h_append_length: "length (h_append result v h) = length h"
  by (simp add: h_append_def split: option.splits hobj.splits)

lemma h_add_result_frame:
  assumes "h_add_result result v url h = (e, h')" and "n0 \<le> result" and "n0 \<le> length h"
  shows "take n0 h' = take n0 h \<and> length h \<le> length h'"
  using assms
  by (auto simp: h_add_result_def alloc_def h_append_frame h_append_length
           split: hval.splits option.splits hobj.splits)

lemma h_gcal_loop_frame:
  "h_gcal_loop title summary result vs h = (e, h') \<Longrightarrow> n0 \<le> result \<Longrightarrow> n0 \<le> length h \<Longrightarrow>
   take n0 h' = take n0 h \<and> length h \<le> length h'"
proof (induction vs arbitrary: h)
  case Nil
  then show ?case by simp
next
  case (Cons v vs)
  show ?case
  proof (cases "h_get_strip h v ''description''")
    case (Inl x)
    with Cons.prems show ?thesis by simp
  next
    case d: (Inr description)
    show ?thesis
    proof (cases "h_get_strip h v ''date''")
      case (Inl x)
      with d Cons.prems show ?thesis by simp
    next
      case dt: (Inr date_str)
      show ?thesis
      proof (cases "h_get_strip h v ''location''")
        case (Inl x)
        with d dt Cons.prems show ?thesis by simp
      next
        case l: (Inr location)
        show ?thesis
        proof (cases "gcal_link title summary description date_str location")
          case None
          with d dt l Cons.prems have "h_gcal_loop title summary result vs h = (e, h')" by simp
          from Cons.IH [OF this Cons.prems(2,3)] show ?thesis .
        next
          case (Some url)
          obtain e1 h1 where a: "h_add_result result v url h = (e1, h1)"
            by (cases "h_add_result result v url h")
          from h_add_result_frame [OF a Cons.prems(2,3)]
          have f1: "take n0 h1 = take n0 h" "length h \<le> length h1" by simp_all
          show ?thesis
          proof (cases e1)
            case None
            with d dt l Some a Cons.prems have "h_gcal_loop title summary result vs h1 = (e, h')"
              by simp
            from Cons.IH [OF this Cons.prems(2)] f1 Cons.prems(3) show ?thesis by simp
          next
            case (Some ex)
            with d dt l \<open>gcal_link title summary description date_str location = Some url\<close> a Cons.prems
            have "h' = h1" by simp
            with f1 show ?thesis by simp
          qed
        qed
      qed
    qed
  qed
qed

lemma h_add_result_fresh:
  assumes "h_add_result result v url h = (e, h')" and "n0 \<le> length h" and "fresh_list n0 h result"
  shows "fresh_list n0 h' result"
proof -
  from assms(3) obtain l where
    l: "deref h result = Some (HList l)" "\<forall>v \<in> set l. \<exists>b. v = HRef b \<and> n0 \<le> b"
    unfolding fresh_list_def by blast
  then have rl: "result < length h" "h ! result = HList l"
    by (auto simp: deref_def split: if_splits)
  show ?thesis
  proof (cases "\<exists>a d. v = HRef a \<and> deref h a = Some (HDict d)")
    case True
    then obtain a d where v: "v = HRef a" "deref h a = Some (HDict d)" by blast
    let ?h1 = "(h @ [HDict d])[length h := HDict (AList.update ''url'' (HStr url) d)]"
    have d1: "deref ?h1 result = Some (HList l)"
      using rl by (simp add: deref_def nth_append)
    from assms(1) v have h': "h' = h_append result (HRef (length h)) ?h1"
      by (simp add: h_add_result_def alloc_def)
    have "deref h' result = Some (HList (l @ [HRef (length h)]))"
      unfolding h' using d1 rl by (simp add: h_append_def deref_def)
    with l(2) assms(2) show ?thesis unfolding fresh_list_def by auto
  next
    case False
    with assms(1) have "h' = h"
      by (auto simp: h_add_result_def split: hval.splits option.splits hobj.splits)
    with assms(3) show ?thesis by simp
  qed
qed

lemma h_gcal_loop_fresh:
  "h_gcal_loop title summary result vs h = (e, h') \<Longrightarrow> n0 \<le> length h \<Longrightarrow>
   fresh_list n0 h result \<Longrightarrow> fresh_list n0 h' result"
proof (induction vs arbitrary: h)
  case Nil
  then show ?case by simp
next
  case (Cons v vs)
  show ?case
  proof (cases "h_get_strip h v ''description''")
    case (Inl x)
    with Cons.prems show ?thesis by simp
  next
    case d: (Inr description)
    show ?thesis
    proof (cases "h_get_strip h v ''date''")
      case (Inl x)
      with d Cons.prems show ?thesis by simp
    next
      case dt: (Inr date_str)
      show ?thesis
      proof (cases "h_get_strip h v ''location''")
        case (Inl x)
        with d dt Cons.prems show ?thesis by simp
      next
        case l: (Inr location)
        show ?thesis
        proof (cases "gcal_link title summary description date_str location")
          case None
          with d dt l Cons.prems have "h_gcal_loop title summary result vs h = (e, h')" by simp
          from Cons.IH [OF this Cons.prems(2,3)] show ?thesis .
        next
          case (Some url)
          obtain e1 h1 where a: "h_add_result result v url h = (e1, h1)"
            by (cases "h_add_result result v url h")
          from h_add_result_fresh [OF a Cons.prems(2,3)] have f1: "fresh_list n0 h1 result" .
          have "length h \<le> length h1"
            using a by (auto simp: h_add_result_def alloc_def h_append_length
                             split: hval.splits option.splits hobj.splits)
          with Cons.prems(2) have n1: "n0 \<le> length h1" by simp
          show ?thesis
          proof (cases e1)
            case None
            with d dt l Some a Cons.prems have "h_gcal_loop title summary result vs h1 = (e, h')"
              by simp
            from Cons.IH [OF this n1 f1] show ?thesis .
          next
            case (Some ex)
            with d dt l \<open>gcal_link title summary description date_str location = Some url\<close> a Cons.prems
            have "h' = h1" by simp
            with f1 show ?thesis by simp
          qed
        qed
      qed
    qed
  qed
qed

lemma fresh_list_alloc: "fresh_list (length h) (h @ [HList []]) (length h)"
  by (simp add: fresh_list_def deref_def)

text \<open>
  Claim C10.  Whatever the store and the argument, and whether the call returns or
  raises, the store after the call begins with the store before it: every object that
  existed, the item dictionary and each schedule entry among them, is unchanged.  The
  list that is returned is a new object, and its elements are references to new objects,
  the copies that carry the \<^verbatim>\<open>url\<close> key.
\<close>

theorem build_gcal_urls_frame:
  assumes "h_build_gcal_urls h item = (r, h')"
  shows "length h \<le> length h' \<and>
         take (length h) h' = h \<and>
         (\<forall>a < length h. deref h' a = deref h a) \<and>
         (\<forall>a. r = Inr (HRef a) \<longrightarrow>
            length h \<le> a \<and>
            (\<exists>l. deref h' a = Some (HList l) \<and> (\<forall>v \<in> set l. \<exists>b. v = HRef b \<and> length h \<le> b)))"
proof -
  have main: "length h \<le> length h' \<and> take (length h) h' = h \<and>
              (\<forall>a. r = Inr (HRef a) \<longrightarrow> a = length h \<and> fresh_list (length h) h' a)"
  proof (cases "h_get h item ''schedule''")
    case (Inl e)
    with assms show ?thesis by (auto simp: h_build_gcal_urls_def)
  next
    case (Inr found)
    show ?thesis
    proof (cases "case found of None \<Rightarrow> True | Some schedule \<Rightarrow> \<not> h_truthy h schedule")
      case True
      with Inr assms have "r = Inr (HRef (length h))" "h' = h @ [HList []]"
        by (auto simp: h_build_gcal_urls_def alloc_def)
      then show ?thesis using fresh_list_alloc [of h] by simp
    next
      case False
      let ?h1 = "h @ [HList []]"
      let ?res = "length h"
      show ?thesis
      proof (cases "h_get_or_strip ?h1 item ''title'' no_title")
        case (Inl e)
        with Inr False assms show ?thesis by (auto simp: h_build_gcal_urls_def alloc_def)
      next
        case t: (Inr title)
        show ?thesis
        proof (cases "h_get_or_strip ?h1 item ''summary'' []")
          case (Inl e)
          with Inr False t assms show ?thesis by (auto simp: h_build_gcal_urls_def alloc_def)
        next
          case s: (Inr summary)
          show ?thesis
          proof (cases "h_iter ?h1 (the found)")
            case (Inl e)
            with Inr False t s assms show ?thesis by (auto simp: h_build_gcal_urls_def alloc_def)
          next
            case i: (Inr vs)
            obtain e2 h2 where lp: "h_gcal_loop title summary ?res vs ?h1 = (e2, h2)"
              by (cases "h_gcal_loop title summary ?res vs ?h1")
            from h_gcal_loop_frame [OF lp, of "length h"]
            have f: "take (length h) h2 = h" "length ?h1 \<le> length h2" by simp_all
            from h_gcal_loop_fresh [OF lp, of "length h"] fresh_list_alloc [of h]
            have fr: "fresh_list (length h) h2 ?res" by simp
            from Inr False t s i lp assms have
              "h' = h2" "r = (case e2 of None \<Rightarrow> Inr (HRef ?res) | Some e \<Rightarrow> Inl e)"
              by (auto simp: h_build_gcal_urls_def alloc_def split: option.splits)
            with f fr show ?thesis by (auto split: option.splits)
          qed
        qed
      qed
    qed
  qed
  then have t: "take (length h) h' = h" and le: "length h \<le> length h'" by simp_all
  have "\<forall>a < length h. deref h' a = deref h a"
  proof (intro allI impI)
    fix a assume a: "a < length h"
    have "h' ! a = take (length h) h' ! a" using a by simp
    with t a le show "deref h' a = deref h a" by (simp add: deref_def)
  qed
  with main show ?thesis unfolding fresh_list_def by auto
qed

lemma sample_store_run:
  "h_build_gcal_urls (fst (store_summary item0)) (snd (store_summary item0)) =
     (Inr (HRef 4),
      fst (store_summary item0) @
      [HList [HRef 5],
       HDict [(''date'', HStr ''2025.09.04''),
              (''url'', HStr ''https://calendar.google.com/calendar/render?action=TEMPLATE&text=A&dates=20250904/20250905&ctz=Asia%2FSeoul'')]])"
  by code_simp

text \<open>The theorem at the sample summary, laid out in a store of four objects.\<close>

theorem build_gcal_urls_frame_witness:
  "h_build_gcal_urls (fst (store_summary item0)) (snd (store_summary item0)) =
     (Inr (HRef 4),
      fst (store_summary item0) @
      [HList [HRef 5],
       HDict [(''date'', HStr ''2025.09.04''),
              (''url'', HStr ''https://calendar.google.com/calendar/render?action=TEMPLATE&text=A&dates=20250904/20250905&ctz=Asia%2FSeoul'')]]) \<and>
   length (fst (store_summary item0)) = 4 \<and>
   take 4 (fst (store_summary item0) @
      [HList [HRef 5],
       HDict [(''date'', HStr ''2025.09.04''),
              (''url'', HStr ''https://calendar.google.com/calendar/render?action=TEMPLATE&text=A&dates=20250904/20250905&ctz=Asia%2FSeoul'')]])
     = fst (store_summary item0)"
proof -
  have n: "length (fst (store_summary item0)) = 4"
    by (simp add: store_summary_def item0_def Let_def)
  from build_gcal_urls_frame [OF sample_store_run] n sample_store_run
  show ?thesis by simp
qed

subsection \<open>Agreement with the function on values\<close>

lemma map_of_store_entry:
  "map_of (map (\<lambda>(k, v). (k, HStr v)) d) k = map_option HStr (map_of d k)"
  by (induction d) auto

lemma update_store_entry:
  "AList.update k (HStr u) (map (\<lambda>(k, v). (k, HStr v)) d) = map (\<lambda>(k, v). (k, HStr v)) (AList.update k u d)"
  by (induction d) auto

lemma h_get_strip_entry:
  assumes "deref h a = Some (store_entry d)"
  shows "h_get_strip h (HRef a) k = Inr (py_strip (dict_get d k []))"
  using assms
  by (auto simp: h_get_strip_def h_get_def store_entry_def map_of_store_entry h_strip_def dict_get_def
           split: option.splits)

lemma h_add_result_entry:
  assumes "deref h a = Some (store_entry d)" and "res < length h" and "deref h res = Some (HList l)"
  shows "h_add_result res (HRef a) url h =
           (None, (h @ [store_entry (AList.update ''url'' url d)])[res := HList (l @ [HRef (length h)])])"
proof -
  from assms(2,3) have r: "h ! res = HList l" by (simp add: deref_def)
  have "deref ((h @ [HDict (map (\<lambda>(k, v). (k, HStr v)) d)])
                 [length h := HDict (AList.update ''url'' (HStr url) (map (\<lambda>(k, v). (k, HStr v)) d))]) res
        = Some (HList l)"
    using assms(2) r by (simp add: deref_def nth_append)
  then show ?thesis
    using assms(1)
    by (simp add: h_add_result_def store_entry_def alloc_def h_append_def update_store_entry)
qed

lemma h_gcal_loop_refines:
  "list_all2 (\<lambda>a d. a < n0 \<and> deref h a = Some (store_entry d)) as ds \<Longrightarrow>
   n0 \<le> res \<Longrightarrow> res < length h \<Longrightarrow> deref h res = Some (HList l) \<Longrightarrow>
   \<exists>h' new. h_gcal_loop t s res (map HRef as) h = (None, h') \<and>
     deref h' res = Some (HList (l @ map HRef new)) \<and>
     map (deref h') new = map (\<lambda>d. Some (store_entry d)) (gcal_loop t s ds) \<and>
     (\<forall>b < length h. b \<noteq> res \<longrightarrow> deref h' b = deref h b) \<and>
     length h \<le> length h'"
proof (induction as arbitrary: ds h l)
  case Nil
  then show ?case by simp
next
  case (Cons a as ds0)
  from Cons.prems(1) obtain d ds where ds0: "ds0 = d # ds"
    and a: "a < n0" "deref h a = Some (store_entry d)"
    and rest: "list_all2 (\<lambda>a d. a < n0 \<and> deref h a = Some (store_entry d)) as ds"
    by (auto simp: list_all2_Cons1)
  note prems = Cons.prems(2-4)
  note g = h_get_strip_entry [OF a(2)]
  show ?case
  proof (cases "gcal_link t s (py_strip (dict_get d ''description'' []))
                  (py_strip (dict_get d ''date'' [])) (py_strip (dict_get d ''location'' []))")
    case None
    then have e: "gcal_entry t s d = None" by (simp add: gcal_entry_def)
    from Cons.IH [OF rest prems] obtain h' new where
      "h_gcal_loop t s res (map HRef as) h = (None, h')"
      "deref h' res = Some (HList (l @ map HRef new))"
      "map (deref h') new = map (\<lambda>d. Some (store_entry d)) (gcal_loop t s ds)"
      "\<forall>b < length h. b \<noteq> res \<longrightarrow> deref h' b = deref h b"
      "length h \<le> length h'" by blast
    with None e g ds0 show ?thesis by auto
  next
    case (Some url)
    then have e: "gcal_entry t s d = Some (AList.update ''url'' url d)" by (simp add: gcal_entry_def)
    let ?h3 = "(h @ [store_entry (AList.update ''url'' url d)])[res := HList (l @ [HRef (length h)])]"
    note ar = h_add_result_entry [OF a(2) prems(2,3), of url]
    have keep: "\<And>b. b < length h \<Longrightarrow> b \<noteq> res \<Longrightarrow> deref ?h3 b = deref h b"
      by (simp add: deref_def nth_append)
    have new: "deref ?h3 (length h) = Some (store_entry (AList.update ''url'' url d))"
      using prems(2) by (simp add: deref_def)
    have p1: "list_all2 (\<lambda>a d. a < n0 \<and> deref ?h3 a = Some (store_entry d)) as ds"
    proof (rule list_all2_mono [OF rest])
      fix b e assume be: "b < n0 \<and> deref h b = Some (store_entry e)"
      then have "b < length h" by (auto simp: deref_def split: if_splits)
      moreover from be prems(1) have "b \<noteq> res" by simp
      ultimately show "b < n0 \<and> deref ?h3 b = Some (store_entry e)" using be keep by simp
    qed
    have p2: "res < length ?h3" using prems(2) by simp
    have p3: "deref ?h3 res = Some (HList (l @ [HRef (length h)]))"
      using prems(2) by (simp add: deref_def)
    from Cons.IH [OF p1 prems(1) p2 p3] obtain h' new' where r:
      "h_gcal_loop t s res (map HRef as) ?h3 = (None, h')"
      "deref h' res = Some (HList ((l @ [HRef (length h)]) @ map HRef new'))"
      "map (deref h') new' = map (\<lambda>d. Some (store_entry d)) (gcal_loop t s ds)"
      "\<forall>b < length ?h3. b \<noteq> res \<longrightarrow> deref h' b = deref ?h3 b"
      "length ?h3 \<le> length h'" by blast
    have l1: "h_gcal_loop t s res (map HRef (a # as)) h = (None, h')"
      using g Some ar r(1) by simp
    have l2: "deref h' res = Some (HList (l @ map HRef (length h # new')))"
      using r(2) by simp
    have "deref h' (length h) = deref ?h3 (length h)"
      using r(4) prems(2) by simp
    with new r(3) e have l3: "map (deref h') (length h # new') =
        map (\<lambda>d. Some (store_entry d)) (gcal_loop t s (d # ds))" by simp
    have l4: "\<forall>b < length h. b \<noteq> res \<longrightarrow> deref h' b = deref h b"
      using r(4) keep by simp
    have l5: "length h \<le> length h'" using r(5) by simp
    from l1 l2 l3 l4 l5 show ?thesis unfolding ds0 by blast
  qed
qed

lemma map_filter_refs:
  "map (deref h) new = map (\<lambda>d. Some (f d)) xs \<Longrightarrow>
   List.map_filter (\<lambda>x. case x of HRef b \<Rightarrow> deref h b | _ \<Rightarrow> None) (map HRef new) = map f xs"
proof (induction new arbitrary: xs)
  case Nil
  then show ?case by (simp add: map_filter_simps)
next
  case (Cons b new)
  then obtain x xs' where "xs = x # xs'" "deref h b = Some (f x)"
    "map (deref h) new = map (\<lambda>d. Some (f d)) xs'" by (cases xs) auto
  with Cons.IH [of xs'] show ?case by (simp add: map_filter_simps)
qed

lemma store_summary_layout:
  fixes item :: "'a summary_data_scheme"
  defines "sch \<equiv> (case sd_schedule item of None \<Rightarrow> [] | Some s \<Rightarrow> s)"
  defines "h0 \<equiv> fst (store_summary item)"
  shows "length h0 = length sch + 2"
    and "snd (store_summary item) = HRef (Suc (length sch))"
    and "\<forall>i < length sch. deref h0 i = Some (store_entry (sch ! i))"
    and "deref h0 (length sch) = Some (HList (map HRef [0 ..< length sch]))"
    and "h_get (h0 @ hs) (HRef (Suc (length sch))) ''schedule'' =
           Inr (case sd_schedule item of None \<Rightarrow> None | Some s \<Rightarrow> Some (HRef (length sch)))"
    and "h_get (h0 @ hs) (HRef (Suc (length sch))) ''title'' = Inr (map_option HStr (sd_title item))"
    and "h_get (h0 @ hs) (HRef (Suc (length sch))) ''summary'' = Inr (map_option HStr (sd_summary item))"
proof -
  show "length h0 = length sch + 2"
    by (simp add: h0_def sch_def store_summary_def Let_def)
  show "snd (store_summary item) = HRef (Suc (length sch))"
    by (simp add: sch_def store_summary_def Let_def)
  show "\<forall>i < length sch. deref h0 i = Some (store_entry (sch ! i))"
    by (simp add: h0_def sch_def store_summary_def Let_def deref_def nth_append)
  show "deref h0 (length sch) = Some (HList (map HRef [0 ..< length sch]))"
    by (simp add: h0_def sch_def store_summary_def Let_def deref_def nth_append)
  have d: "deref (h0 @ hs) (Suc (length sch)) = Some (h0 ! Suc (length sch))"
    by (simp add: h0_def sch_def store_summary_def Let_def deref_def nth_append)
  have i: "h0 ! Suc (length sch) =
      HDict ((case sd_title item of None \<Rightarrow> [] | Some s \<Rightarrow> [(''title'', HStr s)]) @
             (case sd_summary item of None \<Rightarrow> [] | Some s \<Rightarrow> [(''summary'', HStr s)]) @
             (case sd_schedule item of None \<Rightarrow> [] | Some s \<Rightarrow> [(''schedule'', HRef (length sch))]) @
             (case sd_target item of None \<Rightarrow> [] | Some s \<Rightarrow> [(''target'', HStr s)]) @
             (case sd_application_method item of None \<Rightarrow> [] | Some s \<Rightarrow> [(''application_method'', HStr s)]) @
             (case sd_important_notes item of None \<Rightarrow> [] | Some s \<Rightarrow> [(''important_notes'', HStr s)]))"
    by (simp add: h0_def sch_def store_summary_def Let_def nth_append split: option.splits)
  show "h_get (h0 @ hs) (HRef (Suc (length sch))) ''schedule'' =
           Inr (case sd_schedule item of None \<Rightarrow> None | Some s \<Rightarrow> Some (HRef (length sch)))"
    by (simp add: h_get_def d i split: option.splits)
  show "h_get (h0 @ hs) (HRef (Suc (length sch))) ''title'' = Inr (map_option HStr (sd_title item))"
    by (simp add: h_get_def d i split: option.splits)
  show "h_get (h0 @ hs) (HRef (Suc (length sch))) ''summary'' = Inr (map_option HStr (sd_summary item))"
    by (simp add: h_get_def d i split: option.splits)
qed

lemma h_get_or_strip_str:
  "h_get h item k = Inr (map_option HStr x) \<Longrightarrow>
   h_get_or_strip h item k dflt = Inr (py_strip (or_else x dflt))"
  by (cases x) (simp_all add: h_get_or_strip_def or_else_def h_truthy_def h_strip_def)

text \<open>
  The two models agree: for a summary laid out in a store, the call returns a list whose
  dictionaries are the entries that \<open>build_gcal_urls\<close> returns for the summary.
\<close>

lemma h_build_gcal_urls_refines:
  fixes item :: "'a summary_data_scheme"
  shows "\<exists>a h'. h_build_gcal_urls (fst (store_summary item)) (snd (store_summary item)) =
                 (Inr (HRef a), h') \<and>
               read_dicts h' (HRef a) = map store_entry (build_gcal_urls item)"
proof -
  define sch where "sch = (case sd_schedule item of None \<Rightarrow> [] | Some s \<Rightarrow> s)"
  define h0 where "h0 = fst (store_summary item)"
  define n where "n = length sch"
  note lay = store_summary_layout [of item, folded sch_def h0_def n_def]
  have it: "snd (store_summary item) = HRef (Suc n)" by (rule lay(2))
  have g0: "h_get h0 (HRef (Suc n)) ''schedule'' =
             Inr (case sd_schedule item of None \<Rightarrow> None | Some s \<Rightarrow> Some (HRef n))"
    using lay(5) [of "[]"] by simp
  show ?thesis
  proof (cases "sch = []")
    case True
    then have b: "build_gcal_urls item = []"
      by (simp add: build_gcal_urls_def sch_def split: option.splits)
    have "case sd_schedule item of None \<Rightarrow> True | Some s \<Rightarrow> \<not> h_truthy h0 (HRef n)"
      using True lay(4) by (simp add: h_truthy_def n_def split: option.splits)
    then have "h_build_gcal_urls h0 (HRef (Suc n)) = (Inr (HRef (length h0)), h0 @ [HList []])"
      by (simp add: h_build_gcal_urls_def g0 alloc_def split: option.splits)
    moreover have "read_dicts (h0 @ [HList []]) (HRef (length h0)) = []"
      by (simp add: read_dicts_def deref_def map_filter_simps)
    ultimately show ?thesis unfolding h0_def [symmetric] it b by simp
  next
    case False
    then obtain s where s: "sd_schedule item = Some s" "s = sch" "s \<noteq> []"
      by (auto simp: sch_def split: option.splits)
    let ?h1 = "h0 @ [HList []]"
    let ?res = "length h0"
    let ?t = "py_strip (or_else (sd_title item) no_title)"
    let ?u = "py_strip (or_else (sd_summary item) [])"
    have b: "build_gcal_urls item = gcal_loop ?t ?u sch"
      using s by (simp add: build_gcal_urls_def)
    have tr: "h_truthy h0 (HRef n)"
      using lay(4) s by (simp add: h_truthy_def n_def)
    have ti: "h_get_or_strip ?h1 (HRef (Suc n)) ''title'' no_title = Inr ?t"
      by (rule h_get_or_strip_str) (rule lay(6))
    have su: "h_get_or_strip ?h1 (HRef (Suc n)) ''summary'' [] = Inr ?u"
      by (rule h_get_or_strip_str) (rule lay(7))
    have dn: "deref ?h1 n = Some (HList (map HRef [0 ..< n]))"
      using lay(4) lay(1) by (simp add: deref_def nth_append n_def split: if_splits)
    then have iter: "h_iter ?h1 (HRef n) = Inr (map HRef [0 ..< n])"
      by (simp add: h_iter_def)
    have p1: "list_all2 (\<lambda>a d. a < n \<and> deref ?h1 a = Some (store_entry d)) [0 ..< n] sch"
      using lay(3) lay(1) by (simp add: list_all2_conv_all_nth n_def deref_def nth_append)
    have p2: "n \<le> ?res" using lay(1) by simp
    have p3: "?res < length ?h1" by simp
    have p4: "deref ?h1 ?res = Some (HList [])" by (simp add: deref_def)
    from h_gcal_loop_refines [OF p1 p2 p3 p4, of ?t ?u] obtain h' new where r:
      "h_gcal_loop ?t ?u ?res (map HRef [0 ..< n]) ?h1 = (None, h')"
      "deref h' ?res = Some (HList ([] @ map HRef new))"
      "map (deref h') new = map (\<lambda>d. Some (store_entry d)) (gcal_loop ?t ?u sch)"
      by blast
    have run: "h_build_gcal_urls h0 (HRef (Suc n)) = (Inr (HRef ?res), h')"
      using s tr ti su iter r(1) by (simp add: h_build_gcal_urls_def g0 alloc_def)
    have "read_dicts h' (HRef ?res) = map store_entry (gcal_loop ?t ?u sch)"
      using r(2) map_filter_refs [OF r(3)] by (simp add: read_dicts_def)
    with run show ?thesis unfolding h0_def [symmetric] it b by blast
  qed
qed


end
